theory Spec2Isabelle
  imports Complex_Main "HOL-Library.Sublist"
begin

section \<open>JSON values\<close>

text \<open>
  Feature properties on the client and \<open>jsonb\<close> columns in the database hold JSON values.
  Numbers are the rationals a JSON literal denotes; objects are association lists whose
  keys are looked up with \<^const>\<open>map_of\<close>.
\<close>

datatype json =
    JNull
  | JBool bool
  | JNum rat
  | JStr string
  | JArr "json list"
  | JObj "(string \<times> json) list"

type_synonym props = "(string \<times> json) list"

text \<open>
  \<open>Array.prototype.includes\<close> on a \<open>string[]\<close>, applied to a property read that may be
  \<open>undefined\<close> (\<open>None\<close>) or any JSON value: SameValueZero only ever equates a string
  with a string.
\<close>

fun js_includes :: "string list \<Rightarrow> json option \<Rightarrow> bool" where
  "js_includes xs (Some (JStr s)) = (s \<in> set xs)"
| "js_includes xs _ = False"

section \<open>Sidebar: the filter state\<close>

text \<open>\<open>FilterState\<close> of \<open>types\<close>, and its initial value in \<open>App.tsx\<close>.\<close>

record FilterState =
  operators :: "string list"
  categories :: "string list"
  showInfrastructure :: bool
  showBuildings :: bool

definition initialFilters :: FilterState where
  "initialFilters =
     \<lparr>operators = [], categories = [], showInfrastructure = True, showBuildings = True\<rparr>"

text \<open>
  \<open>toggleOperator\<close> and \<open>toggleCategory\<close> of \<open>Sidebar.tsx\<close>: the updater passed to
  \<open>setFilters\<close>, applied to the previous state.
\<close>

definition toggleOperator :: "string \<Rightarrow> FilterState \<Rightarrow> FilterState" where
  "toggleOperator code prev =
     prev\<lparr>operators :=
       (if code \<in> set (operators prev)
        then filter (\<lambda>x. x \<noteq> code) (operators prev)
        else operators prev @ [code])\<rparr>"

definition toggleCategory :: "string \<Rightarrow> FilterState \<Rightarrow> FilterState" where
  "toggleCategory code prev =
     prev\<lparr>categories :=
       (if code \<in> set (categories prev)
        then filter (\<lambda>c. c \<noteq> code) (categories prev)
        else categories prev @ [code])\<rparr>"

definition clearFilters :: FilterState where
  "clearFilters =
     \<lparr>operators = [], categories = [], showInfrastructure = True, showBuildings = True\<rparr>"

section \<open>GeoJSON features as the client receives them\<close>

text \<open>
  The client types the server's answer as \<open>GeoJSON.FeatureCollection\<close>. A feature has
  \<open>properties\<close> (an object or \<open>null\<close>) and a \<open>geometry\<close> (an object or \<open>null\<close>). A geometry
  has a \<open>type\<close> string and, except for a geometry collection, \<open>coordinates\<close>: arrays of
  numbers nested up to three deep.
\<close>

datatype coord = Num rat | Arr "coord list"

record Geometry =
  gtype :: string
  coordinates :: "coord list option"

record Feature =
  properties :: "props option"
  geometry :: "Geometry option"

text \<open>A property read \<open>props.k\<close> after \<open>const props = feature.properties || {}\<close>.\<close>

definition propsOf :: "Feature \<Rightarrow> props" where
  "propsOf feature = (case properties feature of None \<Rightarrow> [] | Some p \<Rightarrow> p)"

text \<open>The optional chain \<open>feature.properties?.k\<close>.\<close>

definition propOpt :: "Feature \<Rightarrow> string \<Rightarrow> json option" where
  "propOpt feature k = (case properties feature of None \<Rightarrow> None | Some p \<Rightarrow> map_of p k)"

section \<open>FeaturePanel\<close>

datatype icon = Building2 | Cable

datatype details = BuildingDetails | InfrastructureDetails

record Panel =
  headerIcon :: icon
  leftColumn :: details
  badge :: string

text \<open>\<open>const isBuilding = props.building_type !== undefined\<close>.\<close>

definition isBuilding :: "Feature \<Rightarrow> bool" where
  "isBuilding feature = (map_of (propsOf feature) ''building_type'' \<noteq> None)"

text \<open>
  \<open>FeaturePanel\<close>: nothing for no feature; otherwise the header icon, the rows of the left
  column (type, floors and year of a building, or type, category and material of an
  infrastructure object) and the collection badge beside the STAC id all follow
  \<open>isBuilding\<close>. The values shown in the rows are left out.
\<close>

definition FeaturePanel :: "Feature option \<Rightarrow> Panel option" where
  "FeaturePanel feature =
     (case feature of
        None \<Rightarrow> None
      | Some f \<Rightarrow>
          Some \<lparr>headerIcon = (if isBuilding f then Building2 else Cable),
                leftColumn = (if isBuilding f then BuildingDetails else InfrastructureDetails),
                badge = (if isBuilding f then ''buildings'' else ''infrastructure'')\<rparr>)"

section \<open>OperatorPortal: choosing and uploading a file\<close>

record PortalOperator =
  op_id :: string
  op_name :: string
  op_name_short :: "string option"
  op_category :: string

record Stats =
  stats_operator :: string
  infrastructure_count :: int
  building_count :: int
  last_import :: "string option"

record ImportResult =
  total :: int
  imported :: int
  errors :: int
  message :: string
  first_error :: "string option"
  detected_type :: "string option"

record File =
  name :: string
  content :: string

text \<open>
  The state variables of the component, after it has mounted; the list of operators, which
  only fills the sign-in form, is left out. React compares the dependencies of an effect
  by reference, so an object held in \<open>currentOperator\<close> or \<open>importResult\<close> is kept with the
  number of its allocation, and \<open>allocated\<close> counts the objects made so far.
\<close>

record PortalState =
  currentOperator :: "(nat \<times> PortalOperator) option"
  password :: string
  selectedOperatorId :: string
  loginError :: string
  stats :: "Stats option"
  importing :: bool
  importResult :: "(nat \<times> ImportResult) option"
  selectedFile :: "File option"
  dragActive :: bool
  allocated :: nat

definition initialPortal :: PortalState where
  "initialPortal =
     \<lparr>currentOperator = None, password = [], selectedOperatorId = [], loginError = [],
      stats = None, importing = False, importResult = None, selectedFile = None,
      dragActive = False, allocated = 0\<rparr>"

text \<open>
  The two setters that take an object. Every object the component gives them is a new
  one: an object literal, or the decoded body of a response.
\<close>

definition setCurrentOperator :: "PortalOperator option \<Rightarrow> PortalState \<Rightarrow> PortalState" where
  "setCurrentOperator v s =
     (case v of
        None \<Rightarrow> s\<lparr>currentOperator := None\<rparr>
      | Some operator \<Rightarrow>
          s\<lparr>currentOperator := Some (allocated s, operator), allocated := Suc (allocated s)\<rparr>)"

definition setImportResult :: "ImportResult option \<Rightarrow> PortalState \<Rightarrow> PortalState" where
  "setImportResult v s =
     (case v of
        None \<Rightarrow> s\<lparr>importResult := None\<rparr>
      | Some result \<Rightarrow>
          s\<lparr>importResult := Some (allocated s, result), allocated := Suc (allocated s)\<rparr>)"

text \<open>\<open>String.prototype.endsWith\<close>.\<close>

definition endsWith :: "string \<Rightarrow> string \<Rightarrow> bool" where
  "endsWith s t = (drop (length s - length t) s = t)"

text \<open>The user messages, as UTF-8 bytes.\<close>

definition msgOnlyGeoJSON :: string where
  "msgOnlyGeoJSON =
     ''Yaln'' @ [CHR 0xC4, CHR 0xB1] @ ''z GeoJSON fayllar'' @ [CHR 0xC4, CHR 0xB1]
     @ '' q'' @ [CHR 0xC9, CHR 0x99] @ ''bul edilir''"

definition msgImportError :: string where
  "msgImportError =
     ''Import x'' @ [CHR 0xC9, CHR 0x99] @ ''tas'' @ [CHR 0xC4, CHR 0xB1]
     @ '' ba'' @ [CHR 0xC5, CHR 0x9F] @ '' verdi''"

definition msgConnectionError :: string where
  "msgConnectionError =
     ''Ba'' @ [CHR 0xC4, CHR 0x9F] @ ''lant'' @ [CHR 0xC4, CHR 0xB1]
     @ '' x'' @ [CHR 0xC9, CHR 0x99] @ ''tas'' @ [CHR 0xC4, CHR 0xB1]"

definition resultOnlyGeoJSON :: ImportResult where
  "resultOnlyGeoJSON =
     \<lparr>total = 0, imported = 0, errors = 1, message = msgOnlyGeoJSON,
      first_error = None, detected_type = None\<rparr>"

definition resultImportError :: ImportResult where
  "resultImportError =
     \<lparr>total = 0, imported = 0, errors = 1, message = msgImportError,
      first_error = None, detected_type = None\<rparr>"

definition accepted :: "File \<Rightarrow> bool" where
  "accepted file = (endsWith (name file) ''.geojson'' \<or> endsWith (name file) ''.json'')"

text \<open>
  \<open>handleFileSelect\<close>: three branches, the last one (no file) leaving the state alone. The
  file input calls it with \<open>e.target.files?.[0] || null\<close>.
\<close>

definition handleFileSelect :: "File option \<Rightarrow> PortalState \<Rightarrow> PortalState" where
  "handleFileSelect file s =
     (case file of
        Some f \<Rightarrow>
          if accepted f then setImportResult None (s\<lparr>selectedFile := Some f\<rparr>)
          else setImportResult (Some resultOnlyGeoJSON) s
      | None \<Rightarrow> s)"

text \<open>\<open>handleDrag\<close>, by the type of the drag event.\<close>

definition handleDrag :: "string \<Rightarrow> PortalState \<Rightarrow> PortalState" where
  "handleDrag type s =
     (if type = ''dragenter'' \<or> type = ''dragover'' then s\<lparr>dragActive := True\<rparr>
      else if type = ''dragleave'' then s\<lparr>dragActive := False\<rparr>
      else s)"

text \<open>\<open>handleDrop\<close>: \<open>e.dataTransfer.files?.[0]\<close> is the first dropped file, if any.\<close>

definition handleDrop :: "File list \<Rightarrow> PortalState \<Rightarrow> PortalState" where
  "handleDrop files s =
     (case files of
        [] \<Rightarrow> s\<lparr>dragActive := False\<rparr>
      | f # _ \<Rightarrow> handleFileSelect (Some f) (s\<lparr>dragActive := False\<rparr>))"

definition handleLogout :: "PortalState \<Rightarrow> PortalState" where
  "handleLogout s =
     setImportResult None
       ((setCurrentOperator None s)\<lparr>stats := None, password := [], selectedOperatorId := []\<rparr>)"

text \<open>
  What the portal sends to the server. An awaited \<open>fetch(...)\<close> followed by \<open>res.json()\<close>
  either rejects or resolves with the decoded body, taken here at the type the component
  declares for it.
\<close>

datatype request =
    PostLogin string string
  | PostImport string File
  | GetStats string

datatype 'a outcome = Rejects | Resolves 'a

datatype loginData = LoginSuccess PortalOperator | LoginFailure string

text \<open>
  What a handler does, in order: the requests it sends, and the states React renders. The
  state updates made in one go, up to the next \<open>await\<close> or the end of the handler, are
  rendered together.
\<close>

datatype action = Send request | Render PortalState

text \<open>
  \<open>handleImport\<close>. The upload carries \<open>selectedFile\<close>. A rejection anywhere in the
  \<open>try\<close> block, the statistics refresh included, ends in the \<open>catch\<close> branch, which
  overwrites the result; \<open>finally\<close> clears the selection.
\<close>

definition handleImport ::
  "ImportResult outcome \<Rightarrow> Stats outcome \<Rightarrow> PortalState \<Rightarrow> action list" where
  "handleImport importAnswer statsAnswer s =
     (case (selectedFile s, currentOperator s) of
        (Some file, Some (_, operator)) \<Rightarrow>
          (let s1 = setImportResult None (s\<lparr>importing := True\<rparr>);
               failed = setImportResult (Some resultImportError);
               cleared = (\<lambda>t. t\<lparr>importing := False, selectedFile := None\<rparr>)
           in [Send (PostImport (op_id operator) file), Render s1]
              @ (case importAnswer of
                   Rejects \<Rightarrow> [Render (cleared (failed s1))]
                 | Resolves data \<Rightarrow>
                     (let s2 = setImportResult (Some data) s1
                      in if imported data > 0 then
                           [Send (GetStats (op_id operator)), Render s2]
                           @ (case statsAnswer of
                                Rejects \<Rightarrow> [Render (cleared (failed s2))]
                              | Resolves statsData \<Rightarrow>
                                  [Render (cleared (s2\<lparr>stats := Some statsData\<rparr>))])
                         else [Render (cleared s2)])))
      | _ \<Rightarrow> [])"

definition handleLogin :: "loginData outcome \<Rightarrow> PortalState \<Rightarrow> action list" where
  "handleLogin answer s =
     (let s1 = s\<lparr>loginError := []\<rparr>
      in [Send (PostLogin (selectedOperatorId s) (password s)), Render s1,
          Render (case answer of
                    Rejects \<Rightarrow> s1\<lparr>loginError := msgConnectionError\<rparr>
                  | Resolves (LoginSuccess operator) \<Rightarrow> setCurrentOperator (Some operator) s1
                  | Resolves (LoginFailure msg) \<Rightarrow> s1\<lparr>loginError := msg\<rparr>)])"

text \<open>
  The effect on \<open>[currentOperator, importResult]\<close>. It runs after a render in which one of
  the two is another reference than in the render before, and then, if an operator is
  signed in, reads that operator's statistics. The answer is given to \<open>setStats\<close> when it
  arrives.
\<close>

definition deps :: "PortalState \<Rightarrow> nat option \<times> nat option" where
  "deps s = (map_option fst (currentOperator s), map_option fst (importResult s))"

definition statsEffect :: "PortalState \<Rightarrow> PortalState \<Rightarrow> request list" where
  "statsEffect rendered s =
     (if deps s = deps rendered then []
      else case currentOperator s of
             None \<Rightarrow> []
           | Some (_, operator) \<Rightarrow> [GetStats (op_id operator)])"

text \<open>
  Carrying out what a handler does, from the state last rendered: the state rendered in
  the end, and every request sent on the way, those of the effect included.
\<close>

fun perform :: "PortalState \<Rightarrow> action list \<Rightarrow> PortalState \<times> request list" where
  "perform s [] = (s, [])"
| "perform s (Send r # rest) = (case perform s rest of (t, sent) \<Rightarrow> (t, r # sent))"
| "perform s (Render s1 # rest) =
     (case perform s1 rest of (t, sent) \<Rightarrow> (t, statsEffect s s1 @ sent))"

text \<open>
  The portal as a transition system: what the user and the network can make happen.
  \<open>StatsArrive\<close> is the answer to a statistics read of the effect.
\<close>

datatype event =
    SetPassword string
  | SetSelectedOperatorId string
  | Login "loginData outcome"
  | Logout
  | FileSelect "File option"
  | Drag string
  | Drop "File list"
  | Import "ImportResult outcome" "Stats outcome"
  | StatsArrive Stats

fun handler :: "event \<Rightarrow> PortalState \<Rightarrow> action list" where
  "handler (SetPassword p) s = [Render (s\<lparr>password := p\<rparr>)]"
| "handler (SetSelectedOperatorId i) s = [Render (s\<lparr>selectedOperatorId := i\<rparr>)]"
| "handler (Login answer) s = handleLogin answer s"
| "handler Logout s = [Render (handleLogout s)]"
| "handler (FileSelect file) s = [Render (handleFileSelect file s)]"
| "handler (Drag type) s = [Render (handleDrag type s)]"
| "handler (Drop files) s = [Render (handleDrop files s)]"
| "handler (Import importAnswer statsAnswer) s = handleImport importAnswer statsAnswer s"
| "handler (StatsArrive statsData) s = [Render (s\<lparr>stats := Some statsData\<rparr>)]"

definition step :: "event \<Rightarrow> PortalState \<Rightarrow> PortalState \<times> request list" where
  "step e s = perform s (handler e s)"

text \<open>Running a sequence of events, collecting every request sent on the way.\<close>

fun run :: "event list \<Rightarrow> PortalState \<Rightarrow> PortalState \<times> request list" where
  "run [] s = (s, [])"
| "run (e # es) s =
     (case step e s of (s1, sent) \<Rightarrow> (case run es s1 of (s2, later) \<Rightarrow> (s2, sent @ later)))"

text \<open>The files that a list of requests uploads.\<close>

fun uploads :: "request list \<Rightarrow> File list" where
  "uploads [] = []"
| "uploads (PostImport _ f # rs) = f # uploads rs"
| "uploads (_ # rs) = uploads rs"

text \<open>The selected file, when there is one, passed the name check.\<close>

definition selectionAccepted :: "PortalState \<Rightarrow> bool" where
  "selectionAccepted s = (case selectedFile s of None \<Rightarrow> True | Some f \<Rightarrow> accepted f)"

text \<open>The objects held in the state were allocated before the next one will be.\<close>

definition wellStamped :: "PortalState \<Rightarrow> bool" where
  "wellStamped s =
     ((case currentOperator s of None \<Rightarrow> True | Some (k, _) \<Rightarrow> k < allocated s)
      \<and> (case importResult s of None \<Rightarrow> True | Some (k, _) \<Rightarrow> k < allocated s))"

text \<open>An operator signed in, a GeoJSON file and a text file.\<close>

definition azersuPortal :: PortalOperator where
  "azersuPortal =
     \<lparr>op_id = ''7'', op_name = ''Azersu'', op_name_short = None, op_category = ''water''\<rparr>"

definition signedIn :: PortalState where
  "signedIn = fst (step (Login (Resolves (LoginSuccess azersuPortal))) initialPortal)"

definition pipesFile :: File where
  "pipesFile = \<lparr>name = ''pipes.geojson'', content = ''{}''\<rparr>"

definition notesFile :: File where
  "notesFile = \<lparr>name = ''notes.txt'', content = ''hello''\<rparr>"

section \<open>Map: loading the two layers\<close>

text \<open>An array read \<open>xs[i]\<close>: \<open>undefined\<close> beyond the end.\<close>

definition elemAt :: "'a list \<Rightarrow> nat \<Rightarrow> 'a option" where
  "elemAt xs i = (if i < length xs then Some (xs ! i) else None)"

text \<open>
  The read \<open>c[i]\<close> on an element of a coordinate array: an array gives its element or
  \<open>undefined\<close>, a number has no indexed members.
\<close>

fun js_index :: "coord \<Rightarrow> nat \<Rightarrow> coord option" where
  "js_index (Arr xs) i = elemAt xs i"
| "js_index (Num _) i = None"

text \<open>
  What the loaders hand to Leaflet. A position is the pair of arguments of
  \<open>L.latLng(c[1], c[0])\<close>; a polyline or polygon gets the positions of
  \<open>coordinates.map(...)\<close>, a circle marker one position and its radius. A layer is the
  shape with the properties its colour and its popup are built from.
\<close>

type_synonym position = "coord option \<times> coord option"

datatype shape =
    Polyline "position list"
  | Polygon "position list"
  | CircleMarker position nat

record Layer =
  shape :: shape
  popupProps :: props

text \<open>
  Leaflet is not part of the repository. What the \<open>try\<close> block does for one layer is
  taken as a whole: the colour looked up and the popup's HTML built from the properties,
  the constructor with its \<open>L.latLng\<close> arguments, \<open>bindPopup\<close>, \<open>on\<close> and, last, \<open>addTo\<close>,
  which registers the layer in the layer group and, the group being on the map, adds it
  to the map. It all completes; or something before the registration throws, and nothing
  was added; or \<open>addTo\<close> throws after the group has registered the layer, which then stays
  in the group. \<open>draws\<close> says which, for each layer.
\<close>

datatype leaflet_outcome = Completes | ThrowsBeforeAdding | ThrowsAfterAdding

datatype exn = LeafletError

text \<open>
  The value of the \<open>try\<close> block: the layer it has put into the group, if any, and the
  exception it ended with, if any.
\<close>

type_synonym attempt = "Layer option \<times> exn option"

definition tryDraw :: "(Layer \<Rightarrow> leaflet_outcome) \<Rightarrow> shape \<Rightarrow> props \<Rightarrow> attempt" where
  "tryDraw draws sh p =
     (let l = \<lparr>shape = sh, popupProps = p\<rparr>
      in case draws l of
           Completes \<Rightarrow> (Some l, None)
         | ThrowsBeforeAdding \<Rightarrow> (None, Some LeafletError)
         | ThrowsAfterAdding \<Rightarrow> (Some l, Some LeafletError))"

text \<open>
  \<open>catch (e) {}\<close>: whatever the block threw, the callback returns normally; what the block
  had put into the group by then is still there.
\<close>

definition catchAll :: "attempt \<Rightarrow> exn + Layer option" where
  "catchAll r = Inr (fst r)"

definition toLatLngs :: "coord list \<Rightarrow> position list" where
  "toLatLngs cs = map (\<lambda>c. (js_index c 1, js_index c 0)) cs"

text \<open>The two client-side checks that open the callback of \<open>loadInfrastructure\<close>.\<close>

definition operatorCheck :: "FilterState \<Rightarrow> Feature \<Rightarrow> bool" where
  "operatorCheck filters feature =
     (\<not> (length (operators filters) > 1
         \<and> \<not> js_includes (operators filters) (propOpt feature ''operator_code'')))"

definition categoryCheck :: "FilterState \<Rightarrow> Feature \<Rightarrow> bool" where
  "categoryCheck filters feature =
     (\<not> (length (categories filters) > 1
         \<and> \<not> js_includes (categories filters) (propOpt feature ''category'')))"

text \<open>The \<open>try\<close> block of the infrastructure callback.\<close>

definition infraBody :: "(Layer \<Rightarrow> leaflet_outcome) \<Rightarrow> Feature \<Rightarrow> attempt" where
  "infraBody draws feature =
     (case geometry feature of
        None \<Rightarrow> (None, None)
      | Some geom \<Rightarrow>
          (case coordinates geom of
             None \<Rightarrow> (None, None)
           | Some cs \<Rightarrow>
               if gtype geom = ''LineString'' \<and> length cs \<ge> 2
               then tryDraw draws (Polyline (toLatLngs cs)) (propsOf feature)
               else if gtype geom = ''Point'' \<and> length cs \<ge> 2
               then tryDraw draws (CircleMarker (elemAt cs 1, elemAt cs 0) 8) (propsOf feature)
               else (None, None)))"

text \<open>
  The callback given to \<open>data.features.forEach\<close> in \<open>loadInfrastructure\<close>. \<open>Inl\<close> would
  be an exception leaving the callback; \<open>Inr\<close> carries the layer the feature has left in
  the group, \<open>Inr None\<close> for a feature that adds nothing.
\<close>

definition renderInfra :: "(Layer \<Rightarrow> leaflet_outcome) \<Rightarrow> FilterState \<Rightarrow> Feature \<Rightarrow> exn + Layer option" where
  "renderInfra draws filters feature =
     (if \<not> operatorCheck filters feature then Inr None
      else if \<not> categoryCheck filters feature then Inr None
      else catchAll (infraBody draws feature))"

text \<open>The callback of \<open>loadBuildings\<close>: one check, on the operator, as soon as any is selected.\<close>

definition buildingCheck :: "FilterState \<Rightarrow> Feature \<Rightarrow> bool" where
  "buildingCheck filters feature =
     (\<not> (length (operators filters) > 0
         \<and> \<not> js_includes (operators filters) (propOpt feature ''operator_code'')))"

text \<open>
  \<open>geom.coordinates[0]?.length >= 4\<close>: the first element must be an array of at least
  four entries; a missing first element or a number makes the comparison false.
\<close>

definition outerRing :: "coord list \<Rightarrow> coord list option" where
  "outerRing cs =
     (case elemAt cs 0 of
        Some (Arr ring) \<Rightarrow> if length ring \<ge> 4 then Some ring else None
      | _ \<Rightarrow> None)"

definition buildingBody :: "(Layer \<Rightarrow> leaflet_outcome) \<Rightarrow> Feature \<Rightarrow> attempt" where
  "buildingBody draws feature =
     (case geometry feature of
        None \<Rightarrow> (None, None)
      | Some geom \<Rightarrow>
          (case coordinates geom of
             None \<Rightarrow> (None, None)
           | Some cs \<Rightarrow>
               (case (if gtype geom = ''Polygon'' then outerRing cs else None) of
                  Some ring \<Rightarrow> tryDraw draws (Polygon (toLatLngs ring)) (propsOf feature)
                | None \<Rightarrow>
                    if gtype geom = ''Point'' \<and> length cs \<ge> 2
                    then tryDraw draws (CircleMarker (elemAt cs 1, elemAt cs 0) 10)
                           (propsOf feature)
                    else (None, None))))"

definition renderBuilding :: "(Layer \<Rightarrow> leaflet_outcome) \<Rightarrow> FilterState \<Rightarrow> Feature \<Rightarrow> exn + Layer option" where
  "renderBuilding draws filters feature =
     (if \<not> buildingCheck filters feature then Inr None
      else catchAll (buildingBody draws feature))"

text \<open>
  \<open>forEach\<close>: the callback runs on every feature in order; an exception leaving the
  callback would end the loop and reject the promise.
\<close>

fun forEachFeature :: "(Feature \<Rightarrow> exn + Layer option) \<Rightarrow> Feature list \<Rightarrow> exn + Layer list" where
  "forEachFeature callback [] = Inr []"
| "forEachFeature callback (feature # features) =
     (case callback feature of
        Inl e \<Rightarrow> Inl e
      | Inr added \<Rightarrow>
          (case forEachFeature callback features of
             Inl e \<Rightarrow> Inl e
           | Inr layers \<Rightarrow> Inr ((case added of None \<Rightarrow> [] | Some l \<Rightarrow> [l]) @ layers)))"

text \<open>The query string of the infrastructure request.\<close>

definition infraParams :: "FilterState \<Rightarrow> (string \<times> string) list" where
  "infraParams filters =
     [(''limit'', ''1000'')]
     @ (case categories filters of [c] \<Rightarrow> [(''category'', c)] | _ \<Rightarrow> [])
     @ (case operators filters of [c] \<Rightarrow> [(''operator'', c)] | _ \<Rightarrow> [])"

text \<open>
  A loader's effect: the request it sends, if any, and the content of its layer group
  afterwards (\<open>None\<close> while the group does not exist yet). The answer \<open>Rejects\<close> stands for
  a failed fetch, a body that is not JSON and a body without a \<open>features\<close> array: each
  ends in \<open>.catch(console.error)\<close> with the group cleared. \<open>Inl\<close> in the result would be an
  exception thrown by the callback.
\<close>

record Loaded =
  request :: "(string \<times> (string \<times> string) list) option"
  layers :: "(exn + Layer list) option"

definition loadInfrastructure ::
  "(Layer \<Rightarrow> leaflet_outcome) \<Rightarrow> FilterState \<Rightarrow> Layer list option \<Rightarrow> Feature list outcome
     \<Rightarrow> Loaded" where
  "loadInfrastructure draws filters infraLayer answer =
     (case infraLayer of
        None \<Rightarrow> \<lparr>request = None, layers = None\<rparr>
      | Some _ \<Rightarrow>
          if \<not> showInfrastructure filters then \<lparr>request = None, layers = Some (Inr [])\<rparr>
          else
            \<lparr>request = Some (''/api/geojson/infrastructure'', infraParams filters),
             layers = Some (case answer of
                              Rejects \<Rightarrow> Inr []
                            | Resolves features \<Rightarrow>
                                forEachFeature (renderInfra draws filters) features)\<rparr>)"

definition loadBuildings ::
  "(Layer \<Rightarrow> leaflet_outcome) \<Rightarrow> FilterState \<Rightarrow> Layer list option \<Rightarrow> Feature list outcome
     \<Rightarrow> Loaded" where
  "loadBuildings draws filters buildingLayer answer =
     (case buildingLayer of
        None \<Rightarrow> \<lparr>request = None, layers = None\<rparr>
      | Some _ \<Rightarrow>
          if \<not> showBuildings filters then \<lparr>request = None, layers = Some (Inr [])\<rparr>
          else
            \<lparr>request = Some (''/api/geojson/buildings'', [(''limit'', ''500'')]),
             layers = Some (case answer of
                              Rejects \<Rightarrow> Inr []
                            | Resolves features \<Rightarrow>
                                forEachFeature (renderBuilding draws filters) features)\<rparr>)"

text \<open>
  The features with none of the defects the rendering pass guards against: a geometry
  with coordinates, of a handled type, with enough positions.
\<close>

definition wellShapedInfra :: "Feature \<Rightarrow> bool" where
  "wellShapedInfra feature =
     (case geometry feature of
        None \<Rightarrow> False
      | Some geom \<Rightarrow>
          (case coordinates geom of
             None \<Rightarrow> False
           | Some cs \<Rightarrow> (gtype geom = ''LineString'' \<or> gtype geom = ''Point'') \<and> length cs \<ge> 2))"

definition wellShapedBuilding :: "Feature \<Rightarrow> bool" where
  "wellShapedBuilding feature =
     (case geometry feature of
        None \<Rightarrow> False
      | Some geom \<Rightarrow>
          (case coordinates geom of
             None \<Rightarrow> False
           | Some cs \<Rightarrow>
               (gtype geom = ''Polygon'' \<and> outerRing cs \<noteq> None)
               \<or> (gtype geom = ''Point'' \<and> length cs \<ge> 2)))"

text \<open>What a callback that always returns adds for one feature.\<close>

definition added :: "(Feature \<Rightarrow> exn + Layer option) \<Rightarrow> Feature \<Rightarrow> Layer list" where
  "added callback feature =
     (case callback feature of Inr (Some l) \<Rightarrow> [l] | _ \<Rightarrow> [])"

section \<open>Example data for the map\<close>

text \<open>A Leaflet that completes on every shape.\<close>

definition completes :: "Layer \<Rightarrow> leaflet_outcome" where
  "completes l = Completes"

definition twoOperators :: FilterState where
  "twoOperators =
     \<lparr>operators = [''aztelekom'', ''azersu''], categories = [''water''],
      showInfrastructure = True, showBuildings = True\<rparr>"

definition waterMain :: Feature where
  "waterMain =
     \<lparr>properties = Some [(''operator_code'', JStr ''azersu''), (''category'', JStr ''water'')],
      geometry = Some \<lparr>gtype = ''LineString'',
        coordinates = Some [Arr [Num (4983 / 100), Num (4037 / 100)],
                            Arr [Num (4984 / 100), Num (4038 / 100)]]\<rparr>\<rparr>"

definition waterMainLayer :: Layer where
  "waterMainLayer =
     \<lparr>shape = Polyline [(Some (Num (4037 / 100)), Some (Num (4983 / 100))),
                         (Some (Num (4038 / 100)), Some (Num (4984 / 100)))],
      popupProps = [(''operator_code'', JStr ''azersu''), (''category'', JStr ''water'')]\<rparr>"

definition deltaCable :: Feature where
  "deltaCable =
     \<lparr>properties = Some [(''operator_code'', JStr ''delta''), (''category'', JStr ''telecom'')],
      geometry = Some \<lparr>gtype = ''LineString'',
        coordinates = Some [Arr [Num (4983 / 100), Num (4037 / 100)],
                            Arr [Num (4984 / 100), Num (4038 / 100)]]\<rparr>\<rparr>"

definition noGeometry :: Feature where
  "noGeometry = \<lparr>properties = Some [(''category'', JStr ''gas'')], geometry = None\<rparr>"

definition shortLine :: Feature where
  "shortLine =
     \<lparr>properties = None,
      geometry = Some \<lparr>gtype = ''LineString'',
        coordinates = Some [Arr [Num (4983 / 100), Num (4037 / 100)]]\<rparr>\<rparr>"

definition collectionGeometry :: Feature where
  "collectionGeometry =
     \<lparr>properties = None,
      geometry = Some \<lparr>gtype = ''GeometryCollection'', coordinates = None\<rparr>\<rparr>"

definition multiLine :: Feature where
  "multiLine =
     \<lparr>properties = None,
      geometry = Some \<lparr>gtype = ''MultiLineString'',
        coordinates = Some [Arr [Arr [Num 1, Num 2], Arr [Num 3, Num 4]],
                            Arr [Arr [Num 5, Num 6], Arr [Num 7, Num 8]]]\<rparr>\<rparr>"

definition triangle :: Feature where
  "triangle =
     \<lparr>properties = None,
      geometry = Some \<lparr>gtype = ''Polygon'',
        coordinates = Some [Arr [Arr [Num 0, Num 0], Arr [Num 1, Num 0], Arr [Num 0, Num 0]]]\<rparr>\<rparr>"

definition towerBlock :: Feature where
  "towerBlock =
     \<lparr>properties = Some [(''building_type'', JStr ''residential'')],
      geometry = Some \<lparr>gtype = ''Polygon'',
        coordinates = Some [Arr [Arr [Num 0, Num 0], Arr [Num 1, Num 0], Arr [Num 1, Num 1],
                                 Arr [Num 0, Num 0]]]\<rparr>\<rparr>"

definition towerBlockLayer :: Layer where
  "towerBlockLayer =
     \<lparr>shape = Polygon [(Some (Num 0), Some (Num 0)), (Some (Num 0), Some (Num 1)),
                        (Some (Num 1), Some (Num 1)), (Some (Num 0), Some (Num 0))],
      popupProps = [(''building_type'', JStr ''residential'')]\<rparr>"

text \<open>
  A line of two positions that are empty arrays: both \<open>c[1]\<close> and \<open>c[0]\<close> are
  \<open>undefined\<close>, and \<open>L.latLng(undefined, undefined)\<close> is \<open>undefined\<close>. \<open>failsToProject\<close> is a
  Leaflet that builds a polyline or polygon of such positions and throws in \<open>addTo\<close>, when
  it projects them, after the group has registered the layer.
\<close>

definition hollowLine :: Feature where
  "hollowLine =
     \<lparr>properties = Some [(''operator_code'', JStr ''azersu'')],
      geometry = Some \<lparr>gtype = ''LineString'', coordinates = Some [Arr [], Arr []]\<rparr>\<rparr>"

definition hollowLineLayer :: Layer where
  "hollowLineLayer =
     \<lparr>shape = Polyline [(None, None), (None, None)],
      popupProps = [(''operator_code'', JStr ''azersu'')]\<rparr>"

definition failsToProject :: "Layer \<Rightarrow> leaflet_outcome" where
  "failsToProject l =
     (case shape l of
        Polyline ps \<Rightarrow> if (None, None) \<in> set ps then ThrowsAfterAdding else Completes
      | Polygon ps \<Rightarrow> if (None, None) \<in> set ps then ThrowsAfterAdding else Completes
      | CircleMarker p radius \<Rightarrow> Completes)"

text \<open>
  A point whose first coordinate is itself a position: \<open>coordinates.length\<close> is 2, and
  \<open>L.latLng(3, [1, 2])\<close> is what the loader calls. \<open>refusesArrays\<close> is a Leaflet whose
  \<open>L.latLng\<close> throws on such a longitude, as its \<open>isNaN\<close> test does on an array of
  several entries; nothing has been added by then.
\<close>

definition arrayLongitude :: Feature where
  "arrayLongitude =
     \<lparr>properties = Some [(''operator_code'', JStr ''azersu'')],
      geometry = Some \<lparr>gtype = ''Point'', coordinates = Some [Arr [Num 1, Num 2], Num 3]\<rparr>\<rparr>"

definition refusesArrays :: "Layer \<Rightarrow> leaflet_outcome" where
  "refusesArrays l =
     (case shape l of
        CircleMarker (lat, Some (Arr (x # y # rest))) radius \<Rightarrow> ThrowsBeforeAdding
      | _ \<Rightarrow> Completes)"

section \<open>The schema: column values, types and constraints\<close>

text \<open>
  The tables of \<open>01_create_schema.sql\<close> that hold and describe features: \<open>urban.operators\<close>,
  \<open>urban.infrastructure_types\<close>, \<open>urban.infrastructure\<close> and \<open>urban.buildings\<close>
  (\<open>urban.streets\<close> and \<open>urban.stac_collections\<close> are read by nothing here). A column value
  is \<open>NULL\<close> (\<open>None\<close>) or a value of the column's type. What the script declares, column
  types with their lengths and modifiers, defaults, \<open>NOT NULL\<close>, \<open>UNIQUE\<close>, primary keys,
  references and the \<open>updated_at\<close> triggers, is what the statements below apply; it is not
  built into the types of the rows. Identifiers, timestamps and dates are kept as their
  text.
\<close>

type_synonym uuid = string
type_synonym timestamptz = string
type_synonym date = string

datatype geometry_type =
    POINT | LINESTRING | POLYGON | MULTIPOINT | MULTILINESTRING | MULTIPOLYGON
  | GEOMETRYCOLLECTION | CIRCULARSTRING | COMPOUNDCURVE | CURVEPOLYGON | MULTICURVE
  | MULTISURFACE | POLYHEDRALSURFACE | TRIANGLE | TIN

text \<open>
  A geometry value: its type, its SRID (0 when unknown), whether its positions carry a Z
  or an M ordinate, and its coordinates.
\<close>

record geom =
  geom_type :: geometry_type
  srid :: int
  has_z :: bool
  has_m :: bool
  geom_coords :: "coord list"

text \<open>The type modifier of a geometry column: \<open>GEOMETRY(GEOMETRY, 4326)\<close> admits every type.\<close>

datatype type_modifier = GEOMETRY | ONLY geometry_type

datatype sql_error =
    NotNullViolation string
  | UniqueViolation string
  | ForeignKeyViolation string
  | StringDataRightTruncation string
  | NumericValueOutOfRange string
  | GeometryTypeMismatch string
  | SridMismatch string
  | DimensionMismatch string

record operator_row =
  o_id :: "uuid option"
  o_code :: "string option"
  o_name :: "string option"
  o_name_az :: "string option"
  o_category :: "string option"
  o_color :: "string option"
  o_icon :: "string option"
  o_contact_info :: "json option"
  o_created_at :: "timestamptz option"
  o_updated_at :: "timestamptz option"

record infrastructure_type_row =
  t_id :: "uuid option"
  t_code :: "string option"
  t_name :: "string option"
  t_name_az :: "string option"
  t_category :: "string option"
  t_properties_schema :: "json option"
  t_created_at :: "timestamptz option"

record infrastructure_row =
  i_id :: "uuid option"
  i_stac_id :: "string option"
  i_type_id :: "uuid option"
  i_operator_id :: "uuid option"
  i_geometry :: "geom option"
  i_properties :: "json option"
  i_status :: "string option"
  i_installed_date :: "date option"
  i_depth_meters :: "rat option"
  i_material :: "string option"
  i_capacity :: "string option"
  i_created_at :: "timestamptz option"
  i_updated_at :: "timestamptz option"

record building_row =
  b_id :: "uuid option"
  b_stac_id :: "string option"
  b_osm_id :: "int option"
  b_geometry :: "geom option"
  b_operator_id :: "uuid option"
  b_name :: "string option"
  b_name_az :: "string option"
  b_building_type :: "string option"
  b_floors :: "int option"
  b_year_built :: "int option"
  b_address :: "json option"
  b_properties :: "json option"
  b_created_at :: "timestamptz option"
  b_updated_at :: "timestamptz option"

record db =
  urban_operators :: "operator_row list"
  urban_infrastructure_types :: "infrastructure_type_row list"
  urban_infrastructure :: "infrastructure_row list"
  urban_buildings :: "building_row list"

text \<open>Sequencing of steps that may raise.\<close>

definition andThen :: "sql_error + 'a \<Rightarrow> ('a \<Rightarrow> sql_error + 'b) \<Rightarrow> sql_error + 'b" where
  "andThen r k = (case r of Inl e \<Rightarrow> Inl e | Inr v \<Rightarrow> k v)"

text \<open>
  Text is held as its UTF-8 bytes, and the \<open>n\<close> of \<open>VARCHAR(n)\<close> counts characters, not
  bytes. \<open>utf_mblen\<close> is the number of bytes of the character that a byte starts, read
  off its leading bits as the server does: \<open>0xxxxxxx\<close> one, \<open>110xxxxx\<close> two,
  \<open>1110xxxx\<close> three, \<open>11110xxx\<close> four.
\<close>

definition utf_mblen :: "char \<Rightarrow> nat" where
  "utf_mblen c =
     (if \<not> digit7 c then 1
      else if digit6 c \<and> \<not> digit5 c then 2
      else if digit6 c \<and> digit5 c \<and> \<not> digit4 c then 3
      else if digit6 c \<and> digit5 c \<and> digit4 c \<and> \<not> digit3 c then 4
      else 1)"

text \<open>
  The number of characters of a string, \<open>k\<close> bytes of the current character being still
  to come; and the bytes of its first \<open>limit\<close> characters.
\<close>

fun chars_from :: "nat \<Rightarrow> string \<Rightarrow> nat" where
  "chars_from k [] = 0"
| "chars_from (Suc k) (c # cs) = chars_from k cs"
| "chars_from 0 (c # cs) = Suc (chars_from (utf_mblen c - 1) cs)"

definition char_length :: "string \<Rightarrow> nat" where
  "char_length s = chars_from 0 s"

fun clip_from :: "nat \<Rightarrow> nat \<Rightarrow> string \<Rightarrow> string" where
  "clip_from limit k [] = []"
| "clip_from limit (Suc k) (c # cs) = c # clip_from limit k cs"
| "clip_from 0 0 (c # cs) = []"
| "clip_from (Suc limit) 0 (c # cs) = c # clip_from limit (utf_mblen c - 1) cs"

definition charclip :: "nat \<Rightarrow> string \<Rightarrow> string" where
  "charclip limit s = clip_from limit 0 s"

text \<open>
  Assignment to a \<open>VARCHAR(n)\<close> column: the string is cut after its first \<open>n\<close> characters;
  if anything but spaces is cut off, the assignment is an error. A string of at most \<open>n\<close>
  characters is stored as it is.
\<close>

definition varchar :: "nat \<Rightarrow> string \<Rightarrow> string option \<Rightarrow> sql_error + string option" where
  "varchar n column v =
     (case v of
        None \<Rightarrow> Inr None
      | Some s \<Rightarrow>
          if list_all (\<lambda>c. c = CHR '' '') (drop (length (charclip n s)) s)
          then Inr (Some (charclip n s))
          else Inl (StringDataRightTruncation column))"

text \<open>
  Assignment to \<open>DECIMAL(5,2)\<close>: rounding to two decimals, half away from zero, and an
  error from 1000 on.
\<close>

definition round_half_away :: "rat \<Rightarrow> int" where
  "round_half_away x = (if x \<ge> 0 then \<lfloor>x + 1 / 2\<rfloor> else - \<lfloor>- x + 1 / 2\<rfloor>)"

definition decimal_5_2 :: "string \<Rightarrow> rat option \<Rightarrow> sql_error + rat option" where
  "decimal_5_2 column v =
     (case v of
        None \<Rightarrow> Inr None
      | Some x \<Rightarrow>
          (let cents = round_half_away (x * 100)
           in if \<bar>cents\<bar> \<ge> 100000 then Inl (NumericValueOutOfRange column)
              else Inr (Some (of_int cents / 100))))"

definition integer :: "string \<Rightarrow> int option \<Rightarrow> sql_error + int option" where
  "integer column v =
     (case v of
        None \<Rightarrow> Inr None
      | Some n \<Rightarrow>
          if - 2147483648 \<le> n \<and> n \<le> 2147483647 then Inr (Some n)
          else Inl (NumericValueOutOfRange column))"

definition bigint :: "string \<Rightarrow> int option \<Rightarrow> sql_error + int option" where
  "bigint column v =
     (case v of
        None \<Rightarrow> Inr None
      | Some n \<Rightarrow>
          if - 9223372036854775808 \<le> n \<and> n \<le> 9223372036854775807 then Inr (Some n)
          else Inl (NumericValueOutOfRange column))"

text \<open>
  Assignment to a geometry column with a type modifier, as PostGIS checks it: a geometry
  of unknown SRID takes the column's; any other SRID must be the column's; the type must
  be the one the modifier names, if it names one; and a column declared without Z and M
  takes no geometry that has them.
\<close>

definition geometry_column ::
  "type_modifier \<Rightarrow> int \<Rightarrow> string \<Rightarrow> geom option \<Rightarrow> sql_error + geom option" where
  "geometry_column modifier column_srid column v =
     (case v of
        None \<Rightarrow> Inr None
      | Some g0 \<Rightarrow>
          (let g = (if srid g0 = 0 then g0\<lparr>srid := column_srid\<rparr> else g0)
           in if srid g \<noteq> column_srid then Inl (SridMismatch column)
              else if modifier \<noteq> GEOMETRY \<and> modifier \<noteq> ONLY (geom_type g)
              then Inl (GeometryTypeMismatch column)
              else if has_z g \<or> has_m g then Inl (DimensionMismatch column)
              else Inr (Some g)))"

definition not_null :: "string \<Rightarrow> 'a option \<Rightarrow> sql_error + unit" where
  "not_null column v = (case v of None \<Rightarrow> Inl (NotNullViolation column) | Some _ \<Rightarrow> Inr ())"

text \<open>\<open>UNIQUE\<close>: no other row has the same value; \<open>NULL\<close> equals nothing.\<close>

definition unique_among :: "string \<Rightarrow> 'a option list \<Rightarrow> 'a option \<Rightarrow> sql_error + unit" where
  "unique_among constraint others v =
     (case v of
        None \<Rightarrow> Inr ()
      | Some x \<Rightarrow> if Some x \<in> set others then Inl (UniqueViolation constraint) else Inr ())"

text \<open>\<open>REFERENCES\<close>: a value that is not \<open>NULL\<close> is the key of a row of the other table.\<close>

definition references_key :: "string \<Rightarrow> 'a option list \<Rightarrow> 'a option \<Rightarrow> sql_error + unit" where
  "references_key constraint keys v =
     (case v of
        None \<Rightarrow> Inr ()
      | Some x \<Rightarrow> if Some x \<in> set keys then Inr () else Inl (ForeignKeyViolation constraint))"

section \<open>The infrastructure table\<close>

text \<open>The column types of \<open>urban.infrastructure\<close>, applied to the values of a new row.\<close>

definition infrastructure_types_of :: "infrastructure_row \<Rightarrow> sql_error + infrastructure_row" where
  "infrastructure_types_of r =
     andThen (varchar 255 ''stac_id'' (i_stac_id r)) (\<lambda>stac.
     andThen (geometry_column GEOMETRY 4326 ''geometry'' (i_geometry r)) (\<lambda>g.
     andThen (varchar 50 ''status'' (i_status r)) (\<lambda>st.
     andThen (decimal_5_2 ''depth_meters'' (i_depth_meters r)) (\<lambda>depth.
     andThen (varchar 100 ''material'' (i_material r)) (\<lambda>mat.
     andThen (varchar 100 ''capacity'' (i_capacity r)) (\<lambda>cap.
       Inr (r\<lparr>i_stac_id := stac, i_geometry := g, i_status := st, i_depth_meters := depth,
              i_material := mat, i_capacity := cap\<rparr>)))))))"

text \<open>
  The constraints of \<open>urban.infrastructure\<close> on a row, given the other rows of the
  table: primary key, \<open>NOT NULL\<close>, \<open>UNIQUE\<close>, and the two references.
\<close>

definition infrastructure_constraints ::
  "db \<Rightarrow> infrastructure_row list \<Rightarrow> infrastructure_row \<Rightarrow> sql_error + unit" where
  "infrastructure_constraints d others r =
     andThen (not_null ''id'' (i_id r)) (\<lambda>_.
     andThen (not_null ''stac_id'' (i_stac_id r)) (\<lambda>_.
     andThen (not_null ''geometry'' (i_geometry r)) (\<lambda>_.
     andThen (unique_among ''infrastructure_pkey'' (map i_id others) (i_id r)) (\<lambda>_.
     andThen (unique_among ''infrastructure_stac_id_key'' (map i_stac_id others) (i_stac_id r)) (\<lambda>_.
     andThen (references_key ''infrastructure_type_id_fkey''
                (map t_id (urban_infrastructure_types d)) (i_type_id r)) (\<lambda>_.
     references_key ''infrastructure_operator_id_fkey''
       (map o_id (urban_operators d)) (i_operator_id r)))))))"

text \<open>
  An \<open>INSERT\<close> names a value for a column, \<open>NULL\<close> included, or leaves the column to its
  default.
\<close>

datatype 'a col = DEFAULT | VALUE "'a option"

fun or_default :: "'a option \<Rightarrow> 'a col \<Rightarrow> 'a option" where
  "or_default d DEFAULT = d"
| "or_default d (VALUE v) = v"

record infrastructure_insert =
  ins_id :: "uuid col"
  ins_stac_id :: "string col"
  ins_type_id :: "uuid col"
  ins_operator_id :: "uuid col"
  ins_geometry :: "geom col"
  ins_properties :: "json col"
  ins_status :: "string col"
  ins_installed_date :: "date col"
  ins_depth_meters :: "rat col"
  ins_material :: "string col"
  ins_capacity :: "string col"
  ins_created_at :: "timestamptz col"
  ins_updated_at :: "timestamptz col"

text \<open>
  The row an \<open>INSERT INTO urban.infrastructure\<close> builds, with the column defaults of the
  script; \<open>generated\<close> is the value of \<open>uuid_generate_v4()\<close> and \<open>now\<close> that of \<open>NOW()\<close>.
\<close>

definition infrastructure_new ::
  "uuid \<Rightarrow> timestamptz \<Rightarrow> infrastructure_insert \<Rightarrow> infrastructure_row" where
  "infrastructure_new generated now ins =
     \<lparr>i_id = or_default (Some generated) (ins_id ins),
      i_stac_id = or_default None (ins_stac_id ins),
      i_type_id = or_default None (ins_type_id ins),
      i_operator_id = or_default None (ins_operator_id ins),
      i_geometry = or_default None (ins_geometry ins),
      i_properties = or_default (Some (JObj [])) (ins_properties ins),
      i_status = or_default (Some ''active'') (ins_status ins),
      i_installed_date = or_default None (ins_installed_date ins),
      i_depth_meters = or_default None (ins_depth_meters ins),
      i_material = or_default None (ins_material ins),
      i_capacity = or_default None (ins_capacity ins),
      i_created_at = or_default (Some now) (ins_created_at ins),
      i_updated_at = or_default (Some now) (ins_updated_at ins)\<rparr>"

definition insert_infrastructure ::
  "uuid \<Rightarrow> timestamptz \<Rightarrow> infrastructure_insert \<Rightarrow> db \<Rightarrow> sql_error + db" where
  "insert_infrastructure generated now ins d =
     andThen (infrastructure_types_of (infrastructure_new generated now ins)) (\<lambda>r.
     andThen (infrastructure_constraints d (urban_infrastructure d) r) (\<lambda>_.
       Inr (d\<lparr>urban_infrastructure := urban_infrastructure d @ [r]\<rparr>)))"

text \<open>
  An \<open>UPDATE urban.infrastructure SET ... WHERE ...\<close>: \<open>matches\<close> is the \<open>WHERE\<close> clause and
  \<open>assign\<close> the \<open>SET\<close> clause, both reading the old row. Rows are visited in table order.
  For each matching row the column types are applied to the new values, the trigger
  \<open>tr_infrastructure_updated\<close> stamps \<open>updated_at\<close>, and the constraints are checked against
  the table as it stands. Any error abandons the statement.
\<close>

fun update_infrastructure_rows ::
  "db \<Rightarrow> (infrastructure_row \<Rightarrow> bool) \<Rightarrow> (infrastructure_row \<Rightarrow> infrastructure_row) \<Rightarrow> timestamptz \<Rightarrow>
   infrastructure_row list \<Rightarrow> infrastructure_row list \<Rightarrow> sql_error + infrastructure_row list" where
  "update_infrastructure_rows d matches assign now visited [] = Inr visited"
| "update_infrastructure_rows d matches assign now visited (r # rest) =
     (if matches r then
        andThen (infrastructure_types_of (assign r)) (\<lambda>typed.
        (let new = typed\<lparr>i_updated_at := Some now\<rparr>
         in andThen (infrastructure_constraints d (visited @ rest) new) (\<lambda>_.
              update_infrastructure_rows d matches assign now (visited @ [new]) rest)))
      else update_infrastructure_rows d matches assign now (visited @ [r]) rest)"

definition update_infrastructure ::
  "(infrastructure_row \<Rightarrow> bool) \<Rightarrow> (infrastructure_row \<Rightarrow> infrastructure_row) \<Rightarrow> timestamptz \<Rightarrow>
   db \<Rightarrow> sql_error + db" where
  "update_infrastructure matches assign now d =
     andThen (update_infrastructure_rows d matches assign now [] (urban_infrastructure d))
       (\<lambda>rows. Inr (d\<lparr>urban_infrastructure := rows\<rparr>))"

definition delete_infrastructure :: "(infrastructure_row \<Rightarrow> bool) \<Rightarrow> db \<Rightarrow> sql_error + db" where
  "delete_infrastructure matches d =
     Inr (d\<lparr>urban_infrastructure := filter (\<lambda>r. \<not> matches r) (urban_infrastructure d)\<rparr>)"

section \<open>The buildings table\<close>

definition building_types_of :: "building_row \<Rightarrow> sql_error + building_row" where
  "building_types_of r =
     andThen (varchar 255 ''stac_id'' (b_stac_id r)) (\<lambda>stac.
     andThen (bigint ''osm_id'' (b_osm_id r)) (\<lambda>osm.
     andThen (geometry_column (ONLY POLYGON) 4326 ''geometry'' (b_geometry r)) (\<lambda>g.
     andThen (varchar 255 ''name'' (b_name r)) (\<lambda>nm.
     andThen (varchar 255 ''name_az'' (b_name_az r)) (\<lambda>nm_az.
     andThen (varchar 100 ''building_type'' (b_building_type r)) (\<lambda>bt.
     andThen (integer ''floors'' (b_floors r)) (\<lambda>fl.
     andThen (integer ''year_built'' (b_year_built r)) (\<lambda>yb.
       Inr (r\<lparr>b_stac_id := stac, b_osm_id := osm, b_geometry := g, b_name := nm,
              b_name_az := nm_az, b_building_type := bt, b_floors := fl,
              b_year_built := yb\<rparr>)))))))))"

definition building_constraints :: "db \<Rightarrow> building_row list \<Rightarrow> building_row \<Rightarrow> sql_error + unit" where
  "building_constraints d others r =
     andThen (not_null ''id'' (b_id r)) (\<lambda>_.
     andThen (not_null ''stac_id'' (b_stac_id r)) (\<lambda>_.
     andThen (not_null ''geometry'' (b_geometry r)) (\<lambda>_.
     andThen (unique_among ''buildings_pkey'' (map b_id others) (b_id r)) (\<lambda>_.
     andThen (unique_among ''buildings_stac_id_key'' (map b_stac_id others) (b_stac_id r)) (\<lambda>_.
     references_key ''buildings_operator_id_fkey''
       (map o_id (urban_operators d)) (b_operator_id r))))))"

record building_insert =
  insb_id :: "uuid col"
  insb_stac_id :: "string col"
  insb_osm_id :: "int col"
  insb_geometry :: "geom col"
  insb_operator_id :: "uuid col"
  insb_name :: "string col"
  insb_name_az :: "string col"
  insb_building_type :: "string col"
  insb_floors :: "int col"
  insb_year_built :: "int col"
  insb_address :: "json col"
  insb_properties :: "json col"
  insb_created_at :: "timestamptz col"
  insb_updated_at :: "timestamptz col"

definition building_new :: "uuid \<Rightarrow> timestamptz \<Rightarrow> building_insert \<Rightarrow> building_row" where
  "building_new generated now ins =
     \<lparr>b_id = or_default (Some generated) (insb_id ins),
      b_stac_id = or_default None (insb_stac_id ins),
      b_osm_id = or_default None (insb_osm_id ins),
      b_geometry = or_default None (insb_geometry ins),
      b_operator_id = or_default None (insb_operator_id ins),
      b_name = or_default None (insb_name ins),
      b_name_az = or_default None (insb_name_az ins),
      b_building_type = or_default None (insb_building_type ins),
      b_floors = or_default None (insb_floors ins),
      b_year_built = or_default None (insb_year_built ins),
      b_address = or_default None (insb_address ins),
      b_properties = or_default (Some (JObj [])) (insb_properties ins),
      b_created_at = or_default (Some now) (insb_created_at ins),
      b_updated_at = or_default (Some now) (insb_updated_at ins)\<rparr>"

definition insert_building :: "uuid \<Rightarrow> timestamptz \<Rightarrow> building_insert \<Rightarrow> db \<Rightarrow> sql_error + db" where
  "insert_building generated now ins d =
     andThen (building_types_of (building_new generated now ins)) (\<lambda>r.
     andThen (building_constraints d (urban_buildings d) r) (\<lambda>_.
       Inr (d\<lparr>urban_buildings := urban_buildings d @ [r]\<rparr>)))"

fun update_building_rows ::
  "db \<Rightarrow> (building_row \<Rightarrow> bool) \<Rightarrow> (building_row \<Rightarrow> building_row) \<Rightarrow> timestamptz \<Rightarrow>
   building_row list \<Rightarrow> building_row list \<Rightarrow> sql_error + building_row list" where
  "update_building_rows d matches assign now visited [] = Inr visited"
| "update_building_rows d matches assign now visited (r # rest) =
     (if matches r then
        andThen (building_types_of (assign r)) (\<lambda>typed.
        (let new = typed\<lparr>b_updated_at := Some now\<rparr>
         in andThen (building_constraints d (visited @ rest) new) (\<lambda>_.
              update_building_rows d matches assign now (visited @ [new]) rest)))
      else update_building_rows d matches assign now (visited @ [r]) rest)"

definition update_building ::
  "(building_row \<Rightarrow> bool) \<Rightarrow> (building_row \<Rightarrow> building_row) \<Rightarrow> timestamptz \<Rightarrow> db \<Rightarrow> sql_error + db" where
  "update_building matches assign now d =
     andThen (update_building_rows d matches assign now [] (urban_buildings d))
       (\<lambda>rows. Inr (d\<lparr>urban_buildings := rows\<rparr>))"

definition delete_building :: "(building_row \<Rightarrow> bool) \<Rightarrow> db \<Rightarrow> sql_error + db" where
  "delete_building matches d =
     Inr (d\<lparr>urban_buildings := filter (\<lambda>r. \<not> matches r) (urban_buildings d)\<rparr>)"

section \<open>Statements on the feature tables\<close>

text \<open>
  Inserts, updates and deletes on the two feature tables, with the values the engine
  supplies (the generated identifier and the current time) written out. The reference
  tables stay as the script filled them.
\<close>

datatype statement =
    InsertInfrastructure uuid timestamptz infrastructure_insert
  | UpdateInfrastructure "infrastructure_row \<Rightarrow> bool" "infrastructure_row \<Rightarrow> infrastructure_row"
      timestamptz
  | DeleteInfrastructure "infrastructure_row \<Rightarrow> bool"
  | InsertBuilding uuid timestamptz building_insert
  | UpdateBuilding "building_row \<Rightarrow> bool" "building_row \<Rightarrow> building_row" timestamptz
  | DeleteBuilding "building_row \<Rightarrow> bool"

fun execute :: "statement \<Rightarrow> db \<Rightarrow> sql_error + db" where
  "execute (InsertInfrastructure generated now ins) d = insert_infrastructure generated now ins d"
| "execute (UpdateInfrastructure matches assign now) d = update_infrastructure matches assign now d"
| "execute (DeleteInfrastructure matches) d = delete_infrastructure matches d"
| "execute (InsertBuilding generated now ins) d = insert_building generated now ins d"
| "execute (UpdateBuilding matches assign now) d = update_building matches assign now d"
| "execute (DeleteBuilding matches) d = delete_building matches d"

text \<open>
  Statements run one after the other, each in its own transaction: one that raises leaves
  the database as it was.
\<close>

fun execute_all :: "statement list \<Rightarrow> db \<Rightarrow> db" where
  "execute_all [] d = d"
| "execute_all (st # sts) d =
     (case execute st d of Inl _ \<Rightarrow> execute_all sts d | Inr d1 \<Rightarrow> execute_all sts d1)"

text \<open>The database right after the script: the reference rows, and no feature yet.\<close>

definition created :: "operator_row list \<Rightarrow> infrastructure_type_row list \<Rightarrow> db" where
  "created ops types =
     \<lparr>urban_operators = ops, urban_infrastructure_types = types,
      urban_infrastructure = [], urban_buildings = []\<rparr>"

text \<open>
  Invariants of the feature tables. \<open>identified\<close>: each row has a \<open>stac_id\<close> and a geometry
  of SRID 4326, and no two rows share a \<open>stac_id\<close>. \<open>polygons_only\<close>: each building row has
  a polygon of SRID 4326. \<open>four_statuses\<close>: the values named in the comment on the
  \<open>status\<close> column.
\<close>

definition infrastructure_identified :: "infrastructure_row list \<Rightarrow> bool" where
  "infrastructure_identified rows =
     (list_all (\<lambda>r. i_stac_id r \<noteq> None \<and> (case i_geometry r of None \<Rightarrow> False | Some g \<Rightarrow> srid g = 4326))
        rows
      \<and> distinct (map i_stac_id rows))"

definition buildings_identified :: "building_row list \<Rightarrow> bool" where
  "buildings_identified rows =
     (list_all (\<lambda>r. b_stac_id r \<noteq> None \<and> (case b_geometry r of None \<Rightarrow> False | Some g \<Rightarrow> srid g = 4326))
        rows
      \<and> distinct (map b_stac_id rows))"

definition polygons_only :: "building_row list \<Rightarrow> bool" where
  "polygons_only rows =
     list_all (\<lambda>r. case b_geometry r of None \<Rightarrow> False
                   | Some g \<Rightarrow> geom_type g = POLYGON \<and> srid g = 4326) rows"

definition four_statuses :: "string list" where
  "four_statuses = [''active'', ''maintenance'', ''planned'', ''decommissioned'']"

text \<open>What the column types and the constraints leave of a row of either table.\<close>

definition infrastructure_row_ok :: "infrastructure_row \<Rightarrow> bool" where
  "infrastructure_row_ok r =
     (i_stac_id r \<noteq> None
      \<and> (case i_geometry r of None \<Rightarrow> False | Some g \<Rightarrow> srid g = 4326)
      \<and> (case i_status r of None \<Rightarrow> True | Some s \<Rightarrow> char_length s \<le> 50))"

definition building_row_ok :: "building_row \<Rightarrow> bool" where
  "building_row_ok r =
     (b_stac_id r \<noteq> None
      \<and> (case b_geometry r of None \<Rightarrow> False | Some g \<Rightarrow> geom_type g = POLYGON \<and> srid g = 4326))"

text \<open>The rows of the infrastructure table are all right and no two share a \<open>stac_id\<close>.\<close>

definition infrastructure_ok :: "infrastructure_row list \<Rightarrow> bool" where
  "infrastructure_ok rows = (list_all infrastructure_row_ok rows \<and> distinct (map i_stac_id rows))"

text \<open>The rows of the buildings table are all right and no two share a \<open>stac_id\<close>.\<close>

definition buildings_ok :: "building_row list \<Rightarrow> bool" where
  "buildings_ok rows = (list_all building_row_ok rows \<and> distinct (map b_stac_id rows))"

section \<open>The view \<open>urban.stac_items\<close>\<close>

text \<open>
  PostGIS is not part of the repository: its functions on a geometry are parameters of
  the view.
\<close>

record postgis =
  ST_AsGeoJSON :: "geom \<Rightarrow> json"
  ST_XMin :: "geom \<Rightarrow> rat"
  ST_YMin :: "geom \<Rightarrow> rat"
  ST_XMax :: "geom \<Rightarrow> rat"
  ST_YMax :: "geom \<Rightarrow> rat"

text \<open>An argument of \<open>jsonb_build_object\<close>: \<open>NULL\<close> becomes the JSON \<open>null\<close>.\<close>

definition text_value :: "string option \<Rightarrow> json" where
  "text_value v = (case v of None \<Rightarrow> JNull | Some s \<Rightarrow> JStr s)"

definition numeric_value :: "rat option \<Rightarrow> json" where
  "numeric_value v = (case v of None \<Rightarrow> JNull | Some x \<Rightarrow> JNum x)"

definition integer_value :: "int option \<Rightarrow> json" where
  "integer_value v = (case v of None \<Rightarrow> JNull | Some n \<Rightarrow> JNum (of_int n))"

text \<open>
  The operator \<open>||\<close> of \<open>jsonb\<close>. It is strict. Two objects give the union of their keys,
  with the value of the right one where both have the key; two arrays are appended; in
  every other case an operand that is no array counts as the array of that one element.
\<close>

definition object_concat :: "props \<Rightarrow> props \<Rightarrow> props" where
  "object_concat left right = filter (\<lambda>(k, v). map_of right k = None) left @ right"

fun as_array :: "json \<Rightarrow> json list" where
  "as_array (JArr xs) = xs"
| "as_array v = [v]"

fun jsonb_concat_values :: "json \<Rightarrow> json \<Rightarrow> json" where
  "jsonb_concat_values (JObj left) (JObj right) = JObj (object_concat left right)"
| "jsonb_concat_values left right = JArr (as_array left @ as_array right)"

definition jsonb_concat :: "json option \<Rightarrow> json option \<Rightarrow> json option" where
  "jsonb_concat left right =
     (case (left, right) of
        (Some l, Some r) \<Rightarrow> Some (jsonb_concat_values l r)
      | _ \<Rightarrow> None)"

text \<open>\<open>a LEFT JOIN b ON ...\<close>: each left row with each matching right row, or with none.\<close>

definition left_join :: "'a list \<Rightarrow> 'b list \<Rightarrow> ('a \<Rightarrow> 'b \<Rightarrow> bool) \<Rightarrow> ('a \<times> 'b option) list" where
  "left_join xs ys on =
     concat (map (\<lambda>x. case filter (on x) ys of
                         [] \<Rightarrow> [(x, None)]
                       | ms \<Rightarrow> map (\<lambda>y. (x, Some y)) ms) xs)"

text \<open>\<open>x = y\<close> in SQL holds only between two values that are not \<open>NULL\<close>.\<close>

definition sql_eq :: "'a option \<Rightarrow> 'a option \<Rightarrow> bool" where
  "sql_eq x y = (case (x, y) of (Some a, Some b) \<Rightarrow> a = b | _ \<Rightarrow> False)"

record stac_item =
  item_id :: "string option"
  item_type :: string
  item_geometry :: "json option"
  bbox_minx :: "rat option"
  bbox_miny :: "rat option"
  bbox_maxx :: "rat option"
  bbox_maxy :: "rat option"
  item_properties :: "json option"
  item_collection :: "string list"
  item_links :: json

text \<open>A column of a row that the left join may have left out.\<close>

definition joined :: "('r \<Rightarrow> 'a option) \<Rightarrow> 'r option \<Rightarrow> 'a option" where
  "joined column row = (case row of None \<Rightarrow> None | Some r \<Rightarrow> column r)"

definition links :: "string \<Rightarrow> string option \<Rightarrow> json" where
  "links collection stac =
     JArr [JObj [(''rel'', JStr ''self''),
                 (''href'', text_value (map_option (\<lambda>s. ''/api/stac/items/'' @ s) stac))],
           JObj [(''rel'', JStr ''collection''),
                 (''href'', JStr (''/api/stac/collections/'' @ collection))]]"

text \<open>The \<open>jsonb_build_object(...)\<close> of the first branch of the view.\<close>

definition infrastructure_object ::
  "infrastructure_row \<Rightarrow> operator_row option \<Rightarrow> infrastructure_type_row option \<Rightarrow> props" where
  "infrastructure_object i o' t =
     [(''datetime'', text_value (i_created_at i)),
      (''operator'', text_value (joined o_name o')),
      (''operator_code'', text_value (joined o_code o')),
      (''operator_color'', text_value (joined o_color o')),
      (''infrastructure_type'', text_value (joined t_name t)),
      (''type_code'', text_value (joined t_code t)),
      (''category'', text_value (joined t_category t)),
      (''status'', text_value (i_status i)),
      (''depth_meters'', numeric_value (i_depth_meters i)),
      (''material'', text_value (i_material i))]"

definition infrastructure_item ::
  "postgis \<Rightarrow> infrastructure_row \<Rightarrow> operator_row option \<Rightarrow> infrastructure_type_row option \<Rightarrow> stac_item" where
  "infrastructure_item pg i o' t =
     \<lparr>item_id = i_stac_id i,
      item_type = ''Feature'',
      item_geometry = map_option (ST_AsGeoJSON pg) (i_geometry i),
      bbox_minx = map_option (ST_XMin pg) (i_geometry i),
      bbox_miny = map_option (ST_YMin pg) (i_geometry i),
      bbox_maxx = map_option (ST_XMax pg) (i_geometry i),
      bbox_maxy = map_option (ST_YMax pg) (i_geometry i),
      item_properties = jsonb_concat (Some (JObj (infrastructure_object i o' t))) (i_properties i),
      item_collection = [''infrastructure''],
      item_links = links ''infrastructure'' (i_stac_id i)\<rparr>"

text \<open>The second branch.\<close>

definition building_object :: "building_row \<Rightarrow> operator_row option \<Rightarrow> props" where
  "building_object b o' =
     [(''datetime'', text_value (b_created_at b)),
      (''operator'', text_value (joined o_name o')),
      (''operator_code'', text_value (joined o_code o')),
      (''operator_color'', text_value (joined o_color o')),
      (''building_type'', text_value (b_building_type b)),
      (''floors'', integer_value (b_floors b)),
      (''year_built'', integer_value (b_year_built b)),
      (''name'', text_value (b_name b))]"

definition building_item :: "postgis \<Rightarrow> building_row \<Rightarrow> operator_row option \<Rightarrow> stac_item" where
  "building_item pg b o' =
     \<lparr>item_id = b_stac_id b,
      item_type = ''Feature'',
      item_geometry = map_option (ST_AsGeoJSON pg) (b_geometry b),
      bbox_minx = map_option (ST_XMin pg) (b_geometry b),
      bbox_miny = map_option (ST_YMin pg) (b_geometry b),
      bbox_maxx = map_option (ST_XMax pg) (b_geometry b),
      bbox_maxy = map_option (ST_YMax pg) (b_geometry b),
      item_properties = jsonb_concat (Some (JObj (building_object b o'))) (b_properties b),
      item_collection = [''buildings''],
      item_links = links ''buildings'' (b_stac_id b)\<rparr>"

text \<open>The view: the two branches, \<open>UNION ALL\<close>.\<close>

definition stac_items :: "postgis \<Rightarrow> db \<Rightarrow> stac_item list" where
  "stac_items pg d =
     map (\<lambda>((i, o'), t). infrastructure_item pg i o' t)
       (left_join
          (left_join (urban_infrastructure d) (urban_operators d)
             (\<lambda>i o'. sql_eq (i_operator_id i) (o_id o')))
          (urban_infrastructure_types d)
          (\<lambda>(i, o') t. sql_eq (i_type_id i) (t_id t)))
     @ map (\<lambda>(b, o'). building_item pg b o')
         (left_join (urban_buildings d) (urban_operators d)
            (\<lambda>b o'. sql_eq (b_operator_id b) (o_id o')))"

section \<open>The import endpoint\<close>

text \<open>
  Modelled from the spec: the server's import endpoint (\<open>/api/operator/import\<close>), of which
  the sources hold only the caller \<open>handleImport\<close> and the result type \<open>ImportResult\<close>. The
  spec's section 4.1 gives its contract: per feature, a detection of the target table
  from the properties (a building-type key against an infrastructure-type or category
  key, the operator's category when that is ambiguous), a validation (the geometry type
  must be of the table's family, point or line for infrastructure and polygon for
  buildings, and the coordinate array must not be malformed), and a summary that counts
  every feature, the imported ones and the rejected ones, and keeps the first error. The
  spec does not say which coordinate arrays are malformed; that check is a parameter.
\<close>

datatype detected = Infrastructure | Buildings

datatype rejection = MissingGeometry | WrongGeometryFamily | MalformedCoordinates

text \<open>
  Modelled from the spec: the detection rule of the absent endpoint. A building-type key
  alone means buildings, an infrastructure-type or category key alone means
  infrastructure; with both or neither, the operator's category decides.
\<close>

definition detect :: "string \<Rightarrow> Feature \<Rightarrow> detected" where
  "detect operator_category feature =
     (let building_key = (propOpt feature ''building_type'' \<noteq> None);
          infrastructure_key = (propOpt feature ''infrastructure_type'' \<noteq> None
                                \<or> propOpt feature ''category'' \<noteq> None)
      in if building_key \<and> \<not> infrastructure_key then Buildings
         else if infrastructure_key \<and> \<not> building_key then Infrastructure
         else if operator_category = ''building'' then Buildings
         else Infrastructure)"

text \<open>
  Modelled from the spec: the validation of the absent endpoint, with the geometry family
  of each table.
\<close>

definition geometry_family :: "detected \<Rightarrow> string list" where
  "geometry_family table =
     (case table of Infrastructure \<Rightarrow> [''Point'', ''LineString''] | Buildings \<Rightarrow> [''Polygon''])"

definition validate :: "(Geometry \<Rightarrow> bool) \<Rightarrow> detected \<Rightarrow> Feature \<Rightarrow> rejection option" where
  "validate coordinates_ok table feature =
     (case geometry feature of
        None \<Rightarrow> Some MissingGeometry
      | Some g \<Rightarrow>
          if gtype g \<notin> set (geometry_family table) then Some WrongGeometryFamily
          else if \<not> coordinates_ok g then Some MalformedCoordinates
          else None)"

text \<open>
  Modelled from the spec: the summary of the absent endpoint, with the features it hands to
  each table in place of the rows it inserts, and the step that imports one feature. A
  rejected feature is counted and the pass goes on.
\<close>

record summary =
  sum_total :: nat
  sum_imported :: nat
  sum_errors :: nat
  sum_first_error :: "rejection option"
  to_infrastructure :: "Feature list"
  to_buildings :: "Feature list"

definition import_feature :: "(Geometry \<Rightarrow> bool) \<Rightarrow> string \<Rightarrow> summary \<Rightarrow> Feature \<Rightarrow> summary" where
  "import_feature coordinates_ok operator_category s feature =
     (let table = detect operator_category feature
      in case validate coordinates_ok table feature of
           Some why \<Rightarrow>
             s\<lparr>sum_total := sum_total s + 1, sum_errors := sum_errors s + 1,
               sum_first_error := (case sum_first_error s of None \<Rightarrow> Some why | Some w \<Rightarrow> Some w)\<rparr>
         | None \<Rightarrow>
             (case table of
                Infrastructure \<Rightarrow>
                  s\<lparr>sum_total := sum_total s + 1, sum_imported := sum_imported s + 1,
                    to_infrastructure := to_infrastructure s @ [feature]\<rparr>
              | Buildings \<Rightarrow>
                  s\<lparr>sum_total := sum_total s + 1, sum_imported := sum_imported s + 1,
                    to_buildings := to_buildings s @ [feature]\<rparr>))"

definition empty_summary :: summary where
  "empty_summary =
     \<lparr>sum_total = 0, sum_imported = 0, sum_errors = 0, sum_first_error = None,
      to_infrastructure = [], to_buildings = []\<rparr>"

datatype import_failure = NotGeoJSON

text \<open>
  Modelled from the spec: the absent endpoint as a whole. The upload either fails to parse
  as a feature collection, which fails the request, or gives its features, which are
  imported one by one.
\<close>

definition import_file ::
  "(Geometry \<Rightarrow> bool) \<Rightarrow> string \<Rightarrow> Feature list option \<Rightarrow> import_failure + summary" where
  "import_file coordinates_ok operator_category parsed =
     (case parsed of
        None \<Rightarrow> Inl NotGeoJSON
      | Some features \<Rightarrow>
          Inr (foldl (import_feature coordinates_ok operator_category) empty_summary features))"

text \<open>A feature the import accepts.\<close>

definition wellFormed :: "(Geometry \<Rightarrow> bool) \<Rightarrow> string \<Rightarrow> Feature \<Rightarrow> bool" where
  "wellFormed coordinates_ok operator_category feature =
     (validate coordinates_ok (detect operator_category feature) feature = None)"

section \<open>Example rows\<close>

definition azersu :: operator_row where
  "azersu =
     \<lparr>o_id = Some ''op-azersu'', o_code = Some ''azersu'', o_name = Some ''Azersu OJSC'',
      o_name_az = None, o_category = Some ''water'', o_color = Some ''#1abc9c'', o_icon = None,
      o_contact_info = None, o_created_at = Some ''2025-01-01'', o_updated_at = Some ''2025-01-01''\<rparr>"

definition water_main :: infrastructure_type_row where
  "water_main =
     \<lparr>t_id = Some ''ty-water-main'', t_code = Some ''water_main'', t_name = Some ''Water Main Pipe'',
      t_name_az = None, t_category = Some ''water'', t_properties_schema = None,
      t_created_at = Some ''2025-01-01''\<rparr>"

definition fresh :: db where
  "fresh = created [azersu] [water_main]"

definition default_values :: infrastructure_insert where
  "default_values =
     \<lparr>ins_id = DEFAULT, ins_stac_id = DEFAULT, ins_type_id = DEFAULT, ins_operator_id = DEFAULT,
      ins_geometry = DEFAULT, ins_properties = DEFAULT, ins_status = DEFAULT,
      ins_installed_date = DEFAULT, ins_depth_meters = DEFAULT, ins_material = DEFAULT,
      ins_capacity = DEFAULT, ins_created_at = DEFAULT, ins_updated_at = DEFAULT\<rparr>"

definition default_building_values :: building_insert where
  "default_building_values =
     \<lparr>insb_id = DEFAULT, insb_stac_id = DEFAULT, insb_osm_id = DEFAULT, insb_geometry = DEFAULT,
      insb_operator_id = DEFAULT, insb_name = DEFAULT, insb_name_az = DEFAULT,
      insb_building_type = DEFAULT, insb_floors = DEFAULT, insb_year_built = DEFAULT,
      insb_address = DEFAULT, insb_properties = DEFAULT, insb_created_at = DEFAULT,
      insb_updated_at = DEFAULT\<rparr>"

definition pipe_geometry :: geom where
  "pipe_geometry =
     \<lparr>geom_type = LINESTRING, srid = 4326, has_z = False, has_m = False,
      geom_coords = [Arr [Num (4983 / 100), Num (4037 / 100)], Arr [Num (4984 / 100), Num (4038 / 100)]]\<rparr>"

definition block_geometry :: geom where
  "block_geometry =
     \<lparr>geom_type = POLYGON, srid = 4326, has_z = False, has_m = False,
      geom_coords = [Arr [Arr [Num 0, Num 0], Arr [Num 1, Num 0], Arr [Num 1, Num 1],
                          Arr [Num 0, Num 0]]]\<rparr>"

definition pipe_insert :: infrastructure_insert where
  "pipe_insert =
     default_values\<lparr>ins_stac_id := VALUE (Some ''infra-1''),
       ins_type_id := VALUE (Some ''ty-water-main''),
       ins_operator_id := VALUE (Some ''op-azersu''),
       ins_geometry := VALUE (Some pipe_geometry)\<rparr>"

definition pipe_row :: infrastructure_row where
  "pipe_row =
     \<lparr>i_id = Some ''uuid-1'', i_stac_id = Some ''infra-1'', i_type_id = Some ''ty-water-main'',
      i_operator_id = Some ''op-azersu'', i_geometry = Some pipe_geometry,
      i_properties = Some (JObj []), i_status = Some ''active'', i_installed_date = None,
      i_depth_meters = None, i_material = None, i_capacity = None,
      i_created_at = Some ''2025-06-01'', i_updated_at = Some ''2025-06-01''\<rparr>"

definition block_insert :: building_insert where
  "block_insert =
     default_building_values\<lparr>insb_stac_id := VALUE (Some ''bldg-1''),
       insb_operator_id := VALUE (Some ''op-azersu''),
       insb_geometry := VALUE (Some block_geometry),
       insb_building_type := VALUE (Some ''residential''),
       insb_floors := VALUE (Some 9)\<rparr>"

definition block_row :: building_row where
  "block_row =
     \<lparr>b_id = Some ''uuid-2'', b_stac_id = Some ''bldg-1'', b_osm_id = None,
      b_geometry = Some block_geometry, b_operator_id = Some ''op-azersu'', b_name = None,
      b_name_az = None, b_building_type = Some ''residential'', b_floors = Some 9,
      b_year_built = None, b_address = None, b_properties = Some (JObj []),
      b_created_at = Some ''2025-06-01'', b_updated_at = Some ''2025-06-01''\<rparr>"

section \<open>Notions used in the statements, and further example data\<close>

text \<open>The first rejection among the features of a file.\<close>

definition first_rejection :: "(Geometry \<Rightarrow> bool) \<Rightarrow> string \<Rightarrow> Feature list \<Rightarrow> rejection option" where
  "first_rejection coordinates_ok operator_category features =
     (case filter (\<lambda>f. \<not> wellFormed coordinates_ok operator_category f) features of
        [] \<Rightarrow> None
      | f # _ \<Rightarrow> validate coordinates_ok (detect operator_category f) f)"

text \<open>A stand-in for the coordinate check: the array is there.\<close>

definition hasCoordinates :: "Geometry \<Rightarrow> bool" where
  "hasCoordinates g = (coordinates g \<noteq> None)"

definition lineBuilding :: Feature where
  "lineBuilding =
     \<lparr>properties = Some [(''building_type'', JStr ''residential'')],
      geometry = Some \<lparr>gtype = ''LineString'',
        coordinates = Some [Arr [Num 0, Num 0], Arr [Num 1, Num 1]]\<rparr>\<rparr>"

text \<open>The operator and type rows the joins of the view put beside a feature row.\<close>

definition operator_of :: "db \<Rightarrow> uuid option \<Rightarrow> operator_row option \<Rightarrow> bool" where
  "operator_of d key o' =
     (case o' of
        None \<Rightarrow> filter (\<lambda>r. sql_eq key (o_id r)) (urban_operators d) = []
      | Some r \<Rightarrow> r \<in> set (urban_operators d) \<and> sql_eq key (o_id r))"

definition type_of :: "db \<Rightarrow> uuid option \<Rightarrow> infrastructure_type_row option \<Rightarrow> bool" where
  "type_of d key t =
     (case t of
        None \<Rightarrow> filter (\<lambda>r. sql_eq key (t_id r)) (urban_infrastructure_types d) = []
      | Some r \<Rightarrow> r \<in> set (urban_infrastructure_types d) \<and> sql_eq key (t_id r))"

text \<open>
  A stand-in for PostGIS: the geometry written as type and coordinates, and a bounding box
  that is always the origin.
\<close>

fun coord_json :: "coord \<Rightarrow> json" where
  "coord_json (Num x) = JNum x"
| "coord_json (Arr xs) = JArr (map coord_json xs)"

fun type_name :: "geometry_type \<Rightarrow> string" where
  "type_name POINT = ''Point''"
| "type_name LINESTRING = ''LineString''"
| "type_name POLYGON = ''Polygon''"
| "type_name MULTIPOINT = ''MultiPoint''"
| "type_name MULTILINESTRING = ''MultiLineString''"
| "type_name MULTIPOLYGON = ''MultiPolygon''"
| "type_name GEOMETRYCOLLECTION = ''GeometryCollection''"
| "type_name CIRCULARSTRING = ''CircularString''"
| "type_name COMPOUNDCURVE = ''CompoundCurve''"
| "type_name CURVEPOLYGON = ''CurvePolygon''"
| "type_name MULTICURVE = ''MultiCurve''"
| "type_name MULTISURFACE = ''MultiSurface''"
| "type_name POLYHEDRALSURFACE = ''PolyhedralSurface''"
| "type_name TRIANGLE = ''Triangle''"
| "type_name TIN = ''TIN''"

definition example_postgis :: postgis where
  "example_postgis =
     \<lparr>ST_AsGeoJSON = (\<lambda>g. JObj [(''type'', JStr (type_name (geom_type g))),
                                 (''coordinates'', JArr (map coord_json (geom_coords g)))]),
      ST_XMin = (\<lambda>g. 0), ST_YMin = (\<lambda>g. 0), ST_XMax = (\<lambda>g. 0), ST_YMax = (\<lambda>g. 0)\<rparr>"

definition retired_pipe :: infrastructure_row where
  "retired_pipe =
     pipe_row\<lparr>i_properties := Some (JObj [(''status'', JStr ''retired''), (''note'', JStr ''x'')])\<rparr>"

section \<open>Properties of the filter state\<close>

lemma toggleOperator_twice:
  "set (operators (toggleOperator code (toggleOperator code prev))) = set (operators prev)"
  by (auto simp: toggleOperator_def)

lemma toggleCategory_twice:
  "set (categories (toggleCategory code (toggleCategory code prev))) = set (categories prev)"
  by (auto simp: toggleCategory_def)

text \<open>
  C10. Toggling the same operator code twice gives back the selected operators as a set,
  and likewise for categories; one toggle of either kind changes no other field of the
  filter state.
\<close>

theorem toggle_involution:
  "set (operators (toggleOperator code (toggleOperator code prev))) = set (operators prev)
   \<and> categories (toggleOperator code prev) = categories prev
   \<and> showInfrastructure (toggleOperator code prev) = showInfrastructure prev
   \<and> showBuildings (toggleOperator code prev) = showBuildings prev
   \<and> set (categories (toggleCategory code (toggleCategory code prev))) = set (categories prev)
   \<and> operators (toggleCategory code prev) = operators prev
   \<and> showInfrastructure (toggleCategory code prev) = showInfrastructure prev
   \<and> showBuildings (toggleCategory code prev) = showBuildings prev"
proof -
  have "categories (toggleOperator code prev) = categories prev"
    and "showInfrastructure (toggleOperator code prev) = showInfrastructure prev"
    and "showBuildings (toggleOperator code prev) = showBuildings prev"
    by (simp_all add: toggleOperator_def)
  moreover have "operators (toggleCategory code prev) = operators prev"
    and "showInfrastructure (toggleCategory code prev) = showInfrastructure prev"
    and "showBuildings (toggleCategory code prev) = showBuildings prev"
    by (simp_all add: toggleCategory_def)
  ultimately show ?thesis
    using toggleOperator_twice [of code prev] toggleCategory_twice [of code prev] by simp
qed

section \<open>Properties of the feature panel\<close>

text \<open>
  C3. The panel classifies a feature as a building exactly when its properties have a
  defined \<open>building_type\<close> key, and labels it \<open>buildings\<close>; a feature without that key that
  carries \<open>infrastructure_type\<close> or \<open>category\<close> is labelled \<open>infrastructure\<close>.
\<close>

theorem feature_classification:
  "(isBuilding f \<longleftrightarrow> propOpt f ''building_type'' \<noteq> None)
   \<and> (propOpt f ''building_type'' \<noteq> None \<longrightarrow>
        FeaturePanel (Some f) = Some \<lparr>headerIcon = Building2, leftColumn = BuildingDetails, badge = ''buildings''\<rparr>)
   \<and> (propOpt f ''building_type'' = None \<longrightarrow>
        propOpt f ''infrastructure_type'' \<noteq> None \<or> propOpt f ''category'' \<noteq> None \<longrightarrow>
        FeaturePanel (Some f) = Some \<lparr>headerIcon = Cable, leftColumn = InfrastructureDetails,
                 badge = ''infrastructure''\<rparr>)"
  by (auto simp: isBuilding_def propsOf_def propOpt_def FeaturePanel_def split: option.splits)

text \<open>A building whose type is \<open>null\<close>, and a water pipe.\<close>

theorem feature_classification_witness:
  "isBuilding \<lparr>properties = Some [(''building_type'', JNull), (''floors'', JNum 5)], geometry = None\<rparr>
   \<and> FeaturePanel (Some \<lparr>properties = Some [(''building_type'', JNull), (''floors'', JNum 5)],
                           geometry = None\<rparr>)
       = Some \<lparr>headerIcon = Building2, leftColumn = BuildingDetails, badge = ''buildings''\<rparr>
   \<and> \<not> isBuilding \<lparr>properties = Some [(''category'', JStr ''water'')], geometry = None\<rparr>
   \<and> FeaturePanel (Some \<lparr>properties = Some [(''category'', JStr ''water'')], geometry = None\<rparr>)
       = Some \<lparr>headerIcon = Cable, leftColumn = InfrastructureDetails,
                 badge = ''infrastructure''\<rparr>"
  using feature_classification
          [of "\<lparr>properties = Some [(''building_type'', JNull), (''floors'', JNum 5)], geometry = None\<rparr>"]
        feature_classification
          [of "\<lparr>properties = Some [(''category'', JStr ''water'')], geometry = None\<rparr>"]
  by (simp add: propOpt_def)

section \<open>Properties of the operator portal\<close>

lemma endsWith_suffix: "endsWith s t = suffix t s"
proof
  assume "endsWith s t"
  then have "s = take (length s - length t) s @ t"
    unfolding endsWith_def by (metis append_take_drop_id)
  then show "suffix t s" unfolding suffix_def by blast
next
  assume "suffix t s"
  then obtain p where "s = p @ t" unfolding suffix_def by blast
  then show "endsWith s t" by (simp add: endsWith_def)
qed

lemma uploads_append: "uploads (a @ b) = uploads a @ uploads b"
  by (induction a rule: uploads.induct) simp_all

lemma statsEffect_uploads: "uploads (statsEffect rendered s) = []"
  by (simp add: statsEffect_def split: option.splits prod.splits)

lemma setImportResult_keeps:
  "selectedFile (setImportResult v s) = selectedFile s"
  "currentOperator (setImportResult v s) = currentOperator s"
  by (simp_all add: setImportResult_def split: option.splits)

lemma setImportResult_stamped: "wellStamped s \<Longrightarrow> wellStamped (setImportResult v s)"
  by (auto simp: wellStamped_def setImportResult_def split: option.splits)

lemma setCurrentOperator_stamped: "wellStamped s \<Longrightarrow> wellStamped (setCurrentOperator v s)"
  by (auto simp: wellStamped_def setCurrentOperator_def split: option.splits)

lemma wellStamped_fields:
  "wellStamped (s\<lparr>password := p\<rparr>) = wellStamped s"
  "wellStamped (s\<lparr>selectedOperatorId := i\<rparr>) = wellStamped s"
  "wellStamped (s\<lparr>loginError := e\<rparr>) = wellStamped s"
  "wellStamped (s\<lparr>stats := st\<rparr>) = wellStamped s"
  "wellStamped (s\<lparr>importing := b\<rparr>) = wellStamped s"
  "wellStamped (s\<lparr>selectedFile := f\<rparr>) = wellStamped s"
  "wellStamped (s\<lparr>dragActive := b\<rparr>) = wellStamped s"
  by (simp_all add: wellStamped_def split: option.splits prod.splits)

lemma handleFileSelect_keeps:
  "selectionAccepted s \<Longrightarrow> selectionAccepted (handleFileSelect chosen s)"
  by (auto simp: selectionAccepted_def handleFileSelect_def setImportResult_keeps
      split: option.splits)

lemma handleFileSelect_stamped: "wellStamped s \<Longrightarrow> wellStamped (handleFileSelect chosen s)"
  by (simp add: handleFileSelect_def setImportResult_stamped wellStamped_fields
      split: option.splits)

lemma handleDrop_keeps: "selectionAccepted s \<Longrightarrow> selectionAccepted (handleDrop files s)"
  by (cases files) (simp_all add: handleDrop_def selectionAccepted_def handleFileSelect_def
      setImportResult_keeps)

lemma handleDrop_stamped: "wellStamped s \<Longrightarrow> wellStamped (handleDrop files s)"
  by (cases files) (simp_all add: handleDrop_def handleFileSelect_stamped wellStamped_fields)

lemma handleLogout_stamped: "wellStamped s \<Longrightarrow> wellStamped (handleLogout s)"
  by (simp add: handleLogout_def setImportResult_stamped setCurrentOperator_stamped
      wellStamped_fields)

text \<open>What holds of the state a handler starts in holds of the state rendered in the end,
  if every render keeps it; and the files uploaded are those of the handler's own requests.\<close>

lemma perform_keeps:
  "P s \<Longrightarrow> (\<And>t. Render t \<in> set todo \<Longrightarrow> P t) \<Longrightarrow> P (fst (perform s todo))"
  by (induction s todo rule: perform.induct) (auto split: prod.splits)

lemma perform_uploads:
  "f \<in> set (uploads (snd (perform s todo))) \<Longrightarrow> \<exists>i. Send (PostImport i f) \<in> set todo"
proof (induction s todo rule: perform.induct)
  case (1 s)
  then show ?case by simp
next
  case (2 s r rest)
  then show ?case by (cases r) (auto split: prod.splits)
next
  case (3 s s1 rest)
  then show ?case by (auto simp: uploads_append statsEffect_uploads split: prod.splits)
qed

lemma handleImport_all:
  assumes "P s"
    and "\<And>u v. P u \<Longrightarrow> P (u\<lparr>importing := v\<rparr>)"
    and "\<And>u. P u \<Longrightarrow> P (u\<lparr>selectedFile := None\<rparr>)"
    and "\<And>u v. P u \<Longrightarrow> P (u\<lparr>stats := v\<rparr>)"
    and "\<And>u v. P u \<Longrightarrow> P (setImportResult v u)"
    and "\<And>chosen. selectedFile s = Some chosen \<Longrightarrow> Q chosen"
  shows "\<forall>x \<in> set (handleImport a b s).
           case x of Render t \<Rightarrow> P t | Send r \<Rightarrow> list_all Q (uploads [r])"
proof (cases "selectedFile s")
  case None
  then show ?thesis by (simp add: handleImport_def)
next
  case chosen: (Some chosen)
  show ?thesis
  proof (cases "currentOperator s")
    case None
    with chosen show ?thesis by (simp add: handleImport_def)
  next
    case (Some signed)
    then obtain k operator where signed: "currentOperator s = Some (k, operator)"
      by (cases signed) simp
    show ?thesis
    proof (cases a)
      case Rejects
      with chosen signed assms show ?thesis by (simp add: handleImport_def Let_def)
    next
      case data: (Resolves data)
      show ?thesis
      proof (cases b)
        case Rejects
        with chosen signed data assms show ?thesis by (simp add: handleImport_def Let_def)
      next
        case (Resolves statsData)
        with chosen signed data assms show ?thesis by (simp add: handleImport_def Let_def)
      qed
    qed
  qed
qed

lemma handleImport_renders:
  assumes "Render t \<in> set (handleImport a b s)" and "P s"
    and "\<And>u v. P u \<Longrightarrow> P (u\<lparr>importing := v\<rparr>)"
    and "\<And>u. P u \<Longrightarrow> P (u\<lparr>selectedFile := None\<rparr>)"
    and "\<And>u v. P u \<Longrightarrow> P (u\<lparr>stats := v\<rparr>)"
    and "\<And>u v. P u \<Longrightarrow> P (setImportResult v u)"
  shows "P t"
proof -
  have "\<forall>x \<in> set (handleImport a b s).
          case x of Render t \<Rightarrow> P t | Send r \<Rightarrow> list_all (\<lambda>_. True) (uploads [r])"
    by (rule handleImport_all [where P = P]) (simp_all add: assms(2-))
  from bspec [OF this assms(1)] show ?thesis by simp
qed

lemma handleImport_sends:
  assumes "Send (PostImport i f) \<in> set (handleImport a b s)"
  shows "selectedFile s = Some f"
proof -
  have "\<forall>x \<in> set (handleImport a b s).
          case x of Render t \<Rightarrow> True
          | Send r \<Rightarrow> list_all (\<lambda>chosen. selectedFile s = Some chosen) (uploads [r])"
    by (rule handleImport_all [where P = "\<lambda>_. True"]) simp_all
  from bspec [OF this assms] show ?thesis by simp
qed

lemma handleLogin_renders:
  assumes "Render t \<in> set (handleLogin a s)"
  shows "selectedFile t = selectedFile s" and "wellStamped s \<Longrightarrow> wellStamped t"
proof -
  from assms consider v where "t = s\<lparr>loginError := v\<rparr>"
    | v where "t = setCurrentOperator v (s\<lparr>loginError := []\<rparr>)"
    by (auto simp: handleLogin_def Let_def split: outcome.splits loginData.splits)
  then have "selectedFile t = selectedFile s \<and> (wellStamped s \<longrightarrow> wellStamped t)"
  proof cases
    case 1
    then show ?thesis by (simp add: wellStamped_fields)
  next
    case 2
    then show ?thesis
      using setCurrentOperator_stamped [of "s\<lparr>loginError := []\<rparr>" v]
      by (simp add: wellStamped_fields setCurrentOperator_def split: option.splits)
  qed
  then show "selectedFile t = selectedFile s" and "wellStamped s \<Longrightarrow> wellStamped t"
    by simp_all
qed

lemma selectionAccepted_fields:
  "selectionAccepted (s\<lparr>importing := b\<rparr>) = selectionAccepted s"
  "selectionAccepted (s\<lparr>selectedFile := None\<rparr>)"
  "selectionAccepted (s\<lparr>stats := st\<rparr>) = selectionAccepted s"
  "selectionAccepted (s\<lparr>password := p\<rparr>) = selectionAccepted s"
  "selectionAccepted (s\<lparr>selectedOperatorId := i\<rparr>) = selectionAccepted s"
  "selectionAccepted (s\<lparr>dragActive := b\<rparr>) = selectionAccepted s"
  "selectionAccepted (setImportResult v s) = selectionAccepted s"
  "selectionAccepted (setCurrentOperator w s) = selectionAccepted s"
  by (simp_all add: selectionAccepted_def setImportResult_keeps setCurrentOperator_def
      split: option.splits)

lemma handler_renders:
  assumes "Render t \<in> set (handler e s)"
  shows "selectionAccepted s \<Longrightarrow> selectionAccepted t" and "wellStamped s \<Longrightarrow> wellStamped t"
proof -
  show "selectionAccepted s \<Longrightarrow> selectionAccepted t"
  proof (cases e)
    case (Login a)
    with assms handleLogin_renders(1) [of t a s] show "selectionAccepted s \<Longrightarrow> ?thesis"
      by (simp add: selectionAccepted_def)
  next
    case Logout
    with assms show "selectionAccepted s \<Longrightarrow> ?thesis"
      by (simp add: handleLogout_def selectionAccepted_fields)
  next
    case (FileSelect chosen)
    with assms show "selectionAccepted s \<Longrightarrow> ?thesis" by (simp add: handleFileSelect_keeps)
  next
    case (Drop files)
    with assms show "selectionAccepted s \<Longrightarrow> ?thesis" by (simp add: handleDrop_keeps)
  next
    case (Import a b)
    with assms have r: "Render t \<in> set (handleImport a b s)" by simp
    show "selectionAccepted s \<Longrightarrow> ?thesis"
      by (rule handleImport_renders [OF r, where P = selectionAccepted])
        (simp_all add: selectionAccepted_fields)
  qed (use assms in \<open>auto simp: selectionAccepted_fields handleDrag_def\<close>)
  show "wellStamped s \<Longrightarrow> wellStamped t"
  proof (cases e)
    case (Login a)
    with assms handleLogin_renders(2) [of t a s] show "wellStamped s \<Longrightarrow> ?thesis" by simp
  next
    case Logout
    with assms show "wellStamped s \<Longrightarrow> ?thesis" by (simp add: handleLogout_stamped)
  next
    case (FileSelect chosen)
    with assms show "wellStamped s \<Longrightarrow> ?thesis" by (simp add: handleFileSelect_stamped)
  next
    case (Drop files)
    with assms show "wellStamped s \<Longrightarrow> ?thesis" by (simp add: handleDrop_stamped)
  next
    case (Import a b)
    with assms have r: "Render t \<in> set (handleImport a b s)" by simp
    show "wellStamped s \<Longrightarrow> ?thesis"
      by (rule handleImport_renders [OF r, where P = wellStamped])
        (simp_all add: wellStamped_fields setImportResult_stamped)
  qed (use assms in \<open>auto simp: wellStamped_fields handleDrag_def\<close>)
qed

lemma step_keeps:
  "selectionAccepted s \<Longrightarrow> selectionAccepted (fst (step e s))"
  "wellStamped s \<Longrightarrow> wellStamped (fst (step e s))"
  unfolding step_def
  using perform_keeps [of selectionAccepted s "handler e s"]
    perform_keeps [of wellStamped s "handler e s"] handler_renders [of _ e s]
  by blast+

lemma step_uploads: "selectionAccepted s \<Longrightarrow> f \<in> set (uploads (snd (step e s))) \<Longrightarrow> accepted f"
proof -
  assume ok: "selectionAccepted s" and f: "f \<in> set (uploads (snd (step e s)))"
  from f obtain i where "Send (PostImport i f) \<in> set (handler e s)"
    unfolding step_def using perform_uploads by blast
  then have "selectedFile s = Some f"
    by (cases e) (auto simp: handleLogin_def Let_def dest: handleImport_sends)
  with ok show "accepted f" by (simp add: selectionAccepted_def)
qed

lemma run_fst: "fst (run (e # es) s) = fst (run es (fst (step e s)))"
  by (simp split: prod.splits)

lemma run_accepted: "selectionAccepted s \<Longrightarrow> selectionAccepted (fst (run es s))"
proof (induction es arbitrary: s)
  case Nil
  then show ?case by simp
next
  case (Cons e es)
  from Cons.IH [OF step_keeps(1) [OF Cons.prems, of e]] show ?case by (simp only: run_fst)
qed

lemma run_stamped: "wellStamped s \<Longrightarrow> wellStamped (fst (run es s))"
proof (induction es arbitrary: s)
  case Nil
  then show ?case by simp
next
  case (Cons e es)
  from Cons.IH [OF step_keeps(2) [OF Cons.prems, of e]] show ?case by (simp only: run_fst)
qed

lemma run_uploads: "selectionAccepted s \<Longrightarrow> f \<in> set (uploads (snd (run es s))) \<Longrightarrow> accepted f"
proof (induction es arbitrary: s)
  case Nil
  then show ?case by simp
next
  case (Cons e es)
  obtain s1 sent where st: "step e s = (s1, sent)" by (cases "step e s")
  obtain s2 later where rn: "run es s1 = (s2, later)" by (cases "run es s1")
  from Cons.prems(2) st rn have "f \<in> set (uploads sent) \<or> f \<in> set (uploads later)"
    by (simp add: uploads_append)
  then show ?case
  proof
    assume "f \<in> set (uploads sent)"
    with step_uploads [OF Cons.prems(1), of f e] st show ?thesis by simp
  next
    assume "f \<in> set (uploads later)"
    moreover have "selectionAccepted s1" using step_keeps(1) [OF Cons.prems(1), of e] st by simp
    ultimately show ?thesis using Cons.IH [of s1] rn by simp
  qed
qed

lemma initialPortal_ok: "selectionAccepted initialPortal" "wellStamped initialPortal"
  by (simp_all add: selectionAccepted_def wellStamped_def initialPortal_def)

lemma step_FileSelect:
  "step (FileSelect chosen) s =
     (handleFileSelect chosen s, statsEffect s (handleFileSelect chosen s))"
  by (simp add: step_def)

lemma step_Drop: "step (Drop files) s = (handleDrop files s, statsEffect s (handleDrop files s))"
  by (simp add: step_def)

lemma rejection_read:
  assumes "wellStamped s" "\<not> accepted chosen"
  shows "statsEffect s (handleFileSelect (Some chosen) s) =
           (case currentOperator s of None \<Rightarrow> [] | Some (k, operator) \<Rightarrow> [GetStats (op_id operator)])"
  using assms
  by (auto simp: statsEffect_def deps_def handleFileSelect_def setImportResult_def wellStamped_def
      split: option.splits prod.splits)

text \<open>
  C8, amended. A chosen file is taken as the selection exactly when its name ends in
  \<open>.geojson\<close> or \<open>.json\<close>. Any other file leaves the selection alone and shows the result
  \<open>total = 0, imported = 0, errors = 1\<close> with a message, a new object each time. A drop
  clears \<open>dragActive\<close> and then treats its first file as a chosen file; the files after the
  first are ignored, and so is an empty drop. Choosing or dropping a file uploads nothing:
  the only request that can follow is the statistics read of the effect, and in every
  state the portal can reach it does follow the rejection of a file when an operator is
  signed in. No sequence of events ever uploads a file that failed the name check.
\<close>

theorem file_select_gate:
  "accepted chosen = (suffix ''.geojson'' (name chosen) \<or> suffix ''.json'' (name chosen))
   \<and> (accepted chosen \<longrightarrow>
        handleFileSelect (Some chosen) s = s\<lparr>selectedFile := Some chosen, importResult := None\<rparr>)
   \<and> (\<not> accepted chosen \<longrightarrow>
        handleFileSelect (Some chosen) s =
          s\<lparr>importResult :=
              Some (allocated s,
                    \<lparr>total = 0, imported = 0, errors = 1, message = msgOnlyGeoJSON,
                     first_error = None, detected_type = None\<rparr>),
            allocated := Suc (allocated s)\<rparr>
        \<and> chosen \<notin> set (uploads (snd (run evs initialPortal))))
   \<and> handleDrop (chosen # others) s = handleFileSelect (Some chosen) (s\<lparr>dragActive := False\<rparr>)
   \<and> handleDrop [] s = s\<lparr>dragActive := False\<rparr>
   \<and> step (FileSelect (Some chosen)) s =
       (handleFileSelect (Some chosen) s, statsEffect s (handleFileSelect (Some chosen) s))
   \<and> step (Drop files) s = (handleDrop files s, statsEffect s (handleDrop files s))
   \<and> uploads (snd (step (FileSelect (Some chosen)) s)) = []
   \<and> uploads (snd (step (Drop files) s)) = []
   \<and> (\<not> accepted chosen \<longrightarrow>
        snd (step (FileSelect (Some chosen)) (fst (run evs initialPortal))) =
          (case currentOperator (fst (run evs initialPortal)) of
             None \<Rightarrow> []
           | Some (k, operator) \<Rightarrow> [GetStats (op_id operator)])
        \<and> snd (step (Drop (chosen # others)) (fst (run evs initialPortal))) =
          (case currentOperator (fst (run evs initialPortal)) of
             None \<Rightarrow> []
           | Some (k, operator) \<Rightarrow> [GetStats (op_id operator)]))"
proof -
  have never: "\<not> accepted chosen \<Longrightarrow> chosen \<notin> set (uploads (snd (run evs initialPortal)))"
    using run_uploads [OF initialPortal_ok(1), of chosen evs] by blast
  have picked: "accepted chosen \<Longrightarrow>
      handleFileSelect (Some chosen) s = s\<lparr>selectedFile := Some chosen, importResult := None\<rparr>"
    by (simp add: handleFileSelect_def setImportResult_def)
  have rejected: "\<not> accepted chosen \<Longrightarrow>
      handleFileSelect (Some chosen) s =
          s\<lparr>importResult :=
              Some (allocated s,
                    \<lparr>total = 0, imported = 0, errors = 1, message = msgOnlyGeoJSON,
                     first_error = None, detected_type = None\<rparr>),
            allocated := Suc (allocated s)\<rparr>"
    by (simp add: handleFileSelect_def setImportResult_def resultOnlyGeoJSON_def)
  note steps = step_FileSelect step_Drop
  let ?s = "fst (run evs initialPortal)"
  have reached: "wellStamped ?s" "wellStamped (?s\<lparr>dragActive := False\<rparr>)"
    using run_stamped [OF initialPortal_ok(2), of evs] by (simp_all add: wellStamped_fields)
  have read: "snd (step (FileSelect (Some chosen)) ?s) =
          (case currentOperator ?s of None \<Rightarrow> [] | Some (k, operator) \<Rightarrow> [GetStats (op_id operator)])"
    if "\<not> accepted chosen"
    using rejection_read [OF reached(1) that] by (simp add: steps)
  have dropped: "snd (step (Drop (chosen # others)) ?s) =
          (case currentOperator ?s of None \<Rightarrow> [] | Some (k, operator) \<Rightarrow> [GetStats (op_id operator)])"
    if "\<not> accepted chosen"
    using rejection_read [OF reached(2) that]
    by (simp add: steps handleDrop_def statsEffect_def deps_def)
  have drops: "handleDrop (chosen # others) s = handleFileSelect (Some chosen) (s\<lparr>dragActive := False\<rparr>)"
    "handleDrop [] s = s\<lparr>dragActive := False\<rparr>"
    by (simp_all add: handleDrop_def)
  have none: "uploads (snd (step (FileSelect (Some chosen)) s)) = []"
    "uploads (snd (step (Drop files) s)) = []"
    by (simp_all add: steps statsEffect_uploads)
  have name: "accepted chosen = (suffix ''.geojson'' (name chosen) \<or> suffix ''.json'' (name chosen))"
    by (simp add: accepted_def endsWith_suffix)
  from name picked rejected never drops none read dropped
  show ?thesis by (simp add: steps)
qed

text \<open>
  C8 as stated fails twice. With an operator signed in, the rejection of a text file is
  followed by a request to the server, the statistics read. And of a text file and a
  GeoJSON file dropped together, the second is not accepted, although its name ends in
  \<open>.geojson\<close>: the selection stays empty and the result shown is the rejection of the
  first.
\<close>

theorem file_select_gate_counterexample:
  "\<not> accepted notesFile
   \<and> snd (step (FileSelect (Some notesFile)) signedIn) = [GetStats ''7'']
   \<and> accepted pipesFile
   \<and> selectedFile (fst (step (Drop [notesFile, pipesFile]) signedIn)) = None
   \<and> map_option snd (importResult (fst (step (Drop [notesFile, pipesFile]) signedIn)))
       = Some resultOnlyGeoJSON"
  by (simp add: accepted_def endsWith_def notesFile_def pipesFile_def signedIn_def step_def
      handleLogin_def Let_def setCurrentOperator_def initialPortal_def statsEffect_def deps_def
      handleFileSelect_def handleDrop_def setImportResult_def azersuPortal_def)

text \<open>Signing in, choosing a GeoJSON file, then a text file, then importing.\<close>

theorem file_select_gate_witness:
  "accepted pipesFile \<and> \<not> accepted notesFile
   \<and> selectedFile (handleFileSelect (Some pipesFile) initialPortal) = Some pipesFile
   \<and> handleFileSelect (Some notesFile) initialPortal
       = initialPortal\<lparr>importResult := Some (0, resultOnlyGeoJSON), allocated := 1\<rparr>
   \<and> snd (step (FileSelect (Some notesFile))
          (fst (run [Login (Resolves (LoginSuccess azersuPortal))] initialPortal)))
       = [GetStats ''7'']
   \<and> notesFile
       \<notin> set (uploads (snd (run
           [Login (Resolves (LoginSuccess azersuPortal)),
            FileSelect (Some pipesFile),
            FileSelect (Some notesFile),
            Import (Resolves \<lparr>total = 1, imported = 1, errors = 0, message = ''ok'',
                              first_error = None, detected_type = None\<rparr>) Rejects]
           initialPortal)))
   \<and> uploads (snd (run
           [Login (Resolves (LoginSuccess azersuPortal)),
            FileSelect (Some pipesFile),
            FileSelect (Some notesFile),
            Import (Resolves \<lparr>total = 1, imported = 1, errors = 0, message = ''ok'',
                              first_error = None, detected_type = None\<rparr>) Rejects]
           initialPortal)) = [pipesFile]"
proof -
  let ?evs = "[Login (Resolves (LoginSuccess azersuPortal)),
            FileSelect (Some pipesFile), FileSelect (Some notesFile),
            Import (Resolves \<lparr>total = 1, imported = 1, errors = 0, message = ''ok'',
                              first_error = None, detected_type = None\<rparr>) Rejects]"
  have good: "accepted pipesFile"
    by (simp add: accepted_def endsWith_def pipesFile_def)
  have bad: "\<not> accepted notesFile"
    by (simp add: accepted_def endsWith_def notesFile_def)
  note g = file_select_gate [where chosen = pipesFile and s = initialPortal and evs = ?evs,
      THEN conjunct2]
  note b = file_select_gate [where chosen = notesFile and s = initialPortal and evs = ?evs,
      THEN conjunct2]
  note r = file_select_gate [where chosen = notesFile
      and evs = "[Login (Resolves (LoginSuccess azersuPortal))]", THEN conjunct2]
  from good g have sel: "selectedFile (handleFileSelect (Some pipesFile) initialPortal) = Some pipesFile"
    by simp
  from bad b have rej: "handleFileSelect (Some notesFile) initialPortal
       = initialPortal\<lparr>importResult := Some (0, resultOnlyGeoJSON), allocated := 1\<rparr>"
    by (simp add: resultOnlyGeoJSON_def initialPortal_def)
  from bad b have never: "notesFile \<notin> set (uploads (snd (run ?evs initialPortal)))"
    by blast
  have who: "currentOperator (fst (run [Login (Resolves (LoginSuccess azersuPortal))] initialPortal))
      = Some (0, azersuPortal)"
    by (simp add: step_def handleLogin_def Let_def setCurrentOperator_def initialPortal_def
        statsEffect_def deps_def split: prod.splits)
  from bad r have "snd (step (FileSelect (Some notesFile))
          (fst (run [Login (Resolves (LoginSuccess azersuPortal))] initialPortal)))
       = (case currentOperator (fst (run [Login (Resolves (LoginSuccess azersuPortal))] initialPortal))
          of None \<Rightarrow> [] | Some (k, operator) \<Rightarrow> [GetStats (op_id operator)])"
    by blast
  also have "\<dots> = [GetStats ''7'']"
    unfolding who by (simp add: azersuPortal_def)
  finally have read: "snd (step (FileSelect (Some notesFile))
          (fst (run [Login (Resolves (LoginSuccess azersuPortal))] initialPortal)))
       = [GetStats ''7'']" .
  have sent: "uploads (snd (run ?evs initialPortal)) = [pipesFile]"
    by (simp add: step_def handleLogin_def Let_def setCurrentOperator_def initialPortal_def
        statsEffect_def deps_def handleFileSelect_def setImportResult_def handleImport_def
        good bad azersuPortal_def resultOnlyGeoJSON_def resultImportError_def
        split: prod.splits)
  from good bad sel rej never read sent show ?thesis by simp
qed

section \<open>Properties of the map loaders\<close>

lemma js_includes_iff:
  "js_includes xs v \<longleftrightarrow> (\<exists>c \<in> set xs. v = Some (JStr c))"
  by (cases "(xs, v)" rule: js_includes.cases) auto

lemma catchAll_returns: "\<exists>r. catchAll x = Inr r"
  by (simp add: catchAll_def)

lemma renderInfra_returns: "\<exists>r. renderInfra draws filters feature = Inr r"
  by (simp add: renderInfra_def catchAll_returns)

lemma renderBuilding_returns: "\<exists>r. renderBuilding draws filters feature = Inr r"
  by (simp add: renderBuilding_def catchAll_returns)

lemma forEachFeature_returns:
  "(\<And>feature. \<exists>r. callback feature = Inr r) \<Longrightarrow>
     forEachFeature callback features = Inr (concat (map (added callback) features))"
proof (induction features)
  case Nil
  then show ?case by simp
next
  case (Cons feature features)
  from Cons.prems obtain r where r: "callback feature = Inr r" by blast
  have rest: "forEachFeature callback features = Inr (concat (map (added callback) features))"
    using Cons.IH Cons.prems by blast
  have one: "added callback feature = (case r of None \<Rightarrow> [] | Some l \<Rightarrow> [l])"
    using r by (simp add: added_def split: option.splits)
  show ?case using r rest one by simp
qed

lemma infraBody_skips: "\<not> wellShapedInfra feature \<Longrightarrow> infraBody draws feature = (None, None)"
  by (auto simp: wellShapedInfra_def infraBody_def split: option.splits)

lemma buildingBody_skips:
  "\<not> wellShapedBuilding feature \<Longrightarrow> buildingBody draws feature = (None, None)"
  by (auto simp: wellShapedBuilding_def buildingBody_def split: option.splits)

lemma tryDraw_cases:
  "\<exists>l. popupProps l = p
     \<and> fst (tryDraw draws sh p) = (if draws l = ThrowsBeforeAdding then None else Some l)
     \<and> (snd (tryDraw draws sh p) = None \<longleftrightarrow> draws l = Completes)"
  by (rule exI [of _ "\<lparr>shape = sh, popupProps = p\<rparr>"])
    (simp add: tryDraw_def Let_def split: leaflet_outcome.splits)

lemma infraBody_draws:
  assumes "wellShapedInfra feature"
  shows "\<exists>l. popupProps l = propsOf feature
       \<and> fst (infraBody draws feature) = (if draws l = ThrowsBeforeAdding then None else Some l)
       \<and> (snd (infraBody draws feature) = None \<longleftrightarrow> draws l = Completes)"
proof -
  from assms obtain sh where "infraBody draws feature = tryDraw draws sh (propsOf feature)"
    by (auto simp: wellShapedInfra_def infraBody_def split: option.splits)
  with tryDraw_cases [of "propsOf feature" draws sh] show ?thesis by simp
qed

lemma buildingBody_draws:
  assumes "wellShapedBuilding feature"
  shows "\<exists>l. popupProps l = propsOf feature
       \<and> fst (buildingBody draws feature) = (if draws l = ThrowsBeforeAdding then None else Some l)
       \<and> (snd (buildingBody draws feature) = None \<longleftrightarrow> draws l = Completes)"
proof -
  from assms obtain sh where "buildingBody draws feature = tryDraw draws sh (propsOf feature)"
    by (auto simp: wellShapedBuilding_def buildingBody_def split: option.splits)
  with tryDraw_cases [of "propsOf feature" draws sh] show ?thesis by simp
qed

lemma loadInfrastructure_layers:
  "showInfrastructure filters \<Longrightarrow>
     layers (loadInfrastructure draws filters (Some old) (Resolves features)) =
       Some (Inr (concat (map (added (renderInfra draws filters)) features)))"
  by (simp add: loadInfrastructure_def forEachFeature_returns renderInfra_returns)

lemma loadBuildings_layers:
  "showBuildings filters \<Longrightarrow>
     layers (loadBuildings draws filters (Some old) (Resolves features)) =
       Some (Inr (concat (map (added (renderBuilding draws filters)) features)))"
  by (simp add: loadBuildings_def forEachFeature_returns renderBuilding_returns)

lemma loadInfrastructure_returns:
  "\<exists>ls. layers (loadInfrastructure draws filters (Some old) answer) = Some (Inr ls)"
  by (cases answer)
    (simp_all add: loadInfrastructure_def forEachFeature_returns renderInfra_returns)

lemma loadBuildings_returns:
  "\<exists>ls. layers (loadBuildings draws filters (Some old) answer) = Some (Inr ls)"
  by (cases answer)
    (simp_all add: loadBuildings_def forEachFeature_returns renderBuilding_returns)

lemma renderInfra_passed:
  assumes "renderInfra draws filters feature = Inr (Some l)"
  shows "operatorCheck filters feature" and "categoryCheck filters feature"
  using assms by (auto simp: renderInfra_def split: if_splits)

lemma infraParams_one_operator:
  "operators filters = [c] \<Longrightarrow> (''operator'', c) \<in> set (infraParams filters)"
  by (simp add: infraParams_def)

lemma infraParams_one_category:
  "categories filters = [c] \<Longrightarrow> (''category'', c) \<in> set (infraParams filters)"
  by (simp add: infraParams_def)

lemma infraParams_no_operator:
  "length (operators filters) \<noteq> 1 \<Longrightarrow> ''operator'' \<notin> fst ` set (infraParams filters)"
  by (cases "operators filters"; cases "tl (operators filters)")
    (auto simp: infraParams_def split: list.splits)

lemma infraParams_no_category:
  "length (categories filters) \<noteq> 1 \<Longrightarrow> ''category'' \<notin> fst ` set (infraParams filters)"
  by (cases "categories filters"; cases "tl (categories filters)")
    (auto simp: infraParams_def split: list.splits)

text \<open>
  C2. In \<open>loadInfrastructure\<close> a feature adds a layer only if, with more than one
  operator selected, its \<open>operator_code\<close> is one of them, and with more than one category
  selected, its \<open>category\<close> is one of them. With exactly one operator (or category)
  selected the value goes into the query string and the client-side check lets every
  feature through; with none or several, the query string does not name it.
\<close>

theorem infrastructure_refilter:
  "(renderInfra draws filters feature = Inr (Some l) \<longrightarrow>
      (1 < length (operators filters) \<longrightarrow>
         (\<exists>c \<in> set (operators filters). propOpt feature ''operator_code'' = Some (JStr c)))
      \<and> (1 < length (categories filters) \<longrightarrow>
         (\<exists>c \<in> set (categories filters). propOpt feature ''category'' = Some (JStr c))))
   \<and> (operators filters = [c] \<longrightarrow>
        (''operator'', c) \<in> set (infraParams filters) \<and> operatorCheck filters feature)
   \<and> (categories filters = [d] \<longrightarrow>
        (''category'', d) \<in> set (infraParams filters) \<and> categoryCheck filters feature)
   \<and> (length (operators filters) \<noteq> 1 \<longrightarrow> ''operator'' \<notin> fst ` set (infraParams filters))
   \<and> (length (categories filters) \<noteq> 1 \<longrightarrow> ''category'' \<notin> fst ` set (infraParams filters))
   \<and> (showInfrastructure filters \<longrightarrow>
        request (loadInfrastructure draws filters (Some old) answer) =
          Some (''/api/geojson/infrastructure'', infraParams filters)
        \<and> layers (loadInfrastructure draws filters (Some old) (Resolves features)) =
          Some (Inr (concat (map (added (renderInfra draws filters)) features))))"
proof -
  have "renderInfra draws filters feature = Inr (Some l) \<Longrightarrow> 1 < length (operators filters) \<Longrightarrow>
      \<exists>c \<in> set (operators filters). propOpt feature ''operator_code'' = Some (JStr c)"
    using renderInfra_passed(1) [of draws filters feature l]
    by (simp add: operatorCheck_def js_includes_iff)
  moreover have "renderInfra draws filters feature = Inr (Some l) \<Longrightarrow> 1 < length (categories filters) \<Longrightarrow>
      \<exists>c \<in> set (categories filters). propOpt feature ''category'' = Some (JStr c)"
    using renderInfra_passed(2) [of draws filters feature l]
    by (simp add: categoryCheck_def js_includes_iff)
  moreover have "operators filters = [c] \<Longrightarrow> operatorCheck filters feature"
    by (simp add: operatorCheck_def)
  moreover have "categories filters = [d] \<Longrightarrow> categoryCheck filters feature"
    by (simp add: categoryCheck_def)
  moreover have "showInfrastructure filters \<Longrightarrow>
      request (loadInfrastructure draws filters (Some old) answer) =
        Some (''/api/geojson/infrastructure'', infraParams filters)"
    by (simp add: loadInfrastructure_def)
  ultimately show ?thesis
    using infraParams_one_operator [of filters c] infraParams_one_category [of filters d]
      infraParams_no_operator [of filters] infraParams_no_category [of filters]
      loadInfrastructure_layers [of filters draws old features]
    by blast
qed

lemma waterMain_rendered:
  "renderInfra (\<lambda>_. Completes) twoOperators waterMain = Inr (Some waterMainLayer)"
  by (simp add: renderInfra_def operatorCheck_def categoryCheck_def twoOperators_def
      waterMain_def waterMainLayer_def propOpt_def propsOf_def infraBody_def tryDraw_def
      catchAll_def toLatLngs_def elemAt_def)

lemma deltaCable_skipped: "renderInfra (\<lambda>_. Completes) twoOperators deltaCable = Inr None"
  by (simp add: renderInfra_def operatorCheck_def twoOperators_def deltaCable_def propOpt_def)

text \<open>Two operators and one category selected; a water main of one of them, a cable of a third.\<close>

theorem infrastructure_refilter_witness:
  "renderInfra (\<lambda>_. Completes) twoOperators waterMain = Inr (Some waterMainLayer)
   \<and> propOpt waterMain ''operator_code'' = Some (JStr ''azersu'')
   \<and> (''category'', ''water'') \<in> set (infraParams twoOperators)
   \<and> categoryCheck twoOperators deltaCable
   \<and> ''operator'' \<notin> fst ` set (infraParams twoOperators)
   \<and> layers (loadInfrastructure (\<lambda>_. Completes) twoOperators (Some [])
               (Resolves [deltaCable, waterMain])) = Some (Inr [waterMainLayer])"
proof -
  note t = infrastructure_refilter [where draws = "\<lambda>_. Completes" and filters = twoOperators
      and feature = deltaCable and d = "''water''" and old = "[]"
      and features = "[deltaCable, waterMain]"]
  have c: "categories twoOperators = [''water'']" and o: "length (operators twoOperators) \<noteq> 1"
    and sh: "showInfrastructure twoOperators"
    by (simp_all add: twoOperators_def)
  have "added (renderInfra (\<lambda>_. Completes) twoOperators) deltaCable = []"
    and "added (renderInfra (\<lambda>_. Completes) twoOperators) waterMain = [waterMainLayer]"
    by (simp_all add: added_def waterMain_rendered deltaCable_skipped)
  with t c o sh have ls: "layers (loadInfrastructure (\<lambda>_. Completes) twoOperators (Some [])
               (Resolves [deltaCable, waterMain])) = Some (Inr [waterMainLayer])"
    by simp
  from t c have cat: "(''category'', ''water'') \<in> set (infraParams twoOperators)"
    "categoryCheck twoOperators deltaCable"
    by simp_all
  from t o have op: "''operator'' \<notin> fst ` set (infraParams twoOperators)"
    by simp
  have "propOpt waterMain ''operator_code'' = Some (JStr ''azersu'')"
    by (simp add: propOpt_def waterMain_def)
  with ls cat op waterMain_rendered show ?thesis by simp
qed

lemma renderInfra_cases:
  assumes "wellShapedInfra feature" "operatorCheck filters feature" "categoryCheck filters feature"
  shows "\<exists>l. popupProps l = propsOf feature
           \<and> renderInfra draws filters feature
               = Inr (if draws l = ThrowsBeforeAdding then None else Some l)
           \<and> (snd (infraBody draws feature) = None \<longleftrightarrow> draws l = Completes)"
proof -
  from infraBody_draws [OF assms(1), of draws] obtain l where
    l: "popupProps l = propsOf feature
        \<and> fst (infraBody draws feature) = (if draws l = ThrowsBeforeAdding then None else Some l)
        \<and> (snd (infraBody draws feature) = None \<longleftrightarrow> draws l = Completes)" ..
  have r: "renderInfra draws filters feature = Inr (fst (infraBody draws feature))"
    using assms(2,3) by (simp add: renderInfra_def catchAll_def)
  show ?thesis by (rule exI [of _ l]) (simp add: r l)
qed

lemma renderBuilding_cases:
  assumes "wellShapedBuilding feature" "buildingCheck filters feature"
  shows "\<exists>l. popupProps l = propsOf feature
           \<and> renderBuilding draws filters feature
               = Inr (if draws l = ThrowsBeforeAdding then None else Some l)
           \<and> (snd (buildingBody draws feature) = None \<longleftrightarrow> draws l = Completes)"
proof -
  from buildingBody_draws [OF assms(1), of draws] obtain l where
    l: "popupProps l = propsOf feature
        \<and> fst (buildingBody draws feature) = (if draws l = ThrowsBeforeAdding then None else Some l)
        \<and> (snd (buildingBody draws feature) = None \<longleftrightarrow> draws l = Completes)" ..
  have r: "renderBuilding draws filters feature = Inr (fst (buildingBody draws feature))"
    using assms(2) by (simp add: renderBuilding_def catchAll_def)
  show ?thesis by (rule exI [of _ l]) (simp add: r l)
qed

lemma infrastructure_drawn:
  assumes "showInfrastructure filters" "wellShapedInfra feature" "operatorCheck filters feature"
    "categoryCheck filters feature" "snd (infraBody draws feature) = None"
  shows "\<exists>l ls. layers (loadInfrastructure draws filters (Some old)
                        (Resolves (before @ feature # after))) = Some (Inr ls)
           \<and> l \<in> set ls \<and> popupProps l = propsOf feature \<and> draws l = Completes
           \<and> renderInfra draws filters feature = Inr (Some l)"
proof -
  from renderInfra_cases [OF assms(2,3,4), of draws] assms(5) obtain l where
    l: "popupProps l = propsOf feature" "draws l = Completes"
      "renderInfra draws filters feature = Inr (Some l)"
    by auto
  from l(3) have "added (renderInfra draws filters) feature = [l]" by (simp add: added_def)
  then have "l \<in> set (concat (map (added (renderInfra draws filters)) (before @ feature # after)))"
    by simp
  with loadInfrastructure_layers [OF assms(1), of draws old "before @ feature # after"] l
  show ?thesis by blast
qed

lemma building_drawn:
  assumes "showBuildings filters" "wellShapedBuilding feature" "buildingCheck filters feature"
    "snd (buildingBody draws feature) = None"
  shows "\<exists>l ls. layers (loadBuildings draws filters (Some old)
                        (Resolves (before @ feature # after))) = Some (Inr ls)
           \<and> l \<in> set ls \<and> popupProps l = propsOf feature \<and> draws l = Completes
           \<and> renderBuilding draws filters feature = Inr (Some l)"
proof -
  from renderBuilding_cases [OF assms(2,3), of draws] assms(4) obtain l where
    l: "popupProps l = propsOf feature" "draws l = Completes"
      "renderBuilding draws filters feature = Inr (Some l)"
    by auto
  from l(3) have "added (renderBuilding draws filters) feature = [l]" by (simp add: added_def)
  then have "l \<in> set (concat (map (added (renderBuilding draws filters)) (before @ feature # after)))"
    by simp
  with loadBuildings_layers [OF assms(1), of draws old "before @ feature # after"] l
  show ?thesis by blast
qed

text \<open>
  C9, amended. Both loaders return a layer list for every answer of the server and every
  behaviour of Leaflet: no exception leaves the pass. A feature without geometry, without
  coordinates, with too few positions or of an unhandled type adds nothing. Every other
  feature that passes the client-side checks, and for which the \<open>try\<close> block ends without
  an exception, adds its layer, on which every Leaflet call has completed, whatever
  features stand before and after it in the collection. When Leaflet does throw for such
  a feature, the callback still returns: without a layer if the exception came before the
  layer was added, and with the layer left in the group if it came after.
\<close>

theorem rendering_pass:
  "(\<exists>ls. layers (loadInfrastructure draws filters (Some old) answer) = Some (Inr ls))
   \<and> (\<exists>ls. layers (loadBuildings draws filters (Some old) answer) = Some (Inr ls))
   \<and> (\<not> wellShapedInfra feature \<longrightarrow> renderInfra draws filters feature = Inr None)
   \<and> (\<not> wellShapedBuilding feature \<longrightarrow> renderBuilding draws filters feature = Inr None)
   \<and> (showInfrastructure filters \<and> wellShapedInfra feature
        \<and> operatorCheck filters feature \<and> categoryCheck filters feature
        \<and> snd (infraBody draws feature) = None \<longrightarrow>
        (\<exists>l ls. layers (loadInfrastructure draws filters (Some old)
                        (Resolves (before @ feature # after))) = Some (Inr ls)
           \<and> l \<in> set ls \<and> popupProps l = propsOf feature \<and> draws l = Completes
           \<and> renderInfra draws filters feature = Inr (Some l)))
   \<and> (showBuildings filters \<and> wellShapedBuilding feature \<and> buildingCheck filters feature
        \<and> snd (buildingBody draws feature) = None \<longrightarrow>
        (\<exists>l ls. layers (loadBuildings draws filters (Some old)
                        (Resolves (before @ feature # after))) = Some (Inr ls)
           \<and> l \<in> set ls \<and> popupProps l = propsOf feature \<and> draws l = Completes
           \<and> renderBuilding draws filters feature = Inr (Some l)))
   \<and> (wellShapedInfra feature \<and> operatorCheck filters feature \<and> categoryCheck filters feature \<longrightarrow>
        (\<exists>l. popupProps l = propsOf feature
           \<and> renderInfra draws filters feature
               = Inr (if draws l = ThrowsBeforeAdding then None else Some l)
           \<and> (snd (infraBody draws feature) = None \<longleftrightarrow> draws l = Completes)))
   \<and> (wellShapedBuilding feature \<and> buildingCheck filters feature \<longrightarrow>
        (\<exists>l. popupProps l = propsOf feature
           \<and> renderBuilding draws filters feature
               = Inr (if draws l = ThrowsBeforeAdding then None else Some l)
           \<and> (snd (buildingBody draws feature) = None \<longleftrightarrow> draws l = Completes)))"
proof -
  have skipI: "\<not> wellShapedInfra feature \<Longrightarrow> renderInfra draws filters feature = Inr None"
    by (simp add: renderInfra_def infraBody_skips catchAll_def)
  have skipB: "\<not> wellShapedBuilding feature \<Longrightarrow> renderBuilding draws filters feature = Inr None"
    by (simp add: renderBuilding_def buildingBody_skips catchAll_def)
  show ?thesis
    using loadInfrastructure_returns [of draws filters old answer]
      loadBuildings_returns [of draws filters old answer]
      skipI skipB
      infrastructure_drawn [of filters feature draws old before after]
      building_drawn [of filters feature draws old before after]
      renderInfra_cases [of feature filters draws]
      renderBuilding_cases [of feature filters draws]
    by blast
qed

text \<open>
  C9 as stated fails twice. With two operators selected, a line of a third operator has
  none of the defects the claim names and is not rendered. And with no filter at all, a
  line of two empty positions has none of these defects either: \<open>addTo\<close> throws on it,
  the exception is swallowed, and what the group holds is a layer whose drawing failed.
\<close>

theorem rendering_pass_counterexample:
  "wellShapedInfra deltaCable
   \<and> layers (loadInfrastructure completes twoOperators (Some []) (Resolves [deltaCable]))
       = Some (Inr [])
   \<and> wellShapedInfra hollowLine
   \<and> infraBody failsToProject hollowLine = (Some hollowLineLayer, Some LeafletError)
   \<and> failsToProject hollowLineLayer = ThrowsAfterAdding"
  by (simp add: wellShapedInfra_def deltaCable_def loadInfrastructure_def twoOperators_def
      renderInfra_def operatorCheck_def propOpt_def hollowLine_def hollowLineLayer_def
      infraBody_def tryDraw_def failsToProject_def toLatLngs_def propsOf_def elemAt_def)

lemma defective_skipped:
  "renderInfra draws filters noGeometry = Inr None"
  "renderInfra draws filters shortLine = Inr None"
  "renderInfra draws filters collectionGeometry = Inr None"
  "renderInfra draws filters multiLine = Inr None"
  "renderBuilding draws filters noGeometry = Inr None"
  "renderBuilding draws filters triangle = Inr None"
  "renderBuilding draws filters multiLine = Inr None"
  by (simp_all add: renderInfra_def renderBuilding_def infraBody_def buildingBody_def
      catchAll_def noGeometry_def shortLine_def collectionGeometry_def multiLine_def
      triangle_def outerRing_def elemAt_def)

lemma waterMain_alone:
  "renderInfra draws initialFilters waterMain
     = Inr (if draws waterMainLayer = ThrowsBeforeAdding then None else Some waterMainLayer)"
  by (simp add: renderInfra_def operatorCheck_def categoryCheck_def initialFilters_def
      waterMain_def waterMainLayer_def propsOf_def infraBody_def tryDraw_def Let_def
      catchAll_def toLatLngs_def elemAt_def split: leaflet_outcome.splits)

lemma towerBlock_alone:
  "renderBuilding (\<lambda>_. Completes) initialFilters towerBlock = Inr (Some towerBlockLayer)"
  by (simp add: renderBuilding_def buildingCheck_def initialFilters_def
      towerBlock_def towerBlockLayer_def propsOf_def buildingBody_def tryDraw_def
      catchAll_def toLatLngs_def elemAt_def outerRing_def)

lemma hollowLine_alone:
  "renderInfra draws initialFilters hollowLine
     = Inr (if draws hollowLineLayer = ThrowsBeforeAdding then None else Some hollowLineLayer)"
  by (simp add: renderInfra_def operatorCheck_def categoryCheck_def initialFilters_def
      hollowLine_def hollowLineLayer_def propsOf_def infraBody_def tryDraw_def Let_def
      catchAll_def toLatLngs_def elemAt_def split: leaflet_outcome.splits)

text \<open>
  Defective features around a water main and around a tower block, with a Leaflet that
  completes; a Leaflet that throws on everything before adding; one that throws in
  \<open>addTo\<close> on the line of empty positions, which stays in the group beside the water
  main; and one that throws before adding on the point with an array for its longitude.
\<close>

theorem rendering_pass_witness:
  "\<not> wellShapedInfra noGeometry \<and> \<not> wellShapedInfra shortLine
   \<and> \<not> wellShapedInfra collectionGeometry \<and> \<not> wellShapedInfra multiLine
   \<and> \<not> wellShapedBuilding triangle
   \<and> wellShapedInfra waterMain \<and> wellShapedBuilding towerBlock \<and> wellShapedInfra hollowLine
   \<and> layers (loadInfrastructure (\<lambda>_. Completes) initialFilters (Some [])
         (Resolves ([noGeometry, shortLine, collectionGeometry, multiLine] @ waterMain # [])))
       = Some (Inr [waterMainLayer])
   \<and> layers (loadBuildings (\<lambda>_. Completes) initialFilters (Some [])
         (Resolves ([noGeometry, triangle, multiLine] @ towerBlock # [])))
       = Some (Inr [towerBlockLayer])
   \<and> layers (loadInfrastructure (\<lambda>_. ThrowsBeforeAdding) initialFilters (Some [])
         (Resolves [noGeometry, waterMain])) = Some (Inr [])
   \<and> failsToProject hollowLineLayer = ThrowsAfterAdding
   \<and> layers (loadInfrastructure failsToProject initialFilters (Some [])
         (Resolves [hollowLine, waterMain])) = Some (Inr [hollowLineLayer, waterMainLayer])
   \<and> wellShapedInfra arrayLongitude
   \<and> layers (loadInfrastructure refusesArrays initialFilters (Some [])
         (Resolves [arrayLongitude, waterMain])) = Some (Inr [waterMainLayer])"
proof -
  note i = rendering_pass [where draws = "\<lambda>_. Completes" and filters = initialFilters
      and feature = waterMain and old = "[]"
      and before = "[noGeometry, shortLine, collectionGeometry, multiLine]" and after = "[]"]
  note b = rendering_pass [where draws = "\<lambda>_. Completes" and filters = initialFilters
      and feature = towerBlock and old = "[]"
      and before = "[noGeometry, triangle, multiLine]" and after = "[]"]
  have shapes: "\<not> wellShapedInfra noGeometry" "\<not> wellShapedInfra shortLine"
    "\<not> wellShapedInfra collectionGeometry" "\<not> wellShapedInfra multiLine"
    "\<not> wellShapedBuilding triangle" "wellShapedInfra waterMain" "wellShapedBuilding towerBlock"
    "wellShapedInfra hollowLine"
    by (simp_all add: wellShapedInfra_def wellShapedBuilding_def noGeometry_def shortLine_def
        collectionGeometry_def multiLine_def triangle_def waterMain_def towerBlock_def
        hollowLine_def outerRing_def elemAt_def)
  have shown: "showInfrastructure initialFilters" "showBuildings initialFilters"
    by (simp_all add: initialFilters_def)
  have passes: "operatorCheck initialFilters waterMain" "categoryCheck initialFilters waterMain"
    "buildingCheck initialFilters towerBlock"
    by (simp_all add: operatorCheck_def categoryCheck_def buildingCheck_def initialFilters_def)
  have quiet: "snd (infraBody (\<lambda>_. Completes) waterMain) = None"
    "snd (buildingBody (\<lambda>_. Completes) towerBlock) = None"
    by (simp_all add: infraBody_def buildingBody_def tryDraw_def waterMain_def towerBlock_def
        outerRing_def elemAt_def)
  from i shapes shown passes quiet obtain l ls
    where ls: "layers (loadInfrastructure (\<lambda>_. Completes) initialFilters (Some [])
         (Resolves ([noGeometry, shortLine, collectionGeometry, multiLine] @ waterMain # [])))
       = Some (Inr ls)" "l \<in> set ls"
    by blast
  have li: "layers (loadInfrastructure (\<lambda>_. Completes) initialFilters (Some [])
         (Resolves ([noGeometry, shortLine, collectionGeometry, multiLine] @ waterMain # [])))
       = Some (Inr [waterMainLayer])"
    using shown
    by (simp add: loadInfrastructure_def defective_skipped waterMain_alone)
  have lb: "layers (loadBuildings (\<lambda>_. Completes) initialFilters (Some [])
         (Resolves ([noGeometry, triangle, multiLine] @ towerBlock # [])))
       = Some (Inr [towerBlockLayer])"
    using shown
    by (simp add: loadBuildings_def defective_skipped towerBlock_alone)
  have lt: "layers (loadInfrastructure (\<lambda>_. ThrowsBeforeAdding) initialFilters (Some [])
         (Resolves [noGeometry, waterMain])) = Some (Inr [])"
    using shown by (simp add: loadInfrastructure_def defective_skipped waterMain_alone)
  have fp: "failsToProject hollowLineLayer = ThrowsAfterAdding"
    "failsToProject waterMainLayer = Completes"
    by (simp_all add: failsToProject_def hollowLineLayer_def waterMainLayer_def)
  have la: "layers (loadInfrastructure failsToProject initialFilters (Some [])
         (Resolves [hollowLine, waterMain])) = Some (Inr [hollowLineLayer, waterMainLayer])"
    using shown by (simp add: loadInfrastructure_def hollowLine_alone waterMain_alone fp)
  have ra: "refusesArrays waterMainLayer = Completes"
    by (simp add: refusesArrays_def waterMainLayer_def)
  have al: "wellShapedInfra arrayLongitude"
    "renderInfra refusesArrays initialFilters arrayLongitude = Inr None"
    by (simp_all add: wellShapedInfra_def arrayLongitude_def renderInfra_def operatorCheck_def
        categoryCheck_def initialFilters_def infraBody_def tryDraw_def catchAll_def
        refusesArrays_def elemAt_def)
  have lr: "layers (loadInfrastructure refusesArrays initialFilters (Some [])
         (Resolves [arrayLongitude, waterMain])) = Some (Inr [waterMainLayer])"
    using shown by (simp add: loadInfrastructure_def al waterMain_alone ra)
  from ls li lb lt la lr al(1) fp(1) shapes show ?thesis by blast
qed

section \<open>Properties of the schema\<close>

lemma andThen_Inr: "andThen r k = Inr v \<longleftrightarrow> (\<exists>x. r = Inr x \<and> k x = Inr v)"
  by (cases r) (simp_all add: andThen_def)

lemma clip_from_length: "chars_from k (clip_from limit k s) \<le> limit"
  by (induction limit k s rule: clip_from.induct) simp_all

lemma clip_from_fits: "chars_from k s \<le> limit \<Longrightarrow> clip_from limit k s = s"
  by (induction limit k s rule: clip_from.induct) simp_all

lemma clip_from_cuts: "clip_from limit k s = s \<Longrightarrow> chars_from k s \<le> limit"
  by (induction limit k s rule: clip_from.induct) simp_all

lemma clip_from_short: "length s \<le> limit + k \<Longrightarrow> clip_from limit k s = s"
  by (induction limit k s rule: clip_from.induct) simp_all

lemma clip_from_prefix: "take (length (clip_from limit k s)) s = clip_from limit k s"
  by (induction limit k s rule: clip_from.induct) simp_all

lemma charclip_length: "char_length (charclip n s) \<le> n"
  by (simp add: char_length_def charclip_def clip_from_length)

lemma charclip_fits: "charclip n s = s \<longleftrightarrow> char_length s \<le> n"
  using clip_from_fits [of 0 s n] clip_from_cuts [of n 0 s]
  by (auto simp: char_length_def charclip_def)

lemma varchar_None: "varchar n c None = Inr None"
  by (simp add: varchar_def)

lemma varchar_Inr:
  "varchar n c v = Inr w \<Longrightarrow>
     (w = None \<longleftrightarrow> v = None) \<and> (\<forall>s. w = Some s \<longrightarrow> char_length s \<le> n)"
  by (auto simp: varchar_def charclip_length split: option.splits if_splits)

lemma varchar_fits: "char_length s \<le> n \<Longrightarrow> varchar n c (Some s) = Inr (Some s)"
  using charclip_fits [of n s] by (simp add: varchar_def)

lemma varchar_short: "length s \<le> n \<Longrightarrow> varchar n c (Some s) = Inr (Some s)"
  using clip_from_short [of s n 0] by (simp add: varchar_def charclip_def)

lemma varchar_cases:
  "varchar n c (Some s) =
     (if list_all (\<lambda>c. c = CHR '' '') (drop (length (charclip n s)) s)
      then Inr (Some (charclip n s)) else Inl (StringDataRightTruncation c))"
  by (simp add: varchar_def)

lemma geometry_column_Inr:
  "geometry_column m sr c v = Inr w \<Longrightarrow>
     (w = None \<longleftrightarrow> v = None)
     \<and> (\<forall>g. w = Some g \<longrightarrow> srid g = sr \<and> (m = GEOMETRY \<or> m = ONLY (geom_type g)))"
  by (auto simp: geometry_column_def Let_def split: option.splits if_splits)

lemma not_null_Inr: "not_null c v = Inr u \<longleftrightarrow> v \<noteq> None"
  by (cases v) (simp_all add: not_null_def)

lemma unique_among_Inr: "unique_among c others v = Inr u \<longleftrightarrow> (v = None \<or> v \<notin> set others)"
  by (cases v) (auto simp: unique_among_def)

lemma infrastructure_types_of_Inr:
  assumes "infrastructure_types_of r = Inr typed"
  shows "i_id typed = i_id r" and "i_geometry typed = None \<longleftrightarrow> i_geometry r = None"
    and "\<forall>g. i_geometry typed = Some g \<longrightarrow> srid g = 4326"
    and "i_stac_id typed = None \<longleftrightarrow> i_stac_id r = None"
    and "\<forall>s. i_status typed = Some s \<longrightarrow> char_length s \<le> 50"
    and "i_properties typed = i_properties r"
proof -
  from assms obtain stac g st depth mat cap where
    s: "varchar 255 ''stac_id'' (i_stac_id r) = Inr stac"
    and g: "geometry_column GEOMETRY 4326 ''geometry'' (i_geometry r) = Inr g"
    and st: "varchar 50 ''status'' (i_status r) = Inr st"
    and t: "typed = r\<lparr>i_stac_id := stac, i_geometry := g, i_status := st, i_depth_meters := depth,
              i_material := mat, i_capacity := cap\<rparr>"
    unfolding infrastructure_types_of_def andThen_Inr by auto
  show "i_id typed = i_id r" "i_properties typed = i_properties r" using t by simp_all
  show "i_geometry typed = None \<longleftrightarrow> i_geometry r = None"
    using t geometry_column_Inr [OF g] by simp
  show "\<forall>g. i_geometry typed = Some g \<longrightarrow> srid g = 4326"
    using t geometry_column_Inr [OF g] by simp
  show "i_stac_id typed = None \<longleftrightarrow> i_stac_id r = None" using t varchar_Inr [OF s] by simp
  show "\<forall>s. i_status typed = Some s \<longrightarrow> char_length s \<le> 50"
    using t varchar_Inr [OF st] by simp
qed

lemma infrastructure_constraints_Inr:
  assumes "infrastructure_constraints d others r = Inr u"
  shows "i_stac_id r \<noteq> None" and "i_geometry r \<noteq> None" and "i_stac_id r \<notin> set (map i_stac_id others)"
  using assms unfolding infrastructure_constraints_def andThen_Inr not_null_Inr unique_among_Inr
  by auto

lemma infrastructure_checked_ok:
  assumes "infrastructure_types_of r = Inr typed"
    and "infrastructure_constraints d others (typed\<lparr>i_updated_at := u\<rparr>) = Inr v"
  shows "infrastructure_row_ok (typed\<lparr>i_updated_at := u\<rparr>)"
  using infrastructure_types_of_Inr(3,5) [OF assms(1)] infrastructure_constraints_Inr(1,2) [OF assms(2)]
  by (auto simp: infrastructure_row_ok_def split: option.splits)

lemma infrastructure_ok_alt:
  "infrastructure_ok rows \<longleftrightarrow>
     (\<forall>r \<in> set rows. infrastructure_row_ok r) \<and> distinct (map i_stac_id rows)"
  by (simp add: infrastructure_ok_def list_all_iff)

lemma infrastructure_identified_alt:
  "infrastructure_identified rows \<longleftrightarrow>
     (\<forall>r \<in> set rows. i_stac_id r \<noteq> None
         \<and> (case i_geometry r of None \<Rightarrow> False | Some g \<Rightarrow> srid g = 4326))
     \<and> distinct (map i_stac_id rows)"
  by (simp add: infrastructure_identified_def list_all_iff)

lemma infrastructure_row_ok_identified:
  "infrastructure_row_ok r \<Longrightarrow>
     i_stac_id r \<noteq> None \<and> (case i_geometry r of None \<Rightarrow> False | Some g \<Rightarrow> srid g = 4326)"
  by (simp add: infrastructure_row_ok_def)

lemma infrastructure_ok_identified: "infrastructure_ok rows \<Longrightarrow> infrastructure_identified rows"
  by (auto simp: infrastructure_ok_alt infrastructure_identified_alt infrastructure_row_ok_def)

lemma insert_infrastructure_Inr:
  assumes "insert_infrastructure generated now ins d = Inr d1"
  obtains r where "infrastructure_types_of (infrastructure_new generated now ins) = Inr r"
    and "infrastructure_constraints d (urban_infrastructure d) r = Inr ()"
    and "d1 = d\<lparr>urban_infrastructure := urban_infrastructure d @ [r]\<rparr>"
  using assms unfolding insert_infrastructure_def andThen_Inr by auto

lemma insert_infrastructure_keeps:
  assumes P: "\<And>r. infrastructure_row_ok r \<Longrightarrow> P r"
    and "\<forall>r \<in> set (urban_infrastructure d). P r"
    and "distinct (map i_stac_id (urban_infrastructure d))"
    and "insert_infrastructure generated now ins d = Inr d1"
  shows "(\<forall>r \<in> set (urban_infrastructure d1). P r)
         \<and> distinct (map i_stac_id (urban_infrastructure d1))"
proof -
  from assms(4) obtain r where
    t: "infrastructure_types_of (infrastructure_new generated now ins) = Inr r"
    and c: "infrastructure_constraints d (urban_infrastructure d) r = Inr ()"
    and d1: "d1 = d\<lparr>urban_infrastructure := urban_infrastructure d @ [r]\<rparr>"
    by (rule insert_infrastructure_Inr)
  have "infrastructure_row_ok r"
    using infrastructure_types_of_Inr(3,5) [OF t] infrastructure_constraints_Inr(1,2) [OF c]
    by (auto simp: infrastructure_row_ok_def split: option.splits)
  then have "P r" by (rule P)
  with assms(2,3) infrastructure_constraints_Inr(3) [OF c] d1 show ?thesis by auto
qed

lemma update_infrastructure_rows_keeps:
  assumes P: "\<And>r. infrastructure_row_ok r \<Longrightarrow> P r"
  shows "\<forall>r \<in> set (visited @ rest). P r \<Longrightarrow> distinct (map i_stac_id (visited @ rest)) \<Longrightarrow>
   update_infrastructure_rows d matches assign now visited rest = Inr rows \<Longrightarrow>
   (\<forall>r \<in> set rows. P r) \<and> distinct (map i_stac_id rows)"
proof (induction rest arbitrary: visited)
  case Nil
  then show ?case by simp
next
  case (Cons r rest)
  show ?case
  proof (cases "matches r")
    case False
    with Cons.prems have "update_infrastructure_rows d matches assign now (visited @ [r]) rest = Inr rows"
      by simp
    with Cons.IH [of "visited @ [r]"] Cons.prems(1,2) show ?thesis by simp
  next
    case True
    with Cons.prems(3) obtain typed where
      t: "infrastructure_types_of (assign r) = Inr typed"
      and c: "infrastructure_constraints d (visited @ rest) (typed\<lparr>i_updated_at := Some now\<rparr>) = Inr ()"
      and u: "update_infrastructure_rows d matches assign now
                (visited @ [typed\<lparr>i_updated_at := Some now\<rparr>]) rest = Inr rows"
      by (auto simp: andThen_Inr Let_def)
    let ?new = "typed\<lparr>i_updated_at := Some now\<rparr>"
    have ok: "P ?new" by (rule P [OF infrastructure_checked_ok [OF t c]])
    have fresh: "i_stac_id ?new \<notin> set (map i_stac_id (visited @ rest))"
      by (rule infrastructure_constraints_Inr(3) [OF c])
    from Cons.prems(1) ok have all: "\<forall>r \<in> set ((visited @ [?new]) @ rest). P r" by auto
    from Cons.prems(2) fresh have dist: "distinct (map i_stac_id ((visited @ [?new]) @ rest))"
      by auto
    from Cons.IH [OF all dist u] show ?thesis .
  qed
qed

lemma update_infrastructure_keeps:
  assumes P: "\<And>r. infrastructure_row_ok r \<Longrightarrow> P r"
    and "\<forall>r \<in> set (urban_infrastructure d). P r"
    and "distinct (map i_stac_id (urban_infrastructure d))"
    and "update_infrastructure matches assign now d = Inr d1"
  shows "(\<forall>r \<in> set (urban_infrastructure d1). P r)
         \<and> distinct (map i_stac_id (urban_infrastructure d1))"
proof -
  from assms(4) obtain rows where
    u: "update_infrastructure_rows d matches assign now [] (urban_infrastructure d) = Inr rows"
    and d1: "d1 = d\<lparr>urban_infrastructure := rows\<rparr>"
    unfolding update_infrastructure_def andThen_Inr by auto
  from update_infrastructure_rows_keeps [of P "[]" "urban_infrastructure d" d matches assign now rows]
    P assms(2,3) u d1 show ?thesis by simp
qed

lemma insert_infrastructure_ok:
  assumes "infrastructure_ok (urban_infrastructure d)"
    and "insert_infrastructure generated now ins d = Inr d1"
  shows "infrastructure_ok (urban_infrastructure d1)"
  using insert_infrastructure_keeps [of infrastructure_row_ok d generated now ins d1] assms
  by (simp add: infrastructure_ok_alt)

lemma update_infrastructure_ok:
  assumes "infrastructure_ok (urban_infrastructure d)"
    and "update_infrastructure matches assign now d = Inr d1"
  shows "infrastructure_ok (urban_infrastructure d1)"
  using update_infrastructure_keeps [of infrastructure_row_ok d matches assign now d1] assms
  by (simp add: infrastructure_ok_alt)

lemma insert_infrastructure_identified:
  assumes "infrastructure_identified (urban_infrastructure d)"
    and "insert_infrastructure generated now ins d = Inr d1"
  shows "infrastructure_identified (urban_infrastructure d1)"
proof -
  let ?P = "\<lambda>r. i_stac_id r \<noteq> None
      \<and> (case i_geometry r of None \<Rightarrow> False | Some g \<Rightarrow> srid g = 4326)"
  have "(\<forall>r \<in> set (urban_infrastructure d1). ?P r)
        \<and> distinct (map i_stac_id (urban_infrastructure d1))"
  proof (rule insert_infrastructure_keeps [where P = ?P, OF _ _ _ assms(2)])
    show "?P r" if "infrastructure_row_ok r" for r
      using that by (rule infrastructure_row_ok_identified)
    show "\<forall>r \<in> set (urban_infrastructure d). ?P r"
      "distinct (map i_stac_id (urban_infrastructure d))"
      using assms(1) unfolding infrastructure_identified_alt by simp_all
  qed
  then show ?thesis unfolding infrastructure_identified_alt by simp
qed

lemma update_infrastructure_identified:
  assumes "infrastructure_identified (urban_infrastructure d)"
    and "update_infrastructure matches assign now d = Inr d1"
  shows "infrastructure_identified (urban_infrastructure d1)"
proof -
  let ?P = "\<lambda>r. i_stac_id r \<noteq> None
      \<and> (case i_geometry r of None \<Rightarrow> False | Some g \<Rightarrow> srid g = 4326)"
  have "(\<forall>r \<in> set (urban_infrastructure d1). ?P r)
        \<and> distinct (map i_stac_id (urban_infrastructure d1))"
  proof (rule update_infrastructure_keeps [where P = ?P, OF _ _ _ assms(2)])
    show "?P r" if "infrastructure_row_ok r" for r
      using that by (rule infrastructure_row_ok_identified)
    show "\<forall>r \<in> set (urban_infrastructure d). ?P r"
      "distinct (map i_stac_id (urban_infrastructure d))"
      using assms(1) unfolding infrastructure_identified_alt by simp_all
  qed
  then show ?thesis unfolding infrastructure_identified_alt by simp
qed

lemma building_types_of_Inr:
  assumes "building_types_of r = Inr typed"
  shows "b_id typed = b_id r" and "b_geometry typed = None \<longleftrightarrow> b_geometry r = None"
    and "\<forall>g. b_geometry typed = Some g \<longrightarrow> geom_type g = POLYGON \<and> srid g = 4326"
    and "b_stac_id typed = None \<longleftrightarrow> b_stac_id r = None"
    and "b_properties typed = b_properties r"
proof -
  from assms obtain stac osm g nm nm_az bt fl yb where
    s: "varchar 255 ''stac_id'' (b_stac_id r) = Inr stac"
    and g: "geometry_column (ONLY POLYGON) 4326 ''geometry'' (b_geometry r) = Inr g"
    and t: "typed = r\<lparr>b_stac_id := stac, b_osm_id := osm, b_geometry := g, b_name := nm,
              b_name_az := nm_az, b_building_type := bt, b_floors := fl, b_year_built := yb\<rparr>"
    unfolding building_types_of_def andThen_Inr by auto
  show "b_id typed = b_id r" "b_properties typed = b_properties r" using t by simp_all
  show "b_geometry typed = None \<longleftrightarrow> b_geometry r = None"
    using t geometry_column_Inr [OF g] by simp
  show "\<forall>g. b_geometry typed = Some g \<longrightarrow> geom_type g = POLYGON \<and> srid g = 4326"
    using t geometry_column_Inr [OF g] by auto
  show "b_stac_id typed = None \<longleftrightarrow> b_stac_id r = None" using t varchar_Inr [OF s] by simp
qed

lemma building_constraints_Inr:
  assumes "building_constraints d others r = Inr u"
  shows "b_stac_id r \<noteq> None" and "b_geometry r \<noteq> None" and "b_stac_id r \<notin> set (map b_stac_id others)"
  using assms unfolding building_constraints_def andThen_Inr not_null_Inr unique_among_Inr
  by auto

lemma building_checked_ok:
  assumes "building_types_of r = Inr typed"
    and "building_constraints d others (typed\<lparr>b_updated_at := u\<rparr>) = Inr v"
  shows "building_row_ok (typed\<lparr>b_updated_at := u\<rparr>)"
  using building_types_of_Inr(3) [OF assms(1)] building_constraints_Inr(1,2) [OF assms(2)]
  by (auto simp: building_row_ok_def split: option.splits)

lemma buildings_ok_alt:
  "buildings_ok rows \<longleftrightarrow> (\<forall>r \<in> set rows. building_row_ok r) \<and> distinct (map b_stac_id rows)"
  by (simp add: buildings_ok_def list_all_iff)

lemma buildings_ok_identified: "buildings_ok rows \<Longrightarrow> buildings_identified rows"
  by (auto simp: buildings_ok_alt buildings_identified_def building_row_ok_def list_all_iff
      split: option.splits)

lemma buildings_ok_polygons: "buildings_ok rows \<Longrightarrow> polygons_only rows"
  by (auto simp: buildings_ok_alt polygons_only_def building_row_ok_def list_all_iff
      split: option.splits)

lemma insert_building_Inr:
  assumes "insert_building generated now ins d = Inr d1"
  obtains r where "building_types_of (building_new generated now ins) = Inr r"
    and "building_constraints d (urban_buildings d) r = Inr ()"
    and "d1 = d\<lparr>urban_buildings := urban_buildings d @ [r]\<rparr>"
  using assms unfolding insert_building_def andThen_Inr by auto

lemma insert_building_keeps:
  assumes P: "\<And>r. building_row_ok r \<Longrightarrow> P r"
    and "\<forall>r \<in> set (urban_buildings d). P r" and "distinct (map b_stac_id (urban_buildings d))"
    and "insert_building generated now ins d = Inr d1"
  shows "(\<forall>r \<in> set (urban_buildings d1). P r) \<and> distinct (map b_stac_id (urban_buildings d1))"
proof -
  from assms(4) obtain r where
    t: "building_types_of (building_new generated now ins) = Inr r"
    and c: "building_constraints d (urban_buildings d) r = Inr ()"
    and d1: "d1 = d\<lparr>urban_buildings := urban_buildings d @ [r]\<rparr>"
    by (rule insert_building_Inr)
  have "building_row_ok r"
    using building_types_of_Inr(3) [OF t] building_constraints_Inr(1,2) [OF c]
    by (auto simp: building_row_ok_def split: option.splits)
  then have "P r" by (rule P)
  with assms(2,3) building_constraints_Inr(3) [OF c] d1 show ?thesis by auto
qed

lemma update_building_rows_keeps:
  assumes P: "\<And>r. building_row_ok r \<Longrightarrow> P r"
  shows "\<forall>r \<in> set (visited @ rest). P r \<Longrightarrow> distinct (map b_stac_id (visited @ rest)) \<Longrightarrow>
   update_building_rows d matches assign now visited rest = Inr rows \<Longrightarrow>
   (\<forall>r \<in> set rows. P r) \<and> distinct (map b_stac_id rows)"
proof (induction rest arbitrary: visited)
  case Nil
  then show ?case by simp
next
  case (Cons r rest)
  show ?case
  proof (cases "matches r")
    case False
    with Cons.prems have "update_building_rows d matches assign now (visited @ [r]) rest = Inr rows"
      by simp
    with Cons.IH [of "visited @ [r]"] Cons.prems(1,2) show ?thesis by simp
  next
    case True
    with Cons.prems(3) obtain typed where
      t: "building_types_of (assign r) = Inr typed"
      and c: "building_constraints d (visited @ rest) (typed\<lparr>b_updated_at := Some now\<rparr>) = Inr ()"
      and u: "update_building_rows d matches assign now
                (visited @ [typed\<lparr>b_updated_at := Some now\<rparr>]) rest = Inr rows"
      by (auto simp: andThen_Inr Let_def)
    let ?new = "typed\<lparr>b_updated_at := Some now\<rparr>"
    have ok: "P ?new" by (rule P [OF building_checked_ok [OF t c]])
    have fresh: "b_stac_id ?new \<notin> set (map b_stac_id (visited @ rest))"
      by (rule building_constraints_Inr(3) [OF c])
    from Cons.prems(1) ok have all: "\<forall>r \<in> set ((visited @ [?new]) @ rest). P r" by auto
    from Cons.prems(2) fresh have dist: "distinct (map b_stac_id ((visited @ [?new]) @ rest))"
      by auto
    from Cons.IH [OF all dist u] show ?thesis .
  qed
qed

lemma update_building_keeps:
  assumes P: "\<And>r. building_row_ok r \<Longrightarrow> P r"
    and "\<forall>r \<in> set (urban_buildings d). P r" and "distinct (map b_stac_id (urban_buildings d))"
    and "update_building matches assign now d = Inr d1"
  shows "(\<forall>r \<in> set (urban_buildings d1). P r) \<and> distinct (map b_stac_id (urban_buildings d1))"
proof -
  from assms(4) obtain rows where
    u: "update_building_rows d matches assign now [] (urban_buildings d) = Inr rows"
    and d1: "d1 = d\<lparr>urban_buildings := rows\<rparr>"
    unfolding update_building_def andThen_Inr by auto
  from update_building_rows_keeps [of P "[]" "urban_buildings d" d matches assign now rows]
    P assms(2,3) u d1 show ?thesis by simp
qed

lemma insert_building_ok:
  assumes "buildings_ok (urban_buildings d)"
    and "insert_building generated now ins d = Inr d1"
  shows "buildings_ok (urban_buildings d1)"
  using insert_building_keeps [of building_row_ok d generated now ins d1] assms
  by (simp add: buildings_ok_alt)

lemma update_building_ok:
  assumes "buildings_ok (urban_buildings d)"
    and "update_building matches assign now d = Inr d1"
  shows "buildings_ok (urban_buildings d1)"
  using update_building_keeps [of building_row_ok d matches assign now d1] assms
  by (simp add: buildings_ok_alt)

lemma buildings_identified_alt:
  "buildings_identified rows \<longleftrightarrow>
     (\<forall>r \<in> set rows. b_stac_id r \<noteq> None
         \<and> (case b_geometry r of None \<Rightarrow> False | Some g \<Rightarrow> srid g = 4326))
     \<and> distinct (map b_stac_id rows)"
  by (simp add: buildings_identified_def list_all_iff)

lemma building_row_ok_identified:
  "building_row_ok r \<Longrightarrow>
     b_stac_id r \<noteq> None \<and> (case b_geometry r of None \<Rightarrow> False | Some g \<Rightarrow> srid g = 4326)"
  by (auto simp: building_row_ok_def split: option.splits)

lemma insert_building_identified:
  assumes "buildings_identified (urban_buildings d)"
    and "insert_building generated now ins d = Inr d1"
  shows "buildings_identified (urban_buildings d1)"
proof -
  let ?P = "\<lambda>r. b_stac_id r \<noteq> None
      \<and> (case b_geometry r of None \<Rightarrow> False | Some g \<Rightarrow> srid g = 4326)"
  have "(\<forall>r \<in> set (urban_buildings d1). ?P r) \<and> distinct (map b_stac_id (urban_buildings d1))"
  proof (rule insert_building_keeps [where P = ?P, OF _ _ _ assms(2)])
    show "?P r" if "building_row_ok r" for r using that by (rule building_row_ok_identified)
    show "\<forall>r \<in> set (urban_buildings d). ?P r" "distinct (map b_stac_id (urban_buildings d))"
      using assms(1) unfolding buildings_identified_alt by simp_all
  qed
  then show ?thesis unfolding buildings_identified_alt by simp
qed

lemma update_building_identified:
  assumes "buildings_identified (urban_buildings d)"
    and "update_building matches assign now d = Inr d1"
  shows "buildings_identified (urban_buildings d1)"
proof -
  let ?P = "\<lambda>r. b_stac_id r \<noteq> None
      \<and> (case b_geometry r of None \<Rightarrow> False | Some g \<Rightarrow> srid g = 4326)"
  have "(\<forall>r \<in> set (urban_buildings d1). ?P r) \<and> distinct (map b_stac_id (urban_buildings d1))"
  proof (rule update_building_keeps [where P = ?P, OF _ _ _ assms(2)])
    show "?P r" if "building_row_ok r" for r using that by (rule building_row_ok_identified)
    show "\<forall>r \<in> set (urban_buildings d). ?P r" "distinct (map b_stac_id (urban_buildings d))"
      using assms(1) unfolding buildings_identified_alt by simp_all
  qed
  then show ?thesis unfolding buildings_identified_alt by simp
qed

text \<open>Statements on one table leave the other alone.\<close>

lemma execute_other_table:
  assumes "execute st d = Inr d1"
  shows "(\<forall>g n i. st \<noteq> InsertInfrastructure g n i) \<and> (\<forall>m a n. st \<noteq> UpdateInfrastructure m a n)
           \<and> (\<forall>m. st \<noteq> DeleteInfrastructure m) \<longrightarrow> urban_infrastructure d1 = urban_infrastructure d"
    and "(\<forall>g n i. st \<noteq> InsertBuilding g n i) \<and> (\<forall>m a n. st \<noteq> UpdateBuilding m a n)
           \<and> (\<forall>m. st \<noteq> DeleteBuilding m) \<longrightarrow> urban_buildings d1 = urban_buildings d"
  using assms
  by (cases st; auto simp: insert_infrastructure_def update_infrastructure_def
      delete_infrastructure_def insert_building_def update_building_def delete_building_def
      andThen_Inr)+

lemma execute_keeps:
  assumes "infrastructure_ok (urban_infrastructure d)" and "buildings_ok (urban_buildings d)"
    and "execute st d = Inr d1"
  shows "infrastructure_ok (urban_infrastructure d1) \<and> buildings_ok (urban_buildings d1)"
proof (cases st)
  case (InsertInfrastructure g n i)
  with assms insert_infrastructure_ok [of d g n i d1] execute_other_table(2) [OF assms(3)]
  show ?thesis by simp
next
  case (UpdateInfrastructure m a n)
  with assms update_infrastructure_ok [of d m a n d1] execute_other_table(2) [OF assms(3)]
  show ?thesis by simp
next
  case (DeleteInfrastructure m)
  with assms execute_other_table(2) [OF assms(3)] show ?thesis
    by (auto simp: delete_infrastructure_def infrastructure_ok_alt distinct_map_filter)
next
  case (InsertBuilding g n i)
  with assms insert_building_ok [of d g n i d1] execute_other_table(1) [OF assms(3)]
  show ?thesis by simp
next
  case (UpdateBuilding m a n)
  with assms update_building_ok [of d m a n d1] execute_other_table(1) [OF assms(3)]
  show ?thesis by simp
next
  case (DeleteBuilding m)
  with assms execute_other_table(1) [OF assms(3)] show ?thesis
    by (auto simp: delete_building_def buildings_ok_alt distinct_map_filter)
qed

lemma execute_all_keeps:
  "infrastructure_ok (urban_infrastructure d) \<Longrightarrow> buildings_ok (urban_buildings d) \<Longrightarrow>
   infrastructure_ok (urban_infrastructure (execute_all sts d))
   \<and> buildings_ok (urban_buildings (execute_all sts d))"
proof (induction sts arbitrary: d)
  case Nil
  then show ?case by simp
next
  case (Cons st sts)
  show ?case
  proof (cases "execute st d")
    case (Inl e)
    with Cons show ?thesis by simp
  next
    case (Inr d1)
    with execute_keeps [OF Cons.prems Inr] Cons.IH [of d1] show ?thesis by simp
  qed
qed

lemma created_ok:
  "infrastructure_ok (urban_infrastructure (created ops types))"
  "buildings_ok (urban_buildings (created ops types))"
  by (simp_all add: created_def infrastructure_ok_def buildings_ok_def)

text \<open>
  C5. In every database reached from the created schema by inserts, updates and deletes on
  the two feature tables, each infrastructure row and each building row has a \<open>stac_id\<close>
  that is not \<open>NULL\<close> and is shared with no other row of its table, and a geometry that is
  not \<open>NULL\<close> and has SRID 4326; and each successful insert or update takes a table of
  which this holds to one of which it holds.
\<close>

theorem identified_invariant:
  "infrastructure_identified (urban_infrastructure (execute_all sts (created ops types)))
   \<and> buildings_identified (urban_buildings (execute_all sts (created ops types)))
   \<and> (infrastructure_identified (urban_infrastructure d)
        \<and> insert_infrastructure generated now ins d = Inr d' \<longrightarrow>
        infrastructure_identified (urban_infrastructure d'))
   \<and> (infrastructure_identified (urban_infrastructure d)
        \<and> update_infrastructure matches assign now d = Inr d' \<longrightarrow>
        infrastructure_identified (urban_infrastructure d'))
   \<and> (buildings_identified (urban_buildings d)
        \<and> insert_building generated now insb d = Inr d' \<longrightarrow>
        buildings_identified (urban_buildings d'))
   \<and> (buildings_identified (urban_buildings d)
        \<and> update_building matchesb assignb now d = Inr d' \<longrightarrow>
        buildings_identified (urban_buildings d'))"
proof -
  have reach: "infrastructure_identified (urban_infrastructure (execute_all sts (created ops types)))"
    "buildings_identified (urban_buildings (execute_all sts (created ops types)))"
    using execute_all_keeps [OF created_ok, of sts ops types]
      buildings_ok_identified [of "urban_buildings (execute_all sts (created ops types))"]
      infrastructure_ok_identified [of "urban_infrastructure (execute_all sts (created ops types))"]
    by simp_all
  show ?thesis
    apply (intro conjI impI)
         apply (rule reach(1))
        apply (rule reach(2))
       apply (erule conjE, erule (1) insert_infrastructure_identified)
      apply (erule conjE, erule (1) update_infrastructure_identified)
     apply (erule conjE, erule (1) insert_building_identified)
    apply (erule conjE, erule (1) update_building_identified)
    done
qed

lemmas schema_eval =
  insert_infrastructure_def infrastructure_new_def infrastructure_types_of_def
  infrastructure_constraints_def insert_building_def building_new_def building_types_of_def
  building_constraints_def update_infrastructure_def update_building_def
  andThen_def varchar_None varchar_short decimal_5_2_def integer_def bigint_def geometry_column_def
  not_null_def unique_among_def references_key_def created_def fresh_def azersu_def
  water_main_def default_values_def default_building_values_def pipe_insert_def
  block_insert_def pipe_geometry_def block_geometry_def pipe_row_def block_row_def

lemma pipe_inserted:
  "insert_infrastructure ''uuid-1'' ''2025-06-01'' pipe_insert fresh
     = Inr (fresh\<lparr>urban_infrastructure := [pipe_row]\<rparr>)"
  by (simp add: schema_eval)

lemma block_inserted:
  "insert_building ''uuid-2'' ''2025-06-01'' block_insert fresh
     = Inr (fresh\<lparr>urban_buildings := [block_row]\<rparr>)"
  by (simp add: schema_eval)

lemma pipe_twice_refused:
  "insert_infrastructure ''uuid-3'' ''2025-06-02'' pipe_insert
     (fresh\<lparr>urban_infrastructure := [pipe_row]\<rparr>)
     = Inl (UniqueViolation ''infrastructure_stac_id_key'')"
  by (simp add: schema_eval)

lemma no_stac_id_refused:
  "insert_infrastructure ''uuid-3'' ''2025-06-02'' (pipe_insert\<lparr>ins_stac_id := DEFAULT\<rparr>) fresh
     = Inl (NotNullViolation ''stac_id'')"
  by (simp add: schema_eval)

lemma other_srid_refused:
  "insert_infrastructure ''uuid-3'' ''2025-06-02''
     (pipe_insert\<lparr>ins_geometry := VALUE (Some (pipe_geometry\<lparr>srid := 3857\<rparr>))\<rparr>) fresh
     = Inl (SridMismatch ''geometry'')"
  by (simp add: schema_eval)

lemma line_building_refused:
  "insert_building ''uuid-4'' ''2025-06-02''
     (block_insert\<lparr>insb_geometry := VALUE (Some pipe_geometry)\<rparr>) fresh
     = Inl (GeometryTypeMismatch ''geometry'')"
  by (simp add: schema_eval)

lemma null_geometry_update_refused:
  "update_infrastructure (\<lambda>r. True) (\<lambda>r. r\<lparr>i_geometry := None\<rparr>) ''2025-06-03''
     (fresh\<lparr>urban_infrastructure := [pipe_row]\<rparr>)
     = Inl (NotNullViolation ''geometry'')"
  by (simp add: schema_eval)

text \<open>
  One pipe and one block go in; a second row with the pipe's \<open>stac_id\<close>, a row without
  \<open>stac_id\<close>, a geometry in another SRID and an update that clears the geometry are refused.
\<close>

theorem identified_invariant_witness:
  "infrastructure_identified (urban_infrastructure fresh)
   \<and> buildings_identified (urban_buildings fresh)
   \<and> insert_infrastructure ''uuid-1'' ''2025-06-01'' pipe_insert fresh
       = Inr (fresh\<lparr>urban_infrastructure := [pipe_row]\<rparr>)
   \<and> infrastructure_identified [pipe_row]
   \<and> insert_building ''uuid-2'' ''2025-06-01'' block_insert fresh
       = Inr (fresh\<lparr>urban_buildings := [block_row]\<rparr>)
   \<and> buildings_identified [block_row]
   \<and> insert_infrastructure ''uuid-3'' ''2025-06-02'' pipe_insert
         (fresh\<lparr>urban_infrastructure := [pipe_row]\<rparr>)
       = Inl (UniqueViolation ''infrastructure_stac_id_key'')
   \<and> insert_infrastructure ''uuid-3'' ''2025-06-02'' (pipe_insert\<lparr>ins_stac_id := DEFAULT\<rparr>) fresh
       = Inl (NotNullViolation ''stac_id'')
   \<and> insert_infrastructure ''uuid-3'' ''2025-06-02''
         (pipe_insert\<lparr>ins_geometry := VALUE (Some (pipe_geometry\<lparr>srid := 3857\<rparr>))\<rparr>) fresh
       = Inl (SridMismatch ''geometry'')
   \<and> update_infrastructure (\<lambda>r. True) (\<lambda>r. r\<lparr>i_geometry := None\<rparr>) ''2025-06-03''
         (fresh\<lparr>urban_infrastructure := [pipe_row]\<rparr>)
       = Inl (NotNullViolation ''geometry'')"
proof -
  have start: "infrastructure_identified (urban_infrastructure fresh)"
    "buildings_identified (urban_buildings fresh)"
    using identified_invariant [where sts = "[]" and ops = "[azersu]" and types = "[water_main]"]
    by (simp_all add: fresh_def)
  note step = identified_invariant [where sts = "[]" and d = fresh
      and generated = "''uuid-1''" and now = "''2025-06-01''" and ins = pipe_insert
      and d' = "fresh\<lparr>urban_infrastructure := [pipe_row]\<rparr>"]
  note stepb = identified_invariant [where sts = "[]" and d = fresh
      and generated = "''uuid-2''" and now = "''2025-06-01''" and insb = block_insert
      and d' = "fresh\<lparr>urban_buildings := [block_row]\<rparr>"]
  have "infrastructure_identified [pipe_row]" using step start pipe_inserted by simp
  moreover have "buildings_identified [block_row]" using stepb start block_inserted by simp
  ultimately show ?thesis
    using start pipe_inserted block_inserted pipe_twice_refused no_stac_id_refused
      other_srid_refused null_geometry_update_refused
    by simp
qed

section \<open>Properties of the status column\<close>

lemma infrastructure_ok_status:
  "infrastructure_ok rows \<Longrightarrow>
     list_all (\<lambda>r. case i_status r of None \<Rightarrow> True | Some s \<Rightarrow> char_length s \<le> 50) rows"
  by (simp add: infrastructure_ok_alt list_all_iff infrastructure_row_ok_def)

lemma infrastructure_types_of_status:
  assumes "infrastructure_types_of r = Inr typed"
  shows "varchar 50 ''status'' (i_status r) = Inr (i_status typed)"
proof -
  from assms obtain stac g st depth mat cap where
    st: "varchar 50 ''status'' (i_status r) = Inr st"
    and t: "typed = r\<lparr>i_stac_id := stac, i_geometry := g, i_status := st, i_depth_meters := depth,
              i_material := mat, i_capacity := cap\<rparr>"
    unfolding infrastructure_types_of_def andThen_Inr by auto
  from st t show ?thesis by simp
qed

lemma clip_from_count: "chars_from k (clip_from limit k s) = min limit (chars_from k s)"
  by (induction limit k s rule: clip_from.induct) simp_all

lemma inserted_status:
  assumes "insert_infrastructure generated now ins d = Inr d'"
  shows "\<exists>r. urban_infrastructure d' = urban_infrastructure d @ [r]
           \<and> i_status r = (case ins_status ins of
                             DEFAULT \<Rightarrow> Some ''active''
                           | VALUE None \<Rightarrow> None
                           | VALUE (Some s) \<Rightarrow> Some (charclip 50 s))
           \<and> (\<forall>s. ins_status ins = VALUE (Some s) \<longrightarrow>
                 list_all (\<lambda>c. c = CHR '' '') (drop (length (charclip 50 s)) s))"
proof -
  from assms obtain r where
    t: "infrastructure_types_of (infrastructure_new generated now ins) = Inr r"
    and d': "d' = d\<lparr>urban_infrastructure := urban_infrastructure d @ [r]\<rparr>"
    by (rule insert_infrastructure_Inr)
  let ?given = "or_default (Some ''active'') (ins_status ins)"
  have v: "varchar 50 ''status'' ?given = Inr (i_status r)"
    using infrastructure_types_of_status [OF t] by (simp add: infrastructure_new_def)
  have "i_status r = (case ins_status ins of
                             DEFAULT \<Rightarrow> Some ''active''
                           | VALUE None \<Rightarrow> None
                           | VALUE (Some s) \<Rightarrow> Some (charclip 50 s))
        \<and> (\<forall>s. ins_status ins = VALUE (Some s) \<longrightarrow>
                 list_all (\<lambda>c. c = CHR '' '') (drop (length (charclip 50 s)) s))"
  proof (cases "ins_status ins")
    case DEFAULT
    with v show ?thesis by (simp add: varchar_short)
  next
    case (VALUE given)
    with v show ?thesis
      by (cases given) (simp_all add: varchar_None varchar_cases split: if_splits)
  qed
  with d' show ?thesis by simp
qed

text \<open>
  C4, amended. The \<open>status\<close> of an infrastructure row is \<open>NULL\<close> or a string of at most
  50 characters, in every database reached from the created schema. A row inserted
  without a status gets \<open>active\<close>. A row inserted with a status gets \<open>NULL\<close> for \<open>NULL\<close> and
  otherwise the first 50 characters of the string given, which is the whole string when it
  has at most 50 characters; and the rest of a longer string is all spaces, for an insert
  that would cut off anything else raises an error. The four names of the schema's comment
  are not enforced.
\<close>

theorem status_column:
  "list_all (\<lambda>r. case i_status r of None \<Rightarrow> True | Some s \<Rightarrow> char_length s \<le> 50)
     (urban_infrastructure (execute_all sts (created ops types)))
   \<and> (insert_infrastructure generated now ins d = Inr d' \<longrightarrow>
        (\<exists>r. urban_infrastructure d' = urban_infrastructure d @ [r]
           \<and> i_status r = (case ins_status ins of
                             DEFAULT \<Rightarrow> Some ''active''
                           | VALUE None \<Rightarrow> None
                           | VALUE (Some s) \<Rightarrow> Some (charclip 50 s))))
   \<and> (ins_status ins = VALUE (Some given)
        \<and> \<not> list_all (\<lambda>c. c = CHR '' '') (drop (length (charclip 50 given)) given) \<longrightarrow>
        (\<exists>e. insert_infrastructure generated now ins d = Inl e))
   \<and> (charclip 50 given = given \<longleftrightarrow> char_length given \<le> 50)
   \<and> take (length (charclip 50 given)) given = charclip 50 given
   \<and> char_length (charclip 50 given) = min 50 (char_length given)"
proof -
  have reach: "list_all (\<lambda>r. case i_status r of None \<Rightarrow> True | Some s \<Rightarrow> char_length s \<le> 50)
     (urban_infrastructure (execute_all sts (created ops types)))"
    using execute_all_keeps [OF created_ok, of sts ops types] infrastructure_ok_status by blast
  have ins: "\<exists>r. urban_infrastructure d' = urban_infrastructure d @ [r]
           \<and> i_status r = (case ins_status ins of
                             DEFAULT \<Rightarrow> Some ''active''
                           | VALUE None \<Rightarrow> None
                           | VALUE (Some s) \<Rightarrow> Some (charclip 50 s))"
    if "insert_infrastructure generated now ins d = Inr d'"
    using inserted_status [OF that] by blast
  have refused: "\<exists>e. insert_infrastructure generated now ins d = Inl e"
    if h: "ins_status ins = VALUE (Some given)"
      "\<not> list_all (\<lambda>c. c = CHR '' '') (drop (length (charclip 50 given)) given)"
  proof (cases "insert_infrastructure generated now ins d")
    case (Inl e)
    then show ?thesis by blast
  next
    case (Inr stored)
    from inserted_status [OF Inr] h show ?thesis by blast
  qed
  have clip: "take (length (charclip 50 given)) given = charclip 50 given"
    "char_length (charclip 50 given) = min 50 (char_length given)"
    by (simp_all add: charclip_def char_length_def clip_from_prefix clip_from_count)
  from reach ins refused clip charclip_fits [of 50 given] show ?thesis by blast
qed

text \<open>C4 as stated fails: a row with the status \<open>inactive\<close> is persisted.\<close>

theorem status_column_counterexample:
  "map i_status (urban_infrastructure (execute_all
       [InsertInfrastructure ''uuid-1'' ''2025-06-01''
          (pipe_insert\<lparr>ins_status := VALUE (Some ''inactive'')\<rparr>)] fresh))
     = [Some ''inactive'']
   \<and> ''inactive'' \<notin> set four_statuses"
  by (simp add: schema_eval four_statuses_def)

lemma clip_from_char:
  "0 < limit \<Longrightarrow> clip_from limit 0 (c # cs) = c # clip_from (limit - 1) (utf_mblen c - 1) cs"
  by (cases limit) simp_all

lemma clip_from_skip: "0 < k \<Longrightarrow> clip_from limit k (c # cs) = c # clip_from limit (k - 1) cs"
  by (cases k) simp_all

lemma chars_from_skip: "0 < k \<Longrightarrow> chars_from k (c # cs) = chars_from (k - 1) cs"
  by (cases k) simp_all

text \<open>
  Three statuses: thirty times the letter schwa, 30 characters in 60 bytes; \<open>active\<close>
  followed by fifty spaces; and 51 times the letter x.
\<close>

lemma thirty_schwas:
  "char_length (concat (replicate 30 [CHR 0xC9, CHR 0x99])) = 30"
  "length (concat (replicate 30 [CHR 0xC9, CHR 0x99])) = 60"
  "charclip 50 (concat (replicate 30 [CHR 0xC9, CHR 0x99]))
     = concat (replicate 30 [CHR 0xC9, CHR 0x99])"
proof -
  show n: "char_length (concat (replicate 30 [CHR 0xC9, CHR 0x99])) = 30"
    by (simp add: char_length_def eval_nat_numeral utf_mblen_def)
  show "length (concat (replicate 30 [CHR 0xC9, CHR 0x99])) = 60"
    by (simp add: eval_nat_numeral)
  from n show "charclip 50 (concat (replicate 30 [CHR 0xC9, CHR 0x99]))
     = concat (replicate 30 [CHR 0xC9, CHR 0x99])"
    by (simp add: charclip_fits)
qed

lemma padded_active:
  "charclip 50 (''active'' @ replicate 50 CHR '' '') = ''active'' @ replicate 44 CHR '' ''"
  by (simp add: charclip_def clip_from_char clip_from_skip utf_mblen_def eval_nat_numeral)

lemma fifty_one:
  "charclip 50 (replicate 51 CHR ''x'') = replicate 50 CHR ''x''"
  by (simp add: charclip_def utf_mblen_def eval_nat_numeral)

lemma status_examples:
  "map i_status (urban_infrastructure (execute_all
        [InsertInfrastructure ''uuid-1'' ''2025-06-01''
           (pipe_insert\<lparr>ins_status := VALUE None\<rparr>)] fresh)) = [None]"
  "map i_status (urban_infrastructure (execute_all
        [InsertInfrastructure ''uuid-1'' ''2025-06-01''
           (pipe_insert\<lparr>ins_status := VALUE (Some (concat (replicate 30 [CHR 0xC9, CHR 0x99])))\<rparr>)]
        fresh)) = [Some (concat (replicate 30 [CHR 0xC9, CHR 0x99]))]"
  "map i_status (urban_infrastructure (execute_all
        [InsertInfrastructure ''uuid-1'' ''2025-06-01''
           (pipe_insert\<lparr>ins_status := VALUE (Some (''active'' @ replicate 50 CHR '' ''))\<rparr>)]
        fresh)) = [Some (''active'' @ replicate 44 CHR '' '')]"
  "execute_all
        [InsertInfrastructure ''uuid-1'' ''2025-06-01''
           (pipe_insert\<lparr>ins_status := VALUE (Some (replicate 51 CHR ''x''))\<rparr>)] fresh = fresh"
proof -
  show "map i_status (urban_infrastructure (execute_all
        [InsertInfrastructure ''uuid-1'' ''2025-06-01''
           (pipe_insert\<lparr>ins_status := VALUE None\<rparr>)] fresh)) = [None]"
    by (simp add: schema_eval)
  have stored: "map i_status (urban_infrastructure (execute_all
        [InsertInfrastructure ''uuid-1'' ''2025-06-01''
           (pipe_insert\<lparr>ins_status := VALUE (Some given)\<rparr>)] fresh)) = [Some kept]"
    if "varchar 50 ''status'' (Some given) = Inr (Some kept)" for given kept
    using that by (simp add: schema_eval)
  have refused: "execute_all
        [InsertInfrastructure ''uuid-1'' ''2025-06-01''
           (pipe_insert\<lparr>ins_status := VALUE (Some given)\<rparr>)] fresh = fresh"
    if "varchar 50 ''status'' (Some given) = Inl e" for given e
    using that by (simp add: schema_eval)
  have a: "varchar 50 ''status'' (Some (concat (replicate 30 [CHR 0xC9, CHR 0x99])))
      = Inr (Some (concat (replicate 30 [CHR 0xC9, CHR 0x99])))"
    by (simp add: varchar_cases thirty_schwas)
  from stored [OF a] show "map i_status (urban_infrastructure (execute_all
        [InsertInfrastructure ''uuid-1'' ''2025-06-01''
           (pipe_insert\<lparr>ins_status := VALUE (Some (concat (replicate 30 [CHR 0xC9, CHR 0x99])))\<rparr>)]
        fresh)) = [Some (concat (replicate 30 [CHR 0xC9, CHR 0x99]))]" .
  have b: "varchar 50 ''status'' (Some (''active'' @ replicate 50 CHR '' ''))
      = Inr (Some (''active'' @ replicate 44 CHR '' ''))"
    unfolding varchar_cases padded_active by (simp add: eval_nat_numeral)
  from stored [OF b] show "map i_status (urban_infrastructure (execute_all
        [InsertInfrastructure ''uuid-1'' ''2025-06-01''
           (pipe_insert\<lparr>ins_status := VALUE (Some (''active'' @ replicate 50 CHR '' ''))\<rparr>)]
        fresh)) = [Some (''active'' @ replicate 44 CHR '' '')]" .
  have c: "varchar 50 ''status'' (Some (replicate 51 CHR ''x''))
      = Inl (StringDataRightTruncation ''status'')"
    unfolding varchar_cases fifty_one by (simp add: eval_nat_numeral)
  from refused [OF c] show "execute_all
        [InsertInfrastructure ''uuid-1'' ''2025-06-01''
           (pipe_insert\<lparr>ins_status := VALUE (Some (replicate 51 CHR ''x''))\<rparr>)] fresh = fresh" .
qed

text \<open>
  The pipe without a status, with the status \<open>NULL\<close>, with a status of 30 characters in
  60 bytes, with \<open>active\<close> and fifty spaces, of which 44 are kept, and with one of
  51 letters, which is refused.
\<close>

theorem status_column_witness:
  "insert_infrastructure ''uuid-1'' ''2025-06-01'' pipe_insert fresh
       = Inr (fresh\<lparr>urban_infrastructure := [pipe_row]\<rparr>)
   \<and> ins_status pipe_insert = DEFAULT
   \<and> i_status pipe_row = Some ''active''
   \<and> map i_status (urban_infrastructure (execute_all
        [InsertInfrastructure ''uuid-1'' ''2025-06-01''
           (pipe_insert\<lparr>ins_status := VALUE None\<rparr>)] fresh)) = [None]
   \<and> char_length (concat (replicate 30 [CHR 0xC9, CHR 0x99])) = 30
   \<and> length (concat (replicate 30 [CHR 0xC9, CHR 0x99])) = 60
   \<and> map i_status (urban_infrastructure (execute_all
        [InsertInfrastructure ''uuid-1'' ''2025-06-01''
           (pipe_insert\<lparr>ins_status := VALUE (Some (concat (replicate 30 [CHR 0xC9, CHR 0x99])))\<rparr>)]
        fresh)) = [Some (concat (replicate 30 [CHR 0xC9, CHR 0x99]))]
   \<and> map i_status (urban_infrastructure (execute_all
        [InsertInfrastructure ''uuid-1'' ''2025-06-01''
           (pipe_insert\<lparr>ins_status := VALUE (Some (''active'' @ replicate 50 CHR '' ''))\<rparr>)]
        fresh)) = [Some (''active'' @ replicate 44 CHR '' '')]
   \<and> charclip 50 (replicate 51 CHR ''x'') = replicate 50 CHR ''x''
   \<and> (\<exists>e. insert_infrastructure ''uuid-1'' ''2025-06-01''
              (pipe_insert\<lparr>ins_status := VALUE (Some (replicate 51 CHR ''x''))\<rparr>) fresh = Inl e)
   \<and> execute_all
        [InsertInfrastructure ''uuid-1'' ''2025-06-01''
           (pipe_insert\<lparr>ins_status := VALUE (Some (replicate 51 CHR ''x''))\<rparr>)] fresh = fresh"
proof -
  note t = status_column [where sts = "[]" and generated = "''uuid-1''" and now = "''2025-06-01''"
      and ins = pipe_insert and d = fresh
      and d' = "fresh\<lparr>urban_infrastructure := [pipe_row]\<rparr>", THEN conjunct2, THEN conjunct1]
  note u = status_column [where sts = "[]" and generated = "''uuid-1''" and now = "''2025-06-01''"
      and ins = "pipe_insert\<lparr>ins_status := VALUE (Some (replicate 51 CHR ''x''))\<rparr>"
      and d = fresh and given = "replicate 51 CHR ''x''",
      THEN conjunct2, THEN conjunct2, THEN conjunct1]
  have dflt: "ins_status pipe_insert = DEFAULT"
    by (simp add: pipe_insert_def default_values_def)
  from t pipe_inserted dflt have active: "i_status pipe_row = Some ''active''"
    by (auto simp: fresh_def created_def)
  have "\<not> list_all (\<lambda>c. c = CHR '' '')
            (drop (length (charclip 50 (replicate 51 CHR ''x''))) (replicate 51 CHR ''x''))"
    unfolding fifty_one by (simp add: eval_nat_numeral)
  with u have refused: "\<exists>e. insert_infrastructure ''uuid-1'' ''2025-06-01''
              (pipe_insert\<lparr>ins_status := VALUE (Some (replicate 51 CHR ''x''))\<rparr>) fresh = Inl e"
    by simp
  from active refused pipe_inserted dflt status_examples thirty_schwas(1,2) fifty_one
  show ?thesis by simp
qed

section \<open>Properties of the import endpoint\<close>

lemma first_rejection_simps:
  "first_rejection c cat [] = None"
  "first_rejection c cat (f # fs) =
     (if wellFormed c cat f then first_rejection c cat fs else validate c (detect cat f) f)"
  by (simp_all add: first_rejection_def)

lemma import_feature_accepted:
  "wellFormed c cat f \<Longrightarrow>
     import_feature c cat s f =
       s\<lparr>sum_total := sum_total s + 1, sum_imported := sum_imported s + 1,
         to_infrastructure := to_infrastructure s @ (if detect cat f = Infrastructure then [f] else []),
         to_buildings := to_buildings s @ (if detect cat f = Buildings then [f] else [])\<rparr>"
  by (cases "detect cat f") (simp_all add: import_feature_def wellFormed_def Let_def)

lemma import_feature_rejected:
  "\<not> wellFormed c cat f \<Longrightarrow>
     import_feature c cat s f =
       s\<lparr>sum_total := sum_total s + 1, sum_errors := sum_errors s + 1,
         sum_first_error := (case sum_first_error s of
                               None \<Rightarrow> validate c (detect cat f) f
                             | Some w \<Rightarrow> Some w)\<rparr>"
  by (auto simp: import_feature_def wellFormed_def Let_def split: option.splits)

lemma import_fold:
  "foldl (import_feature c cat) s fs =
     s\<lparr>sum_total := sum_total s + length fs,
       sum_imported := sum_imported s + length (filter (wellFormed c cat) fs),
       sum_errors := sum_errors s + length (filter (\<lambda>f. \<not> wellFormed c cat f) fs),
       sum_first_error := (case sum_first_error s of
                             None \<Rightarrow> first_rejection c cat fs
                           | Some w \<Rightarrow> Some w),
       to_infrastructure := to_infrastructure s
          @ filter (\<lambda>f. wellFormed c cat f \<and> detect cat f = Infrastructure) fs,
       to_buildings := to_buildings s
          @ filter (\<lambda>f. wellFormed c cat f \<and> detect cat f = Buildings) fs\<rparr>"
proof (induction fs arbitrary: s)
  case Nil
  then show ?case by (simp add: first_rejection_simps split: option.splits)
next
  case (Cons f fs)
  show ?case
  proof (cases "wellFormed c cat f")
    case True
    then show ?thesis
      by (simp add: Cons.IH import_feature_accepted first_rejection_simps split: option.splits)
  next
    case False
    then have "validate c (detect cat f) f \<noteq> None" by (simp add: wellFormed_def)
    with False show ?thesis
      by (auto simp: Cons.IH import_feature_rejected first_rejection_simps split: option.splits)
  qed
qed

lemma import_file_summary:
  "import_file c cat (Some fs) =
     Inr \<lparr>sum_total = length fs,
          sum_imported = length (filter (wellFormed c cat) fs),
          sum_errors = length (filter (\<lambda>f. \<not> wellFormed c cat f) fs),
          sum_first_error = first_rejection c cat fs,
          to_infrastructure = filter (\<lambda>f. wellFormed c cat f \<and> detect cat f = Infrastructure) fs,
          to_buildings = filter (\<lambda>f. wellFormed c cat f \<and> detect cat f = Buildings) fs\<rparr>"
  by (simp add: import_file_def import_fold empty_summary_def)

text \<open>
  C1. For a file that parses as a feature collection, the import returns a summary whose
  \<open>imported\<close> is the number of features that pass detection and validation, whose \<open>errors\<close>
  is the number of those that do not, and whose \<open>total\<close> is their sum, the number of
  features; the first error kept is that of the first rejected feature.
\<close>

theorem import_counts:
  "\<exists>s. import_file coordinates_ok operator_category (Some features) = Inr s
      \<and> sum_imported s = length (filter (wellFormed coordinates_ok operator_category) features)
      \<and> sum_errors s
          = length (filter (\<lambda>f. \<not> wellFormed coordinates_ok operator_category f) features)
      \<and> sum_total s = sum_imported s + sum_errors s
      \<and> sum_total s = length features
      \<and> sum_first_error s = first_rejection coordinates_ok operator_category features
      \<and> length (to_infrastructure s) + length (to_buildings s) = sum_imported s"
proof -
  have split: "length (filter (wellFormed coordinates_ok operator_category) features)
      + length (filter (\<lambda>f. \<not> wellFormed coordinates_ok operator_category f) features)
      = length features"
    by (rule sum_length_filter_compl)
  have tables: "length (filter (\<lambda>f. wellFormed coordinates_ok operator_category f
                    \<and> detect operator_category f = Infrastructure) features)
      + length (filter (\<lambda>f. wellFormed coordinates_ok operator_category f
                    \<and> detect operator_category f = Buildings) features)
      = length (filter (wellFormed coordinates_ok operator_category) features)"
    by (induction features) (auto, (metis detected.exhaust)+)
  from split tables show ?thesis
    by (simp add: import_file_summary)
qed

lemma example_features_checked:
  "wellFormed hasCoordinates ''water'' waterMain"
  "\<not> wellFormed hasCoordinates ''water'' noGeometry"
  "wellFormed hasCoordinates ''water'' towerBlock"
  "\<not> wellFormed hasCoordinates ''water'' multiLine"
  "validate hasCoordinates (detect ''water'' noGeometry) noGeometry
     = Some MissingGeometry"
  "detect ''water'' towerBlock = Buildings"
  by (simp_all add: wellFormed_def validate_def detect_def geometry_family_def propOpt_def
      waterMain_def noGeometry_def towerBlock_def multiLine_def Let_def hasCoordinates_def)

text \<open>Two features that pass, one without geometry and one of a type outside the family.\<close>

theorem import_counts_witness:
  "\<exists>s. import_file hasCoordinates ''water''
         (Some [waterMain, noGeometry, towerBlock, multiLine]) = Inr s
      \<and> sum_imported s = 2 \<and> sum_errors s = 2 \<and> sum_total s = 4
      \<and> sum_first_error s = Some MissingGeometry"
  using import_counts [of hasCoordinates "''water''"
      "[waterMain, noGeometry, towerBlock, multiLine]"]
  by (auto simp: example_features_checked first_rejection_simps numeral_2_eq_2 eval_nat_numeral)

section \<open>Properties of the buildings table\<close>

lemma update_building_rows_all:
  assumes P: "\<And>r. building_row_ok r \<Longrightarrow> P r"
  shows "\<forall>r \<in> set (visited @ rest). P r \<Longrightarrow>
   update_building_rows d matches assign now visited rest = Inr rows \<Longrightarrow>
   \<forall>r \<in> set rows. P r"
proof (induction rest arbitrary: visited)
  case Nil
  then show ?case by simp
next
  case (Cons r rest)
  show ?case
  proof (cases "matches r")
    case False
    with Cons.prems have "update_building_rows d matches assign now (visited @ [r]) rest = Inr rows"
      by simp
    with Cons.IH [of "visited @ [r]"] Cons.prems(1) show ?thesis by simp
  next
    case True
    with Cons.prems(2) obtain typed where
      t: "building_types_of (assign r) = Inr typed"
      and c: "building_constraints d (visited @ rest) (typed\<lparr>b_updated_at := Some now\<rparr>) = Inr ()"
      and u: "update_building_rows d matches assign now
                (visited @ [typed\<lparr>b_updated_at := Some now\<rparr>]) rest = Inr rows"
      by (auto simp: andThen_Inr Let_def)
    let ?new = "typed\<lparr>b_updated_at := Some now\<rparr>"
    have ok: "P ?new" by (rule P [OF building_checked_ok [OF t c]])
    from Cons.prems(1) ok have all: "\<forall>r \<in> set ((visited @ [?new]) @ rest). P r" by auto
    from Cons.IH [OF all u] show ?thesis .
  qed
qed

lemma polygons_only_alt:
  "polygons_only rows \<longleftrightarrow>
     (\<forall>r \<in> set rows. case b_geometry r of None \<Rightarrow> False
                            | Some g \<Rightarrow> geom_type g = POLYGON \<and> srid g = 4326)"
  by (simp add: polygons_only_def list_all_iff)

lemma building_row_ok_polygon:
  "building_row_ok r \<Longrightarrow>
     (case b_geometry r of None \<Rightarrow> False | Some g \<Rightarrow> geom_type g = POLYGON \<and> srid g = 4326)"
  by (simp add: building_row_ok_def)

lemma insert_building_polygons:
  assumes "polygons_only (urban_buildings d)"
    and "insert_building generated now ins d = Inr d'"
  shows "polygons_only (urban_buildings d')"
proof -
  from assms(2) obtain r where
    t: "building_types_of (building_new generated now ins) = Inr r"
    and c: "building_constraints d (urban_buildings d) r = Inr ()"
    and d': "d' = d\<lparr>urban_buildings := urban_buildings d @ [r]\<rparr>"
    by (rule insert_building_Inr)
  have "building_row_ok r"
    using building_types_of_Inr(3) [OF t] building_constraints_Inr(1,2) [OF c]
    by (auto simp: building_row_ok_def split: option.splits)
  with assms(1) d' building_row_ok_polygon [of r] show ?thesis
    by (auto simp: polygons_only_alt)
qed

lemma update_building_polygons:
  assumes "polygons_only (urban_buildings d)"
    and "update_building matches assign now d = Inr d'"
  shows "polygons_only (urban_buildings d')"
proof -
  let ?P = "\<lambda>r. case b_geometry r of None \<Rightarrow> False
                   | Some g \<Rightarrow> geom_type g = POLYGON \<and> srid g = 4326"
  from assms(2) obtain rows where
    u: "update_building_rows d matches assign now [] (urban_buildings d) = Inr rows"
    and d': "d' = d\<lparr>urban_buildings := rows\<rparr>"
    unfolding update_building_def andThen_Inr by auto
  have "\<forall>r \<in> set rows. ?P r"
  proof (rule update_building_rows_all [where P = ?P and visited = "[]", OF _ _ u])
    show "?P r" if "building_row_ok r" for r using that by (rule building_row_ok_polygon)
    show "\<forall>r \<in> set ([] @ urban_buildings d). ?P r"
      using assms(1) unfolding polygons_only_alt by simp
  qed
  with d' show ?thesis unfolding polygons_only_alt by simp
qed

lemma andThen_isl_first: "isl r \<Longrightarrow> isl (andThen r k)"
  by (cases r) (simp_all add: andThen_def)

lemma andThen_isl_second: "(\<And>v. isl (k v)) \<Longrightarrow> isl (andThen r k)"
  by (cases r) (simp_all add: andThen_def)

lemma insert_building_not_polygon:
  assumes "insb_geometry ins = VALUE (Some g)" and "geom_type g \<noteq> POLYGON"
  shows "isl (insert_building generated now ins d)"
proof -
  have "isl (geometry_column (ONLY POLYGON) 4326 ''geometry''
               (b_geometry (building_new generated now ins)))"
    using assms by (simp add: geometry_column_def building_new_def Let_def)
  then have "isl (building_types_of (building_new generated now ins))"
    unfolding building_types_of_def
    by (intro andThen_isl_second andThen_isl_first)
  then show ?thesis
    unfolding insert_building_def by (rule andThen_isl_first)
qed

lemma import_to_buildings:
  assumes "import_file coordinates_ok operator_category (Some features) = Inr s"
    and "f \<in> set (to_buildings s)"
  shows "\<exists>g. geometry f = Some g \<and> gtype g = ''Polygon''"
proof -
  from assms have "wellFormed coordinates_ok operator_category f"
    and "detect operator_category f = Buildings"
    by (auto simp: import_file_summary)
  then show ?thesis
    by (auto simp: wellFormed_def validate_def geometry_family_def split: option.splits if_splits)
qed

text \<open>
  C6. In every database reached from the created schema each building row has a geometry
  of type Polygon and SRID 4326, so none holds a point, a line or a multi-geometry; each
  successful insert or update keeps that; and an insert into the buildings table whose
  geometry is not a polygon, as an import of such a feature would issue, raises and stores
  nothing.
\<close>

theorem buildings_polygons_only:
  "polygons_only (urban_buildings (execute_all sts (created ops types)))
   \<and> (polygons_only (urban_buildings d) \<and> insert_building generated now ins d = Inr d' \<longrightarrow>
        polygons_only (urban_buildings d'))
   \<and> (polygons_only (urban_buildings d) \<and> update_building matches assign now d = Inr d' \<longrightarrow>
        polygons_only (urban_buildings d'))
   \<and> (insb_geometry ins = VALUE (Some g) \<and> geom_type g \<noteq> POLYGON \<longrightarrow>
        isl (insert_building generated now ins d)
        \<and> execute_all [InsertBuilding generated now ins] d = d)"
proof -
  have reach: "polygons_only (urban_buildings (execute_all sts (created ops types)))"
    using execute_all_keeps [OF created_ok, of sts ops types] buildings_ok_polygons by blast
  have refused: "isl (insert_building generated now ins d)
        \<and> execute_all [InsertBuilding generated now ins] d = d"
    if "insb_geometry ins = VALUE (Some g)" "geom_type g \<noteq> POLYGON"
  proof -
    from that have "isl (insert_building generated now ins d)"
      by (rule insert_building_not_polygon)
    then show ?thesis by (cases "insert_building generated now ins d") simp_all
  qed
  have ins: "polygons_only (urban_buildings d) \<and> insert_building generated now ins d = Inr d' \<longrightarrow>
        polygons_only (urban_buildings d')"
    using insert_building_polygons [of d generated now ins d'] by simp
  have upd: "polygons_only (urban_buildings d) \<and> update_building matches assign now d = Inr d' \<longrightarrow>
        polygons_only (urban_buildings d')"
    using update_building_polygons [of d matches assign now d'] by simp
  from reach ins upd refused show ?thesis by simp
qed

text \<open>A block goes in; a line is refused and the table stays as it was.\<close>

theorem buildings_polygons_only_witness:
  "polygons_only (urban_buildings fresh)
   \<and> insert_building ''uuid-2'' ''2025-06-01'' block_insert fresh
       = Inr (fresh\<lparr>urban_buildings := [block_row]\<rparr>)
   \<and> polygons_only [block_row]
   \<and> insert_building ''uuid-4'' ''2025-06-02''
         (block_insert\<lparr>insb_geometry := VALUE (Some pipe_geometry)\<rparr>) fresh
       = Inl (GeometryTypeMismatch ''geometry'')
   \<and> execute_all [InsertBuilding ''uuid-4'' ''2025-06-02''
         (block_insert\<lparr>insb_geometry := VALUE (Some pipe_geometry)\<rparr>)] fresh = fresh"
proof -
  note t = buildings_polygons_only [where sts = "[]" and ops = "[azersu]" and types = "[water_main]"
      and d = fresh and generated = "''uuid-2''" and now = "''2025-06-01''" and ins = block_insert
      and d' = "fresh\<lparr>urban_buildings := [block_row]\<rparr>"]
  note u = buildings_polygons_only [where d = fresh and generated = "''uuid-4''"
      and now = "''2025-06-02''" and g = pipe_geometry
      and ins = "block_insert\<lparr>insb_geometry := VALUE (Some pipe_geometry)\<rparr>"]
  have start: "polygons_only (urban_buildings fresh)" using t by (simp add: fresh_def)
  with t block_inserted have one: "polygons_only [block_row]" by simp
  have "geom_type pipe_geometry \<noteq> POLYGON" by (simp add: pipe_geometry_def)
  with u have refused: "execute_all [InsertBuilding ''uuid-4'' ''2025-06-02''
         (block_insert\<lparr>insb_geometry := VALUE (Some pipe_geometry)\<rparr>)] fresh = fresh"
    by simp
  from start one refused block_inserted line_building_refused show ?thesis by simp
qed

text \<open>The import of a block and of a building drawn as a line keeps the block only.\<close>

lemma import_keeps_block:
  "import_file hasCoordinates ''building'' (Some [towerBlock, lineBuilding])
     = Inr \<lparr>sum_total = 2, sum_imported = 1, sum_errors = 1,
            sum_first_error = Some WrongGeometryFamily,
            to_infrastructure = [], to_buildings = [towerBlock]\<rparr>"
proof -
  have "wellFormed hasCoordinates ''building'' towerBlock"
    "\<not> wellFormed hasCoordinates ''building'' lineBuilding"
    "detect ''building'' towerBlock = Buildings"
    "validate hasCoordinates (detect ''building'' lineBuilding) lineBuilding
       = Some WrongGeometryFamily"
    by (simp_all add: wellFormed_def validate_def detect_def geometry_family_def propOpt_def
        towerBlock_def lineBuilding_def Let_def hasCoordinates_def)
  then show ?thesis
    by (simp add: import_file_summary first_rejection_simps)
qed

section \<open>Properties of the view\<close>

lemma map_of_filter_keys:
  "map_of (filter (\<lambda>(k, v). P k) l) k = (if P k then map_of l k else None)"
  by (induction l) auto

lemma object_concat_lookup:
  "map_of (object_concat left right) k =
     (case map_of right k of Some v \<Rightarrow> Some v | None \<Rightarrow> map_of left k)"
  by (simp add: object_concat_def map_of_append map_add_def map_of_filter_keys
      split: option.splits)

lemma left_join_member:
  assumes "(x, y) \<in> set (left_join xs ys on)"
  shows "x \<in> set xs"
    and "case y of None \<Rightarrow> filter (on x) ys = [] | Some y' \<Rightarrow> y' \<in> set ys \<and> on x y'"
proof -
  from assms obtain x' where x': "x' \<in> set xs"
    and m: "(x, y) \<in> set (case filter (on x') ys of
                              [] \<Rightarrow> [(x', None)]
                            | ms \<Rightarrow> map (\<lambda>y. (x', Some y)) ms)"
    by (auto simp: left_join_def)
  from m have same: "x = x'" by (auto split: list.splits)
  with x' show "x \<in> set xs" by simp
  show "case y of None \<Rightarrow> filter (on x) ys = [] | Some y' \<Rightarrow> y' \<in> set ys \<and> on x y'"
  proof (cases "filter (on x') ys")
    case Nil
    with m same show ?thesis by simp
  next
    case (Cons a as)
    with m same have "\<exists>y'. y = Some y' \<and> y' \<in> set (filter (on x) ys)" by auto
    then show ?thesis by auto
  qed
qed

lemma stac_items_member:
  assumes "item \<in> set (stac_items pg d)"
  shows "(\<exists>i o' t. i \<in> set (urban_infrastructure d) \<and> item = infrastructure_item pg i o' t
            \<and> operator_of d (i_operator_id i) o' \<and> type_of d (i_type_id i) t)
         \<or> (\<exists>b o'. b \<in> set (urban_buildings d) \<and> item = building_item pg b o'
            \<and> operator_of d (b_operator_id b) o')"
proof -
  let ?io = "left_join (urban_infrastructure d) (urban_operators d)
               (\<lambda>i o'. sql_eq (i_operator_id i) (o_id o'))"
  let ?iot = "left_join ?io (urban_infrastructure_types d) (\<lambda>(i, o') t. sql_eq (i_type_id i) (t_id t))"
  let ?bo = "left_join (urban_buildings d) (urban_operators d)
               (\<lambda>b o'. sql_eq (b_operator_id b) (o_id o'))"
  from assms consider
    (infra) i o' t where "((i, o'), t) \<in> set ?iot" "item = infrastructure_item pg i o' t"
    | (bldg) b o' where "(b, o') \<in> set ?bo" "item = building_item pg b o'"
    by (auto simp: stac_items_def)
  then show ?thesis
  proof cases
    case infra
    from left_join_member [OF infra(1)] have io: "(i, o') \<in> set ?io"
      and t: "type_of d (i_type_id i) t"
      by (simp_all add: type_of_def split: option.splits)
    from left_join_member [OF io] have "i \<in> set (urban_infrastructure d)"
      and "operator_of d (i_operator_id i) o'"
      by (simp_all add: operator_of_def split: option.splits)
    with t infra(2) show ?thesis by blast
  next
    case bldg
    from left_join_member [OF bldg(1)] have "b \<in> set (urban_buildings d)"
      and "operator_of d (b_operator_id b) o'"
      by (simp_all add: operator_of_def split: option.splits)
    with bldg(2) show ?thesis by blast
  qed
qed

lemma item_properties_object:
  "jsonb_concat (Some (JObj built)) (Some (JObj stored)) = Some (JObj (object_concat built stored))"
  "jsonb_concat (Some (JObj built)) None = None"
  by (simp_all add: jsonb_concat_def)

text \<open>
  The view, row by row. Every row of the view comes from an infrastructure row with the
  operator and type rows joined to it, or from a building row with its operator row. Its
  geometry is \<open>ST_AsGeoJSON\<close> of the stored geometry. When the stored properties are a JSON
  object, its properties are an object in which a key has the stored value if the stored
  properties have the key, and otherwise the value of the object built from the row and
  the joined rows (for the operator: name, code and colour; for infrastructure the type's
  name, code and category; for buildings the type, floors, year and name). When the
  stored properties are \<open>NULL\<close>, so are the view's.
\<close>

lemma stac_item_projection:
  "(item \<in> set (stac_items pg d) \<longrightarrow>
      (\<exists>i o' t. i \<in> set (urban_infrastructure d) \<and> item = infrastructure_item pg i o' t
          \<and> operator_of d (i_operator_id i) o' \<and> type_of d (i_type_id i) t)
      \<or> (\<exists>b o'. b \<in> set (urban_buildings d) \<and> item = building_item pg b o'
          \<and> operator_of d (b_operator_id b) o'))
   \<and> item_geometry (infrastructure_item pg i o' t) = map_option (ST_AsGeoJSON pg) (i_geometry i)
   \<and> item_geometry (building_item pg b o') = map_option (ST_AsGeoJSON pg) (b_geometry b)
   \<and> (i_properties i = Some (JObj stored) \<longrightarrow>
        (\<exists>merged. item_properties (infrastructure_item pg i o' t) = Some (JObj merged)
           \<and> (\<forall>k. map_of merged k =
                  (case map_of stored k of
                     Some v \<Rightarrow> Some v
                   | None \<Rightarrow> map_of (infrastructure_object i o' t) k))))
   \<and> (b_properties b = Some (JObj stored) \<longrightarrow>
        (\<exists>merged. item_properties (building_item pg b o') = Some (JObj merged)
           \<and> (\<forall>k. map_of merged k =
                  (case map_of stored k of
                     Some v \<Rightarrow> Some v
                   | None \<Rightarrow> map_of (building_object b o') k))))
   \<and> (i_properties i = None \<longrightarrow> item_properties (infrastructure_item pg i o' t) = None)
   \<and> (b_properties b = None \<longrightarrow> item_properties (building_item pg b o') = None)
   \<and> map (map_of (infrastructure_object i o' t))
         [''operator'', ''operator_code'', ''operator_color'', ''infrastructure_type'',
          ''type_code'', ''category'']
       = map Some [text_value (joined o_name o'), text_value (joined o_code o'),
           text_value (joined o_color o'), text_value (joined t_name t),
           text_value (joined t_code t), text_value (joined t_category t)]
   \<and> map (map_of (building_object b o'))
         [''operator'', ''operator_code'', ''operator_color'', ''building_type'', ''floors'',
          ''year_built'', ''name'']
       = map Some [text_value (joined o_name o'), text_value (joined o_code o'),
           text_value (joined o_color o'), text_value (b_building_type b),
           integer_value (b_floors b), integer_value (b_year_built b), text_value (b_name b)]"
proof -
  have geo: "item_geometry (infrastructure_item pg i o' t) = map_option (ST_AsGeoJSON pg) (i_geometry i)"
    "item_geometry (building_item pg b o') = map_option (ST_AsGeoJSON pg) (b_geometry b)"
    by (simp_all add: infrastructure_item_def building_item_def)
  have mi: "\<exists>merged. item_properties (infrastructure_item pg i o' t) = Some (JObj merged)
           \<and> (\<forall>k. map_of merged k =
                  (case map_of stored k of
                     Some v \<Rightarrow> Some v
                   | None \<Rightarrow> map_of (infrastructure_object i o' t) k))"
    if "i_properties i = Some (JObj stored)"
    using that by (simp add: infrastructure_item_def item_properties_object object_concat_lookup)
  have mb: "\<exists>merged. item_properties (building_item pg b o') = Some (JObj merged)
           \<and> (\<forall>k. map_of merged k =
                  (case map_of stored k of
                     Some v \<Rightarrow> Some v
                   | None \<Rightarrow> map_of (building_object b o') k))"
    if "b_properties b = Some (JObj stored)"
    using that by (simp add: building_item_def item_properties_object object_concat_lookup)
  have ni: "item_properties (infrastructure_item pg i o' t) = None" if "i_properties i = None"
    using that by (simp add: infrastructure_item_def item_properties_object)
  have nb: "item_properties (building_item pg b o') = None" if "b_properties b = None"
    using that by (simp add: building_item_def item_properties_object)
  have ki: "map (map_of (infrastructure_object i o' t))
         [''operator'', ''operator_code'', ''operator_color'', ''infrastructure_type'',
          ''type_code'', ''category'']
       = map Some [text_value (joined o_name o'), text_value (joined o_code o'),
           text_value (joined o_color o'), text_value (joined t_name t),
           text_value (joined t_code t), text_value (joined t_category t)]"
    by (simp add: infrastructure_object_def)
  have kb: "map (map_of (building_object b o'))
         [''operator'', ''operator_code'', ''operator_color'', ''building_type'', ''floors'',
          ''year_built'', ''name'']
       = map Some [text_value (joined o_name o'), text_value (joined o_code o'),
           text_value (joined o_color o'), text_value (b_building_type b),
           integer_value (b_floors b), integer_value (b_year_built b), text_value (b_name b)]"
    by (simp add: building_object_def)
  show ?thesis
    apply (intro conjI impI)
            apply (erule stac_items_member)
           apply (rule geo(1))
          apply (rule geo(2))
         apply (erule mi)
        apply (erule mb)
       apply (erule ni)
      apply (erule nb)
     apply (rule ki)
    apply (rule kb)
    done
qed

lemmas view_eval =
  stac_items_def left_join_def sql_eq_def infrastructure_item_def building_item_def
  infrastructure_object_def building_object_def jsonb_concat_def object_concat_def
  text_value_def numeric_value_def integer_value_def joined_def links_def example_postgis_def

text \<open>A pipe whose stored properties name a status of their own.\<close>

lemma stac_item_projection_example:
  "i_properties retired_pipe = Some (JObj [(''status'', JStr ''retired''), (''note'', JStr ''x'')])
   \<and> (\<exists>merged. map item_properties
           (stac_items example_postgis (fresh\<lparr>urban_infrastructure := [retired_pipe]\<rparr>))
         = [Some (JObj merged)]
       \<and> map_of merged ''status'' = Some (JStr ''retired'')
       \<and> map_of merged ''note'' = Some (JStr ''x'')
       \<and> map_of merged ''operator_code'' = Some (JStr ''azersu'')
       \<and> map_of merged ''category'' = Some (JStr ''water''))
   \<and> map item_geometry
         (stac_items example_postgis (fresh\<lparr>urban_infrastructure := [retired_pipe]\<rparr>))
       = [Some (JObj [(''type'', JStr ''LineString''),
            (''coordinates'', JArr [JArr [JNum (4983 / 100), JNum (4037 / 100)],
                                    JArr [JNum (4984 / 100), JNum (4038 / 100)]])])]"
proof -
  note t = stac_item_projection [where pg = example_postgis and i = retired_pipe
      and o' = "Some azersu" and t = "Some water_main"
      and stored = "[(''status'', JStr ''retired''), (''note'', JStr ''x'')]"]
  have stored: "i_properties retired_pipe
      = Some (JObj [(''status'', JStr ''retired''), (''note'', JStr ''x'')])"
    by (simp add: retired_pipe_def)
  have view: "stac_items example_postgis (fresh\<lparr>urban_infrastructure := [retired_pipe]\<rparr>)
      = [infrastructure_item example_postgis retired_pipe (Some azersu) (Some water_main)]"
    by (simp add: stac_items_def left_join_def sql_eq_def fresh_def created_def retired_pipe_def
        pipe_row_def azersu_def water_main_def)
  from t stored obtain merged where
    m: "item_properties (infrastructure_item example_postgis retired_pipe (Some azersu)
          (Some water_main)) = Some (JObj merged)"
    and l: "\<And>k. map_of merged k =
                  (case map_of [(''status'', JStr ''retired''), (''note'', JStr ''x'')] k of
                     Some v \<Rightarrow> Some v
                   | None \<Rightarrow> map_of (infrastructure_object retired_pipe (Some azersu)
                               (Some water_main)) k)"
    by blast
  have "map_of merged ''status'' = Some (JStr ''retired'')"
    "map_of merged ''note'' = Some (JStr ''x'')"
    "map_of merged ''operator_code'' = Some (JStr ''azersu'')"
    "map_of merged ''category'' = Some (JStr ''water'')"
    by (simp_all add: l infrastructure_object_def text_value_def joined_def azersu_def
        water_main_def)
  moreover have "item_geometry (infrastructure_item example_postgis retired_pipe (Some azersu)
          (Some water_main))
      = Some (JObj [(''type'', JStr ''LineString''),
            (''coordinates'', JArr [JArr [JNum (4983 / 100), JNum (4037 / 100)],
                                    JArr [JNum (4984 / 100), JNum (4038 / 100)]])])"
    using t by (simp add: example_postgis_def retired_pipe_def pipe_row_def pipe_geometry_def)
  ultimately show ?thesis using stored view m by simp
qed

text \<open>
  C7. The view's \<open>properties\<close> are meant to be the object built from the row and the joined
  reference tables, merged with the stored properties. For a pipe stored with the default
  \<open>'{}'\<close> they are; for the same pipe stored with \<open>NULL\<close> properties, which the column
  admits, the view's \<open>properties\<close> are \<open>NULL\<close> and the operator and type keys are lost.
\<close>

theorem stac_item_null_properties:
  "map item_properties (stac_items example_postgis (execute_all
       [InsertInfrastructure ''uuid-1'' ''2025-06-01'' pipe_insert] fresh))
     = [Some (JObj [(''datetime'', JStr ''2025-06-01''), (''operator'', JStr ''Azersu OJSC''),
                    (''operator_code'', JStr ''azersu''), (''operator_color'', JStr ''#1abc9c''),
                    (''infrastructure_type'', JStr ''Water Main Pipe''),
                    (''type_code'', JStr ''water_main''), (''category'', JStr ''water''),
                    (''status'', JStr ''active''), (''depth_meters'', JNull),
                    (''material'', JNull)])]
   \<and> map item_properties (stac_items example_postgis (execute_all
       [InsertInfrastructure ''uuid-1'' ''2025-06-01''
          (pipe_insert\<lparr>ins_properties := VALUE None\<rparr>)] fresh))
     = [None]"
  by (simp add: schema_eval view_eval)

end
